theory Spec2Isabelle
  imports Complex_Main
begin

section \<open>Python values used by the payment code\<close>

subsection \<open>Strings\<close>

text \<open>
  Python strings are modelled as HOL strings: a character stands for a code point below 256.
  \<open>str.strip()\<close> removes the characters for which \<open>str.isspace()\<close> holds; below 256 these
  are the code points 9 to 13, 28 to 32, 133 and 160.
\<close>

definition is_space :: "char \<Rightarrow> bool" where
  "is_space c = (of_char c \<in> {9, 10, 11, 12, 13, 28, 29, 30, 31, 32, 133, 160 :: nat})"

definition strip :: "string \<Rightarrow> string" where
  "strip s = rev (dropWhile is_space (rev (dropWhile is_space s)))"

text \<open>
  \<open>str.lower()\<close> on code points below 256: the ASCII capitals and the Latin-1 capitals
  192 to 222 (215, the multiplication sign, apart) move up by 32.
\<close>

definition lower_char :: "char \<Rightarrow> char" where
  "lower_char c =
     (let n = (of_char c :: nat)
      in if (65 \<le> n \<and> n \<le> 90) \<or> (192 \<le> n \<and> n \<le> 222 \<and> n \<noteq> 215)
         then char_of (n + 32) else c)"

definition lower :: "string \<Rightarrow> string" where
  "lower s = map lower_char s"

subsection \<open>Floats\<close>

text \<open>
  A Python float is an IEEE 754 double: a finite value, given by the real number it stands
  for, an infinity, or NaN. The sign of a zero is not kept.
\<close>

datatype pyfloat = Fin real | PInf | NInf | NaN

text \<open>Rounding to the nearest integer, a tie to the even one.\<close>

definition round_half_even :: "real \<Rightarrow> int" where
  "round_half_even x =
     (let f = \<lfloor>x\<rfloor>; d = x - of_int f
      in if d < 1 / 2 then f else if 1 / 2 < d then f + 1 else if even f then f else f + 1)"

text \<open>
  The number of binary digits of a natural number, and with it the exponent of a positive
  real: the \<open>e\<close> with \<open>2 ^ e \<le> x < 2 ^ (e + 1)\<close>.
\<close>

fun bit_length :: "nat \<Rightarrow> nat" where
  "bit_length n = (if n = 0 then 0 else Suc (bit_length (n div 2)))"

declare bit_length.simps [simp del]

definition ilog2 :: "real \<Rightarrow> int" where
  "ilog2 x = (if 1 \<le> x then int (bit_length (nat \<lfloor>x\<rfloor>)) - 1
              else - int (bit_length (nat (\<lceil>1 / x\<rceil> - 1))))"

definition pow2 :: "int \<Rightarrow> real" where
  "pow2 e = (if 0 \<le> e then 2 ^ nat e else 1 / 2 ^ nat (- e))"

text \<open>
  The double nearest to a real number, a tie to the one with the even significand. A double
  has 53 significant bits and no exponent below \<open>-1022\<close>, so near \<open>x\<close> the doubles are the
  multiples of \<open>2 ^ (max e (-1022) - 52)\<close>, \<open>e\<close> the exponent of \<open>x\<close>. The largest double is
  \<open>2 ^ 1024 - 2 ^ 971\<close>; from half a step above it on, the result is an infinity.
\<close>

definition round_double :: "real \<Rightarrow> pyfloat" where
  "round_double x =
     (if 2 ^ 1024 - 2 ^ 970 \<le> \<bar>x\<bar> then (if 0 < x then PInf else NInf)
      else if x = 0 then Fin 0
      else let q = pow2 (max (ilog2 \<bar>x\<bar>) (- 1022) - 52)
           in Fin (of_int (round_half_even (x / q)) * q))"

text \<open>
  The operations that the payment code applies to floats: \<open>abs(a)\<close>, \<open>a - b\<close>, \<open>a * b\<close>,
  \<open>a / 100.0\<close>, \<open>a < b\<close> (so \<open>a > b\<close> is \<open>flt b a\<close>), \<open>a <= b\<close>, and \<open>max(a, b)\<close>, which keeps
  its first argument unless the second is greater. A comparison with NaN is false.
\<close>

fun fabs :: "pyfloat \<Rightarrow> pyfloat" where
  "fabs (Fin x) = Fin \<bar>x\<bar>"
| "fabs PInf = PInf"
| "fabs NInf = PInf"
| "fabs NaN = NaN"

fun fsub :: "pyfloat \<Rightarrow> pyfloat \<Rightarrow> pyfloat" where
  "fsub (Fin x) (Fin y) = round_double (x - y)"
| "fsub NaN b = NaN"
| "fsub a NaN = NaN"
| "fsub PInf PInf = NaN"
| "fsub NInf NInf = NaN"
| "fsub PInf b = PInf"
| "fsub NInf b = NInf"
| "fsub (Fin x) PInf = NInf"
| "fsub (Fin x) NInf = PInf"

fun fmul :: "pyfloat \<Rightarrow> pyfloat \<Rightarrow> pyfloat" where
  "fmul (Fin x) (Fin y) = round_double (x * y)"
| "fmul NaN b = NaN"
| "fmul a NaN = NaN"
| "fmul (Fin x) b = (if x = 0 then NaN else if (0 < x) = (b = PInf) then PInf else NInf)"
| "fmul a (Fin y) = (if y = 0 then NaN else if (0 < y) = (a = PInf) then PInf else NInf)"
| "fmul a b = (if a = b then PInf else NInf)"

fun fdiv100 :: "pyfloat \<Rightarrow> pyfloat" where
  "fdiv100 (Fin x) = round_double (x / 100)"
| "fdiv100 a = a"

fun flt :: "pyfloat \<Rightarrow> pyfloat \<Rightarrow> bool" where
  "flt NaN b = False"
| "flt a NaN = False"
| "flt (Fin x) (Fin y) = (x < y)"
| "flt (Fin x) PInf = True"
| "flt NInf (Fin y) = True"
| "flt NInf PInf = True"
| "flt a b = False"

definition fle :: "pyfloat \<Rightarrow> pyfloat \<Rightarrow> bool" where
  "fle a b = (a \<noteq> NaN \<and> b \<noteq> NaN \<and> \<not> flt b a)"

definition py_max :: "pyfloat \<Rightarrow> pyfloat \<Rightarrow> pyfloat" where
  "py_max a b = (if flt a b then b else a)"

text \<open>
  \<open>round(x, 2)\<close>: the exact value of the double is rounded to the nearest hundredth, a tie to
  the even one, and the double nearest to that decimal is returned; an infinity and NaN
  round to themselves.
\<close>

definition round2 :: "real \<Rightarrow> real" where
  "round2 x = of_int (round_half_even (x * 100)) / 100"

fun py_round2 :: "pyfloat \<Rightarrow> pyfloat" where
  "py_round2 (Fin x) = round_double (round2 x)"
| "py_round2 a = a"

subsection \<open>JSON values and conversions\<close>

text \<open>A JSON value as \<open>json.loads\<close> returns it.\<close>

datatype jval =
    JNull
  | JBool bool
  | JInt int
  | JFloat pyfloat
  | JStr string
  | JList "jval list"
  | JDict "(string \<times> jval) list"

text \<open>The payment metadata: a Python dict with string keys.\<close>

type_synonym meta = "string \<rightharpoonup> jval"

definition setdefault :: "string \<Rightarrow> jval \<Rightarrow> meta \<Rightarrow> meta" where
  "setdefault k v m = (case m k of None \<Rightarrow> m(k \<mapsto> v) | Some _ \<Rightarrow> m)"

text \<open>
  What a \<open>metadata TEXT\<close> column holds, by what \<open>json.loads(raw or "{}")\<close> makes of it:
  NULL or the empty string, the JSON text of an object, or text that \<open>json.loads\<close> rejects.
  (Only \<open>json.dumps\<close> of a dict is ever written to these columns.)
\<close>

datatype meta_text = MEmpty | MObject meta | MInvalid

fun loads_or_empty :: "meta_text \<Rightarrow> meta" where
  "loads_or_empty MEmpty = Map.empty"
| "loads_or_empty (MObject m) = m"
| "loads_or_empty MInvalid = Map.empty"

text \<open>\<open>json.dumps(metadata or {})\<close>: \<open>None\<close> and the empty dict both store an empty object.\<close>

definition dumps_or_empty :: "meta option \<Rightarrow> meta_text" where
  "dumps_or_empty metadata = MObject (case metadata of None \<Rightarrow> Map.empty | Some m \<Rightarrow> m)"

section \<open>The SQLite store\<close>

text \<open>
  The column \<open>status\<close>. The functions below only compare it with \<open>'pending'\<close> and only
  write \<open>'paid'\<close>, so \<open>Paid\<close> stands for every status that is not \<open>'pending'\<close>.
\<close>

datatype tx_status = Pending | Paid

record pending_row =
  p_user_id :: int
  p_amount_rub :: "pyfloat option"
  p_metadata :: meta_text
  p_status :: tx_status
  p_created_at :: int
  p_updated_at :: int

record commission_row =
  c_bot_id :: int
  c_payment_id :: string
  c_user_id :: int
  c_amount_rub :: pyfloat
  c_commission_percent :: pyfloat
  c_commission_rub :: pyfloat
  c_payment_method :: "string option"

record tx_row =
  t_user_id :: int
  t_status :: tx_status
  t_amount_rub :: real
  t_amount_currency :: jval
  t_currency_name :: "string option"
  t_payment_method :: "string option"
  t_metadata :: meta_text

text \<open>
  The tables of \<open>users.db\<close> that the payment path reads and writes. \<open>pending_transactions\<close>
  and \<open>processed_payments\<close> have \<open>payment_id\<close> as primary key, \<open>transactions\<close> has it
  \<open>UNIQUE NOT NULL\<close>, \<open>users\<close> is keyed by \<open>telegram_id\<close> and holds the nullable
  \<open>balance\<close>; \<open>partner_commissions\<close> is a list of rows under \<open>UNIQUE(bot_id, payment_id)\<close>;
  \<open>vpn_keys\<close> is a list of rows, each with its \<open>key_id\<close>. Timestamps of the payment
  tables are seconds.

  The column \<open>missing_from_server_at\<close> of a key is read by \<open>_parse_missing_dt\<close>: NULL or
  the empty string, a time (UTC, in microseconds), or text that does not parse.
\<close>

datatype missing_mark = Unset | MissingAt int | Unparsable

record key_row =
  k_user_id :: int
  k_key_email :: string
  k_missing_from_server_at :: missing_mark

record db =
  pending_transactions :: "string \<rightharpoonup> pending_row"
  processed_payments :: "string \<rightharpoonup> int"
  partner_commissions :: "commission_row list"
  transactions :: "string \<rightharpoonup> tx_row"
  users :: "int \<rightharpoonup> real option"
  vpn_keys :: "(int \<times> key_row) list"

definition empty_db :: db where
  "empty_db = \<lparr>pending_transactions = Map.empty, processed_payments = Map.empty,
     partner_commissions = [], transactions = Map.empty, users = Map.empty,
     vpn_keys = []\<rparr>"

text \<open>
  What sqlite3 makes of a statement parameter. An integer has to fit 64 bits (binding a
  larger one raises \<open>OverflowError\<close>); a float that is NaN is stored as NULL.
\<close>

definition sqlite_integer :: "int \<Rightarrow> bool" where
  "sqlite_integer i = (- (2 ^ 63) \<le> i \<and> i < 2 ^ 63)"

definition sqlite_real :: "pyfloat option \<Rightarrow> pyfloat option" where
  "sqlite_real v = (if v = Some NaN then None else v)"

text \<open>
  What the store does to one attempt of a transaction: it runs, it fails with
  \<open>OperationalError: database is locked\<close>, or it fails with another \<open>sqlite3.Error\<close>.
  A failed attempt is rolled back and leaves the tables as they were.
\<close>

datatype attempt = Works | Locked | Broken

datatype sqlite_error = OperationalError_locked | Sqlite_Error

text \<open>
  \<open>_retry_sqlite(work, attempts=5)\<close>: the first argument counts the attempts left, the list
  gives the store's answer to each successive attempt (an exhausted list: the store works).
  A locked attempt is retried unless it was the last one; any other error is raised at once.
  Every caller leaves the attempts at five; with no attempt at all nothing is computed, which
  the first equation counts as a failure.
\<close>

fun retry_sqlite ::
  "nat \<Rightarrow> attempt list \<Rightarrow> (db \<Rightarrow> 'a \<times> db) \<Rightarrow> db \<Rightarrow> (sqlite_error + 'a) \<times> db" where
  "retry_sqlite 0 atts work s = (Inl Sqlite_Error, s)"
| "retry_sqlite (Suc n) [] work s = (Inr (fst (work s)), snd (work s))"
| "retry_sqlite (Suc n) (Works # atts) work s = (Inr (fst (work s)), snd (work s))"
| "retry_sqlite (Suc n) (Broken # atts) work s = (Inl Sqlite_Error, s)"
| "retry_sqlite (Suc n) (Locked # atts) work s =
     (if 0 < n then retry_sqlite n atts work s else (Inl OperationalError_locked, s))"

text \<open>Whether \<open>_retry_sqlite\<close> gets the work through under the store's answers.\<close>

fun goes_through :: "nat \<Rightarrow> attempt list \<Rightarrow> bool" where
  "goes_through 0 atts = False"
| "goes_through (Suc n) [] = True"
| "goes_through (Suc n) (Works # atts) = True"
| "goes_through (Suc n) (Broken # atts) = False"
| "goes_through (Suc n) (Locked # atts) = (0 < n \<and> goes_through n atts)"

subsection \<open>Pending ledger\<close>

text \<open>
  The upsert of \<open>create_payload_pending\<close>: \<open>INSERT ... ON CONFLICT(payment_id) DO UPDATE SET
  user_id, amount_rub, metadata, updated_at WHERE pending_transactions.status = 'pending'\<close>.
  The owner id is taken to fit 64 bits.
\<close>

definition upsert_pending ::
  "int \<Rightarrow> string \<Rightarrow> int \<Rightarrow> pyfloat option \<Rightarrow> meta option \<Rightarrow> db \<Rightarrow> bool \<times> db" where
  "upsert_pending now pid user_id amount_rub metadata s =
     (case pending_transactions s pid of
        None \<Rightarrow>
          (True, s\<lparr>pending_transactions := (pending_transactions s)(pid \<mapsto>
             \<lparr>p_user_id = user_id, p_amount_rub = sqlite_real amount_rub,
              p_metadata = dumps_or_empty metadata, p_status = Pending,
              p_created_at = now, p_updated_at = now\<rparr>)\<rparr>)
      | Some r \<Rightarrow>
          (if p_status r = Pending
           then (True, s\<lparr>pending_transactions := (pending_transactions s)(pid \<mapsto>
                   r\<lparr>p_user_id := user_id, p_amount_rub := sqlite_real amount_rub,
                     p_metadata := dumps_or_empty metadata, p_updated_at := now\<rparr>)\<rparr>)
           else (True, s)))"

definition create_payload_pending ::
  "attempt list \<Rightarrow> int \<Rightarrow> string \<Rightarrow> int \<Rightarrow> pyfloat option \<Rightarrow> meta option \<Rightarrow> db \<Rightarrow> bool \<times> db" where
  "create_payload_pending atts now payment_id user_id amount_rub metadata s =
     (let pid = strip payment_id
      in if pid = [] then (False, s)
         else (case retry_sqlite 5 atts (upsert_pending now pid user_id amount_rub metadata) s of
                 (Inr ok, s') \<Rightarrow> (ok, s')
               | (Inl e, s') \<Rightarrow> (False, s')))"




subsection \<open>Fulfillment guard\<close>

text \<open>
  \<open>INSERT OR IGNORE INTO processed_payments\<close>; the result is \<open>cursor.rowcount == 1\<close>.
\<close>

definition claim_work :: "int \<Rightarrow> string \<Rightarrow> db \<Rightarrow> bool \<times> db" where
  "claim_work now pid s =
     (case processed_payments s pid of
        None \<Rightarrow> (True, s\<lparr>processed_payments := (processed_payments s)(pid \<mapsto> now)\<rparr>)
      | Some _ \<Rightarrow> (False, s))"

definition claim_processed_payment :: "attempt list \<Rightarrow> int \<Rightarrow> string \<Rightarrow> db \<Rightarrow> bool \<times> db" where
  "claim_processed_payment atts now payment_id s =
     (let pid = strip payment_id
      in if pid = [] then (False, s)
         else (case retry_sqlite 5 atts (claim_work now pid) s of
                 (Inr ok, s') \<Rightarrow> (ok, s')
               | (Inl e, s') \<Rightarrow> (False, s')))"




subsection \<open>Sample stores\<close>

text \<open>
  A ledger in which intent \<open>p0\<close> is paid (created at time 1, completed at time 2) and
  intent \<open>p1\<close> of owner 42 for 300 is pending.
\<close>

definition p0_paid :: pending_row where
  "p0_paid = \<lparr>p_user_id = 41, p_amount_rub = Some (Fin 100), p_metadata = MObject Map.empty,
     p_status = Paid, p_created_at = 1, p_updated_at = 2\<rparr>"

definition p1_pending :: pending_row where
  "p1_pending = \<lparr>p_user_id = 42, p_amount_rub = Some (Fin 300),
     p_metadata = MObject [''action'' \<mapsto> JStr ''new''],
     p_status = Pending, p_created_at = 3, p_updated_at = 3\<rparr>"

definition sample_ledger :: db where
  "sample_ledger = empty_db\<lparr>pending_transactions := [''p0'' \<mapsto> p0_paid, ''p1'' \<mapsto> p1_pending]\<rparr>"




subsection \<open>Partner commission\<close>

text \<open>
  \<open>_is_card_payment_method\<close>. The source also excludes the Russian word for balance, which has
  code points above 255 and so equals no string of this model; it is outside the card set
  in any case.
\<close>

definition is_card_payment_method :: "string option \<Rightarrow> bool" where
  "is_card_payment_method method =
     (let m = lower (strip (case method of None \<Rightarrow> [] | Some x \<Rightarrow> x))
      in if m = [] then False
         else if m = ''balance'' then False
         else m \<in> {''yookassa'', ''platega'', ''heleket'', ''yoomoney''})"

definition FRANCHISE_PERCENT_DEFAULT :: pyfloat where
  "FRANCHISE_PERCENT_DEFAULT = Fin 35"

text \<open>
  \<open>INSERT OR IGNORE INTO partner_commissions\<close> under \<open>UNIQUE(bot_id, payment_id)\<close>; the
  result is \<open>cur.rowcount > 0\<close>.
\<close>

definition insert_commission :: "commission_row \<Rightarrow> db \<Rightarrow> bool \<times> db" where
  "insert_commission row s =
     (if \<exists>c \<in> set (partner_commissions s).
           c_bot_id c = c_bot_id row \<and> c_payment_id c = c_payment_id row
      then (False, s)
      else (True, s\<lparr>partner_commissions := partner_commissions s @ [row]\<rparr>))"

text \<open>
  \<open>accrue_partner_commission\<close>. The arguments are typed, so the conversions \<open>int(bot_id or 0)\<close>,
  \<open>int(user_id)\<close> and \<open>float(amount_rub)\<close> succeed and change nothing. The commission is
  \<open>round(amt * p / 100.0, 2)\<close> in float arithmetic. Any exception of the insert is caught and
  gives \<open>False\<close>: a failure of the store, or an id that does not fit 64 bits. A NaN among
  the three amounts would be stored as NULL in a \<open>NOT NULL\<close> column, so that row is
  ignored as well.
\<close>

definition accrue_partner_commission ::
  "attempt \<Rightarrow> int \<Rightarrow> string \<Rightarrow> int \<Rightarrow> pyfloat \<Rightarrow> string option \<Rightarrow> pyfloat option \<Rightarrow> db \<Rightarrow> bool \<times> db" where
  "accrue_partner_commission att bot_id payment_id user_id amount_rub payment_method percent s =
     (if bot_id \<le> 0 then (False, s)
      else if \<not> is_card_payment_method payment_method then (False, s)
      else let pid = strip payment_id in
        if pid = [] then (False, s)
        else if fle amount_rub (Fin 0) then (False, s)
        else let p = (case percent of None \<Rightarrow> FRANCHISE_PERCENT_DEFAULT | Some x \<Rightarrow> x) in
          if fle p (Fin 0) then (False, s)
          else let com = py_round2 (fdiv100 (fmul amount_rub p)) in
            if fle com (Fin 0) then (False, s)
            else (case att of
                    Works \<Rightarrow>
                      if \<not> sqlite_integer bot_id \<or> \<not> sqlite_integer user_id \<or>
                         amount_rub = NaN \<or> p = NaN \<or> com = NaN
                      then (False, s)
                      else insert_commission
                        \<lparr>c_bot_id = bot_id, c_payment_id = pid, c_user_id = user_id,
                         c_amount_rub = amount_rub, c_commission_percent = p,
                         c_commission_rub = com,
                         c_payment_method =
                           (if payment_method = Some [] then None else payment_method)\<rparr> s
                  | Locked \<Rightarrow> (False, s)
                  | Broken \<Rightarrow> (False, s)))"

subsection \<open>Stored balance\<close>

text \<open>
  \<open>deduct_from_balance\<close>, under \<open>BEGIN IMMEDIATE\<close>: a missing user or a NULL balance counts
  as 0; the update writes \<open>COALESCE(balance, 0) - amount\<close> to the user's row.
\<close>

definition deduct_from_balance :: "attempt \<Rightarrow> int \<Rightarrow> real \<Rightarrow> db \<Rightarrow> bool \<times> db" where
  "deduct_from_balance att user_id amount s =
     (if amount \<le> 0 then (True, s)
      else (case att of
              Works \<Rightarrow>
                (let current = (case users s user_id of Some (Some b) \<Rightarrow> b | _ \<Rightarrow> 0)
                 in if current < amount then (False, s)
                    else (True,
                      (case users s user_id of
                         None \<Rightarrow> s
                       | Some bal \<Rightarrow>
                           s\<lparr>users := (users s)(user_id \<mapsto>
                              Some ((case bal of None \<Rightarrow> 0 | Some b \<Rightarrow> b) - amount))\<rparr>)))
            | Locked \<Rightarrow> (False, s)
            | Broken \<Rightarrow> (False, s)))"

subsection \<open>TON transactions\<close>

text \<open>\<open>dict.get\<close>: a missing key reads as \<open>None\<close>, like a key that holds \<open>null\<close>.\<close>

definition get :: "meta \<Rightarrow> string \<Rightarrow> jval" where
  "get m k = (case m k of None \<Rightarrow> JNull | Some v \<Rightarrow> v)"

text \<open>
  \<open>float(v)\<close> and \<open>int(v)\<close> give a value or raise: a \<open>TypeError\<close> or \<open>ValueError\<close>, which the
  callers never tell apart, or an \<open>OverflowError\<close>. \<open>caught\<close> is the conversion inside
  \<open>try: ... except Exception\<close>, with \<open>None\<close> for any exception.
\<close>

datatype 'a conversion = Converts 'a | Type_or_Value_Error | Overflow_Error

fun caught :: "'a conversion \<Rightarrow> 'a option" where
  "caught (Converts x) = Some x"
| "caught Type_or_Value_Error = None"
| "caught Overflow_Error = None"

text \<open>
  \<open>float(v)\<close>. An integer is rounded to the nearest double and raises \<open>OverflowError\<close> when
  that is out of range. What \<open>float\<close> makes of a string is the parameter \<open>str_float\<close>: a float,
  which may be an infinity or NaN, or \<open>None\<close> for a \<open>ValueError\<close>.
\<close>

fun py_float :: "(string \<Rightarrow> pyfloat option) \<Rightarrow> jval \<Rightarrow> pyfloat conversion" where
  "py_float str_float JNull = Type_or_Value_Error"
| "py_float str_float (JBool b) = Converts (Fin (if b then 1 else 0))"
| "py_float str_float (JInt i) =
     (case round_double (of_int i) of Fin x \<Rightarrow> Converts (Fin x) | _ \<Rightarrow> Overflow_Error)"
| "py_float str_float (JFloat f) = Converts f"
| "py_float str_float (JStr t) =
     (case str_float t of None \<Rightarrow> Type_or_Value_Error | Some f \<Rightarrow> Converts f)"
| "py_float str_float (JList xs) = Type_or_Value_Error"
| "py_float str_float (JDict kvs) = Type_or_Value_Error"

text \<open>
  The expected amount: the first of \<open>expected_amount_ton\<close>, \<open>ton_amount\<close>, \<open>amount_ton\<close>
  that is not \<open>None\<close>.
\<close>

definition expected_ton :: "meta \<Rightarrow> jval" where
  "expected_ton m =
     (let e = get m ''expected_amount_ton'';
          e = (if e = JNull then get m ''ton_amount'' else e);
          e = (if e = JNull then get m ''amount_ton'' else e)
      in e)"

text \<open>
  \<open>tol = max(0.001, exp_val * 0.01)\<close>, in float arithmetic; the two literals are the doubles
  nearest to the decimals. The amount is refused when \<open>abs(amt_val - exp_val) > tol\<close>.
\<close>

definition ton_tolerance :: "pyfloat \<Rightarrow> pyfloat" where
  "ton_tolerance exp_val = py_max (round_double (1 / 1000)) (fmul exp_val (round_double (1 / 100)))"

definition ton_mismatch :: "pyfloat \<Rightarrow> pyfloat \<Rightarrow> bool" where
  "ton_mismatch amt_val exp_val = flt (ton_tolerance exp_val) (fabs (fsub amt_val exp_val))"

text \<open>
  What sqlite3 makes of the value as a statement parameter: a list or a dict raises an
  \<open>sqlite3.Error\<close>, an integer beyond 64 bits an \<open>OverflowError\<close>, a boolean is bound as
  an integer, and a NaN is stored as NULL.
\<close>

datatype bound = Bound jval | Binding_Error | Binding_Overflow

fun sqlite_bind :: "jval \<Rightarrow> bound" where
  "sqlite_bind (JList xs) = Binding_Error"
| "sqlite_bind (JDict kvs) = Binding_Error"
| "sqlite_bind (JInt i) = (if sqlite_integer i then Bound (JInt i) else Binding_Overflow)"
| "sqlite_bind (JBool b) = Bound (JInt (if b then 1 else 0))"
| "sqlite_bind (JFloat f) = Bound (if f = NaN then JNull else JFloat f)"
| "sqlite_bind v = Bound v"

text \<open>A call returns a value, or an exception leaves it.\<close>

datatype 'a outcome = Returns 'a | Raises

text \<open>
  The update of \<open>find_and_complete_ton_transaction\<close>: the row turns paid, with the amount
  (the converted float, or the argument as it came when it did not convert), currency and
  method \<open>TON\<close>; the result is the decoded metadata with \<open>payment_id\<close> defaulted. The
  \<open>sqlite3.Error\<close> of a parameter that does not bind is caught and gives \<open>None\<close>; its
  \<open>OverflowError\<close> leaves the function. Either way nothing is written.
\<close>

definition ton_mark_paid ::
  "string \<Rightarrow> tx_row \<Rightarrow> meta \<Rightarrow> pyfloat option \<Rightarrow> jval \<Rightarrow> db \<Rightarrow> meta option outcome \<times> db" where
  "ton_mark_paid pid row m amt_val amount_ton s =
     (case sqlite_bind (case amt_val of Some a \<Rightarrow> JFloat a | None \<Rightarrow> amount_ton) of
        Binding_Error \<Rightarrow> (Returns None, s)
      | Binding_Overflow \<Rightarrow> (Raises, s)
      | Bound v \<Rightarrow>
          (Returns (Some (setdefault ''payment_id'' (JStr pid) m)),
           s\<lparr>transactions := (transactions s)(pid \<mapsto>
              row\<lparr>t_status := Paid, t_amount_currency := v,
                  t_currency_name := Some ''TON'', t_payment_method := Some ''TON''\<rparr>)\<rparr>))"

text \<open>
  \<open>find_and_complete_ton_transaction\<close>, one transaction under \<open>BEGIN IMMEDIATE\<close>; an
  \<open>sqlite3.Error\<close> gives \<open>None\<close> with the store rolled back. The reported amount is a
  JSON value, \<open>JNull\<close> for a missing one; the webhook passes a float. Both conversions
  run under \<open>except Exception\<close>.
\<close>

definition find_and_complete_ton_transaction ::
  "(string \<Rightarrow> pyfloat option) \<Rightarrow> attempt \<Rightarrow> string \<Rightarrow> jval \<Rightarrow> db \<Rightarrow>
     meta option outcome \<times> db" where
  "find_and_complete_ton_transaction str_float att payment_id amount_ton s =
     (let pid = strip payment_id
      in if pid = [] then (Returns None, s)
         else (case att of
                 Locked \<Rightarrow> (Returns None, s)
               | Broken \<Rightarrow> (Returns None, s)
               | Works \<Rightarrow>
                   (case transactions s pid of
                      None \<Rightarrow> (Returns None, s)
                    | Some row \<Rightarrow>
                        if t_status row \<noteq> Pending then (Returns None, s)
                        else
                          let m = loads_or_empty (t_metadata row);
                              expected = expected_ton m;
                              exp_val = (if expected \<noteq> JNull
                                         then caught (py_float str_float expected) else None);
                              amt_val = caught (py_float str_float amount_ton)
                          in (case exp_val of
                                Some e \<Rightarrow>
                                  (case amt_val of
                                     None \<Rightarrow> (Returns None, s)
                                   | Some a \<Rightarrow>
                                       if ton_mismatch a e then (Returns None, s)
                                       else ton_mark_paid pid row m amt_val amount_ton s)
                              | None \<Rightarrow> ton_mark_paid pid row m amt_val amount_ton s))))"

text \<open>
  Sample rows: a user with balance 500, and a pending TON transaction that expects 2.5 TON.
\<close>

definition ton_row :: tx_row where
  "ton_row = \<lparr>t_user_id = 42, t_status = Pending, t_amount_rub = 300, t_amount_currency = JNull,
     t_currency_name = None, t_payment_method = None,
     t_metadata = MObject [''expected_amount_ton'' \<mapsto> JFloat (Fin (5 / 2))]\<rparr>"

definition sample_store :: db where
  "sample_store = empty_db\<lparr>transactions := [''t1'' \<mapsto> ton_row], users := [42 \<mapsto> Some 500]\<rparr>"

text \<open>
  A store with the one pending TON transaction \<open>t1\<close> whose metadata records a given value as
  the expected amount.
\<close>

definition ton_store :: "jval \<Rightarrow> db" where
  "ton_store v = empty_db\<lparr>transactions :=
     [''t1'' \<mapsto> ton_row\<lparr>t_metadata := MObject [''expected_amount_ton'' \<mapsto> v]\<rparr>]\<rparr>"

text \<open>
  A reading of strings by \<open>float\<close> on the few texts of the samples: \<open>2,5\<close> is no number.
\<close>

definition sample_str_float :: "string \<Rightarrow> pyfloat option" where
  "sample_str_float t = (if t = ''2.5'' then Some (Fin (5 / 2)) else None)"

section \<open>Reconciliation of keys with the provisioning service\<close>

text \<open>
  The result of \<open>_remnawave_key_exists\<close> for one key, as \<open>asyncio.gather\<close> hands it to the
  loop: \<open>True\<close>, \<open>False\<close>, \<open>None\<close> (the check failed), or a collected exception.
\<close>

datatype exists_result = Found | Gone | Unknown | Raised

text \<open>\<open>grace = timedelta(hours=24)\<close>, in microseconds.\<close>

definition grace :: int where
  "grace = 24 * 3600 * 1000000"

fun parse_missing_dt :: "missing_mark \<Rightarrow> int option" where
  "parse_missing_dt Unset = None"
| "parse_missing_dt (MissingAt t) = Some t"
| "parse_missing_dt Unparsable = None"

text \<open>\<open>now_dt.strftime("%Y-%m-%d %H:%M:%S")\<close> drops the microseconds.\<close>

definition strftime_seconds :: "int \<Rightarrow> int" where
  "strftime_seconds now = (now div 1000000) * 1000000"

definition get_user_keys :: "int \<Rightarrow> db \<Rightarrow> (int \<times> key_row) list" where
  "get_user_keys user_id s = filter (\<lambda>kr. k_user_id (snd kr) = user_id) (vpn_keys s)"

text \<open>\<open>DELETE FROM vpn_keys WHERE key_id = ?\<close>; the result is \<open>affected > 0\<close>.\<close>

definition delete_key_by_id :: "attempt \<Rightarrow> int \<Rightarrow> db \<Rightarrow> bool \<times> db" where
  "delete_key_by_id att key_id s =
     (case att of
        Works \<Rightarrow> (key_id \<in> fst ` set (vpn_keys s),
                   s\<lparr>vpn_keys := filter (\<lambda>kr. fst kr \<noteq> key_id) (vpn_keys s)\<rparr>)
      | Locked \<Rightarrow> (False, s)
      | Broken \<Rightarrow> (False, s))"

text \<open>
  \<open>update_key_fields(key_id, missing_from_server_at=v)\<close>, the only form the loop uses:
  \<open>UPDATE vpn_keys SET missing_from_server_at = ?, updated_at = ? WHERE key_id = ?\<close>.
\<close>

definition update_key_fields :: "attempt \<Rightarrow> int \<Rightarrow> missing_mark \<Rightarrow> db \<Rightarrow> bool \<times> db" where
  "update_key_fields att key_id v s =
     (case att of
        Works \<Rightarrow> (key_id \<in> fst ` set (vpn_keys s),
                   s\<lparr>vpn_keys := map (\<lambda>kr. if fst kr = key_id
                                         then (fst kr, (snd kr)\<lparr>k_missing_from_server_at := v\<rparr>)
                                         else kr) (vpn_keys s)\<rparr>)
      | Locked \<Rightarrow> (False, s)
      | Broken \<Rightarrow> (False, s))"

text \<open>
  The body of the loop of \<open>sync_user_keys_with_remnawave\<close> for one gathered item: the key
  as it was read at the start, and the result of its check. \<open>store\<close> gives the store's answer
  to the write for a key id; a failed write is caught and skipped.
\<close>

fun reconcile_item ::
  "int \<Rightarrow> (int \<Rightarrow> attempt) \<Rightarrow> int \<times> key_row \<Rightarrow> exists_result \<Rightarrow> nat \<times> db \<Rightarrow> nat \<times> db" where
  "reconcile_item now store (key_id, key) Raised (removed, s) = (removed, s)"
| "reconcile_item now store (key_id, key) Unknown (removed, s) = (removed, s)"
| "reconcile_item now store (key_id, key) Found (removed, s) =
     (if key_id = 0 then (removed, s)
      else if k_missing_from_server_at key \<noteq> Unset
        then (removed, snd (update_key_fields (store key_id) key_id Unset s))
        else (removed, s))"
| "reconcile_item now store (key_id, key) Gone (removed, s) =
     (if key_id = 0 then (removed, s)
      else (case parse_missing_dt (k_missing_from_server_at key) of
              Some missing_dt \<Rightarrow>
                if grace < now - missing_dt
                then (if fst (delete_key_by_id (store key_id) key_id s) then removed + 1
                      else removed,
                      snd (delete_key_by_id (store key_id) key_id s))
                else (removed,
                      snd (update_key_fields (store key_id) key_id
                             (MissingAt (strftime_seconds now)) s))
            | None \<Rightarrow>
                (removed,
                 snd (update_key_fields (store key_id) key_id
                        (MissingAt (strftime_seconds now)) s))))"

text \<open>
  \<open>sync_user_keys_with_remnawave(user_id)\<close> at time \<open>now\<close>: the keys of the user are read
  once, every key is checked (\<open>check\<close> is the outcome for a key), and the loop runs over the
  results. It returns the number of rows it deleted.
\<close>

definition sync_user_keys_with_remnawave ::
  "int \<Rightarrow> (int \<times> key_row \<Rightarrow> exists_result) \<Rightarrow> (int \<Rightarrow> attempt) \<Rightarrow> int \<Rightarrow> db \<Rightarrow> nat \<times> db" where
  "sync_user_keys_with_remnawave now check store user_id s =
     (let keys = get_user_keys user_id s
      in if keys = [] then (0, s)
         else fold (\<lambda>kr acc. reconcile_item now store kr (check kr) acc) keys (0, s))"

text \<open>The row of a key id, if the table has one.\<close>

definition key_row_of :: "db \<Rightarrow> int \<Rightarrow> key_row option" where
  "key_row_of s key_id = map_of (vpn_keys s) key_id"

text \<open>
  What \<open>show_key_handler\<close> does to the store when a user opens a key. It reads the key by
  its id and stops unless the key is the viewer's; it asks the provisioning service for the
  key's details (\<open>details\<close> tells whether it got them with a connection string, got none, or
  the call raised); when there are none it asks \<open>_remnawave_key_exists\<close>, and on \<open>False\<close> it
  deletes the row at once, whatever its mark. Every other path only reads.
\<close>

datatype key_details = Details | No_details | Details_raised

definition show_key_handler ::
  "attempt \<Rightarrow> key_details \<Rightarrow> exists_result \<Rightarrow> int \<Rightarrow> int \<Rightarrow> db \<Rightarrow> db" where
  "show_key_handler att details exist user_id key_id_to_show s =
     (case key_row_of s key_id_to_show of
        None \<Rightarrow> s
      | Some key_data \<Rightarrow>
          if k_user_id key_data \<noteq> user_id then s
          else (case details of
                  No_details \<Rightarrow>
                    (if exist = Gone then snd (delete_key_by_id att key_id_to_show s) else s)
                | Details \<Rightarrow> s
                | Details_raised \<Rightarrow> s))"

text \<open>A store with the one key 5 of user 42, not marked missing; an hour in microseconds.\<close>

definition c1_key :: key_row where
  "c1_key = \<lparr>k_user_id = 42, k_key_email = ''c1@bot.local'', k_missing_from_server_at = Unset\<rparr>"

definition key_store :: db where
  "key_store = empty_db\<lparr>vpn_keys := [(5, c1_key)]\<rparr>"

definition hour :: int where
  "hour = 3600 * 1000000"

text \<open>The same store with the key marked missing at a given time; checks that all report
  the key gone, and a store that takes every write.\<close>

definition marked_store :: "int \<Rightarrow> db" where
  "marked_store t = empty_db\<lparr>vpn_keys := [(5, c1_key\<lparr>k_missing_from_server_at := MissingAt t\<rparr>)]\<rparr>"

definition all_gone :: "int \<times> key_row \<Rightarrow> exists_result" where
  "all_gone kr = Gone"

definition all_found :: "int \<times> key_row \<Rightarrow> exists_result" where
  "all_found kr = Found"

definition store_works :: "int \<Rightarrow> attempt" where
  "store_works key_id = Works"

section \<open>Fulfillment: \<open>process_successful_payment\<close>\<close>

subsection \<open>Python conversions\<close>

text \<open>Truthiness, \<open>x or y\<close>, and \<open>int(v)\<close>: a float is truncated, NaN raises a \<open>ValueError\<close>
  and an infinity an \<open>OverflowError\<close>; what \<open>int\<close> makes of a string is the parameter
  \<open>str_int\<close>, with \<open>None\<close> for a \<open>ValueError\<close>.\<close>

fun truthy :: "jval \<Rightarrow> bool" where
  "truthy JNull = False"
| "truthy (JBool b) = b"
| "truthy (JInt i) = (i \<noteq> 0)"
| "truthy (JFloat f) = (f \<noteq> Fin 0)"
| "truthy (JStr t) = (t \<noteq> [])"
| "truthy (JList xs) = (xs \<noteq> [])"
| "truthy (JDict kvs) = (kvs \<noteq> [])"

definition py_or :: "jval \<Rightarrow> jval \<Rightarrow> jval" where
  "py_or a b = (if truthy a then a else b)"

fun py_int :: "(string \<Rightarrow> int option) \<Rightarrow> jval \<Rightarrow> int conversion" where
  "py_int str_int JNull = Type_or_Value_Error"
| "py_int str_int (JBool b) = Converts (if b then 1 else 0)"
| "py_int str_int (JInt i) = Converts i"
| "py_int str_int (JFloat (Fin r)) = Converts (if 0 \<le> r then \<lfloor>r\<rfloor> else \<lceil>r\<rceil>)"
| "py_int str_int (JFloat NaN) = Type_or_Value_Error"
| "py_int str_int (JFloat PInf) = Overflow_Error"
| "py_int str_int (JFloat NInf) = Overflow_Error"
| "py_int str_int (JStr t) =
     (case str_int t of None \<Rightarrow> Type_or_Value_Error | Some i \<Rightarrow> Converts i)"
| "py_int str_int (JList xs) = Type_or_Value_Error"
| "py_int str_int (JDict kvs) = Type_or_Value_Error"

text \<open>
  The local helper \<open>_to_int(val, default)\<close>: it catches \<open>ValueError\<close> and \<open>TypeError\<close>, so
  the \<open>OverflowError\<close> of an infinite float leaves it.
\<close>

definition to_int :: "(string \<Rightarrow> int option) \<Rightarrow> jval \<Rightarrow> int \<Rightarrow> int outcome" where
  "to_int str_int val dflt =
     (if val = JNull \<or> val = JStr [] \<or> val = JStr ''None'' \<or> val = JStr ''null''
      then Returns dflt
      else (case py_int str_int val of
              Converts i \<Rightarrow> Returns i
            | Type_or_Value_Error \<Rightarrow> Returns dflt
            | Overflow_Error \<Rightarrow> Raises))"

subsection \<open>Duration\<close>

text \<open>\<open>_compute_days_to_add(months, duration_days)\<close>, on integers or \<open>None\<close>.\<close>

definition compute_days_to_add :: "int option \<Rightarrow> int option \<Rightarrow> int" where
  "compute_days_to_add months duration_days =
     (let dd = (case duration_days of None \<Rightarrow> 0 | Some d \<Rightarrow> d)
      in if dd \<noteq> 0 \<and> 0 < dd then dd
         else let mm = (case months of None \<Rightarrow> 0 | Some m \<Rightarrow> m) in mm * 30)"

text \<open>
  The variables \<open>plan_months\<close> and \<open>plan_days\<close> of \<open>process_successful_payment\<close>: the
  plan's columns when there is a plan and they convert, the metadata's values otherwise.
\<close>

definition plan_months :: "(string \<Rightarrow> int option) \<Rightarrow> meta option \<Rightarrow> int \<Rightarrow> int" where
  "plan_months str_int plan months =
     (case plan of
        None \<Rightarrow> months
      | Some p \<Rightarrow> (case caught (py_int str_int (py_or (get p ''months'') (JInt 0))) of
                    Some i \<Rightarrow> i | None \<Rightarrow> months))"

definition plan_days :: "(string \<Rightarrow> int option) \<Rightarrow> meta option \<Rightarrow> int \<Rightarrow> int" where
  "plan_days str_int plan duration_days_meta =
     (case plan of
        None \<Rightarrow> duration_days_meta
      | Some p \<Rightarrow> (case caught (py_int str_int (py_or (get p ''duration_days'') (JInt 0))) of
                    Some i \<Rightarrow> i | None \<Rightarrow> duration_days_meta))"

text \<open>
  The variable \<open>days_to_add\<close>: from the plan's values, else from the metadata's values,
  else from the metadata's months, else 30 days.
\<close>

definition days_to_add :: "(string \<Rightarrow> int option) \<Rightarrow> meta option \<Rightarrow> int \<Rightarrow> int \<Rightarrow> int" where
  "days_to_add str_int plan months duration_days_meta =
     (let d = compute_days_to_add (Some (plan_months str_int plan months))
                (Some (plan_days str_int plan duration_days_meta));
          d = (if d \<le> 0 then compute_days_to_add (Some months) (Some duration_days_meta) else d);
          d = (if d \<le> 0 then (if months \<noteq> 0 then months * 30 else 30) else d)
      in d)"

subsection \<open>Classifying a provisioning error\<close>

definition is_digit :: "char \<Rightarrow> bool" where
  "is_digit c = (48 \<le> (of_char c :: nat) \<and> (of_char c :: nat) \<le> 57)"

text \<open>
  The regular expression \<open>request failed:\s*(\d+)\s*(.*)\<close> under \<open>re.IGNORECASE\<close>: a match
  that starts at the head of the text, and \<open>re.search\<close>, which takes the first position
  that matches. The result is the two groups.
\<close>

definition match_request_failed :: "string \<Rightarrow> (string \<times> string) option" where
  "match_request_failed t =
     (if lower (take 15 t) = ''request failed:''
      then (let r = dropWhile is_space (drop 15 t); ds = takeWhile is_digit r
            in if ds = [] then None
               else Some (ds, takeWhile (\<lambda>c. c \<noteq> CHR 0x0A)
                                (dropWhile is_space (drop (length ds) r))))
      else None)"

fun search_request_failed :: "string \<Rightarrow> (string \<times> string) option" where
  "search_request_failed [] = None"
| "search_request_failed (c # cs) =
     (case match_request_failed (c # cs) of
        Some g \<Rightarrow> Some g
      | None \<Rightarrow> search_request_failed cs)"

text \<open>\<open>needle in hay\<close> for strings.\<close>

fun contains :: "string \<Rightarrow> string \<Rightarrow> bool" where
  "contains needle [] = (needle = [])"
| "contains needle (c # cs) = (take (length needle) (c # cs) = needle \<or> contains needle cs)"

text \<open>The values of the dict \<open>errors\<close> and the default description; the texts are Russian.\<close>

datatype description = Username_taken | Bad_data | Not_found | Unknown_error

definition errors :: "string \<rightharpoonup> description" where
  "errors = [''A019'' \<mapsto> Username_taken, ''400'' \<mapsto> Bad_data, ''404'' \<mapsto> Not_found]"

text \<open>
  \<open>_classify_key_creation_error(exc)\<close>, on the text of the exception. The source also
  accepts a Russian word among the words that mark a taken username; it has code points
  above 255 and occurs in no string of this model.
\<close>

definition classify_key_creation_error :: "string \<Rightarrow> string \<times> description \<times> string" where
  "classify_key_creation_error raw =
     (let m = search_request_failed raw;
          status = map_option fst m;
          detail = (case m of
                      None \<Rightarrow> raw
                    | Some g \<Rightarrow> (if strip (snd g) = [] then raw else strip (snd g)));
          detail_l = lower detail;
          code = (if contains ''username'' detail_l \<and>
                     (contains ''already'' detail_l \<or> contains ''exists'' detail_l \<or>
                      contains ''occupied'' detail_l \<or> contains ''taken'' detail_l)
                  then ''A019''
                  else (case status of
                          Some st \<Rightarrow> (if errors st \<noteq> None then st else st)
                        | None \<Rightarrow> ''400''));
          descr = (case errors code of Some d \<Rightarrow> d | None \<Rightarrow> Unknown_error);
          short_detail = strip detail;
          short_detail = (if 200 < length short_detail then take 200 short_detail @ ''...''
                          else short_detail)
      in (code, descr, short_detail))"

text \<open>
  \<open>_format_key_action_label(action, price=..., key_id=...)\<close> with a price, as the payment
  path calls it; the label texts are Russian and carry the price and the key id. Any other
  action is its own label (the empty one stands for the default word).
\<close>

datatype action_label =
    Label_purchase pyfloat
  | Label_extend int pyfloat
  | Label_trial
  | Label_gift pyfloat
  | Label_other string

definition format_key_action_label :: "string \<Rightarrow> pyfloat \<Rightarrow> int \<Rightarrow> action_label" where
  "format_key_action_label action price key_id =
     (let action_s = lower (strip action)
      in if action_s = ''new'' then Label_purchase price
         else if action_s = ''extend'' then Label_extend key_id price
         else if action_s = ''trial'' then Label_trial
         else if action_s = ''gift'' then Label_gift price
         else Label_other action)"

subsection \<open>The world of a fulfillment run\<close>

text \<open>
  The texts the run sends, by their content (the wording is Russian): the processing
  notice with the host, the key-creation error for the payer with its code and whether the
  refund line is there, the key-creation error for an operator with the payer, the code,
  the description and the action label, and the fixed notices.
\<close>

datatype notice =
    Processing_text jval
  | Key_creation_error_text string bool
  | Admin_key_creation_error_text int string description action_label
  | Key_create_failed_text
  | Extend_key_not_found_text
  | Key_save_failed_text
  | Key_update_failed_text
  | Gift_paid_text
  | Key_issue_error_text
  | Purchase_success_text
  | Top_up_done_text pyfloat
  | Top_up_failed_text
  | Admin_top_up_text int pyfloat
  | Referral_reward_text int pyfloat

text \<open>
  What a run does to the outside, in order: Telegram calls, the call to the provisioning
  client (host, identity, days to add, absolute expiry), and the calls into the repository
  that write balances, keys, statistics, the transaction log and promo codes. The
  traffic and device limits of the provisioning call are left out.
\<close>

datatype effect =
    Delete_message jval jval
  | Send_message int notice
  | Edit_processing notice
  | Delete_processing
  | Provision_call jval "string option" int "int option"
  | Add_to_balance int pyfloat
  | Add_to_referral_balance_all int pyfloat
  | Log_transaction int pyfloat jval
  | Record_key int jval
  | Update_key int
  | Set_pending_gift int
  | Update_user_stats int pyfloat
  | Redeem_promo string int pyfloat
  | Update_promo_status string
  | Notify_admin_of_purchase

record world =
  w_db :: db
  w_effects :: "effect list"

definition emit :: "effect \<Rightarrow> world \<Rightarrow> world" where
  "emit e w = w\<lparr>w_effects := w_effects w @ [e]\<rparr>"

text \<open>How the coroutine ends: it returns, or an exception leaves it.\<close>

datatype ending = Returned | Escaped

text \<open>
  The answers of the collaborators during one run. The repository's reads are taken to
  return; a Telegram call inside a \<open>try\<close> block is recorded as attempted.
\<close>

datatype telegram_result = Tg_ok | Tg_bad_request | Tg_error

datatype provision_outcome =
    Provision_raises string
  | Provision_returns "(string \<times> jval) list option"

text \<open>\<open>not result\<close> on what the provisioning client returned: \<open>None\<close> or an empty dict.\<close>

fun empty_response :: "(string \<times> jval) list option \<Rightarrow> bool" where
  "empty_response None = True"
| "empty_response (Some []) = True"
| "empty_response (Some (kv # d)) = False"

record key_info =
  ki_key_email :: string
  ki_expire_ms :: "int option"

record promo_info =
  usage_limit_per_user :: int
  user_used_count :: int
  usage_limit_total :: int
  used_total :: int

record env =
  e_str_int :: "string \<Rightarrow> int option"
  e_str_float :: "string \<Rightarrow> pyfloat option"
  e_clock :: int
  e_now_ms :: int
  e_uuid :: string
  e_claim_store :: "attempt list"
  e_commission_store :: attempt
  e_ledger_store :: "attempt list"
  e_resolved_factory_bot_id :: int
  e_delete_message :: telegram_result
  e_processing_sent :: bool
  e_generated_email :: string
  e_key_by_id :: "int \<Rightarrow> key_info option"
  e_plan_by_id :: "int \<Rightarrow> meta option"
  e_provision :: provision_outcome
  e_admin_ids :: "int list"
  e_recorded_key_id :: int
  e_update_key_ok :: bool
  e_add_to_balance_ok :: "int \<Rightarrow> bool"
  e_referred_by :: "int \<Rightarrow> int option"
  e_referral_reward_type :: string
  e_fixed_referral_bonus :: pyfloat
  e_percent_reward :: "pyfloat \<Rightarrow> pyfloat option"
  e_promo_info :: "promo_info option"
  e_promo_availability_error :: "string option"
  e_admin_users :: "int list"

subsection \<open>Reading the metadata\<close>

record parsed =
  m_action :: jval
  m_user_id :: int
  m_price :: pyfloat
  m_months :: int
  m_key_id :: int
  m_host_name :: jval
  m_plan_id :: int
  m_duration_days_meta :: int
  m_payment_method :: jval
  m_payment_id :: string

text \<open>
  The head of the first \<open>try\<close> block. \<open>int(metadata.get('user_id'))\<close> and
  \<open>float(metadata.get('price'))\<close> raise a \<open>TypeError\<close> or \<open>ValueError\<close> that the block
  catches (the run returns). It does not catch an \<open>OverflowError\<close> of these conversions or
  of \<open>_to_int\<close>, nor the \<open>AttributeError\<close> of \<open>.strip()\<close> on a payment id that is not a
  string.
\<close>

datatype 'a attempt_result = Caught | Uncaught | Got 'a

definition parse_metadata :: "env \<Rightarrow> meta \<Rightarrow> parsed attempt_result" where
  "parse_metadata env metadata =
     (case py_int (e_str_int env) (get metadata ''user_id'') of
        Type_or_Value_Error \<Rightarrow> Caught
      | Overflow_Error \<Rightarrow> Uncaught
      | Converts uid \<Rightarrow>
          (case py_float (e_str_float env) (get metadata ''price'') of
             Type_or_Value_Error \<Rightarrow> Caught
           | Overflow_Error \<Rightarrow> Uncaught
           | Converts pr \<Rightarrow>
               (case (to_int (e_str_int env) (get metadata ''months'') 0,
                      to_int (e_str_int env) (get metadata ''key_id'') 0,
                      to_int (e_str_int env) (get metadata ''plan_id'') 0,
                      to_int (e_str_int env) (get metadata ''duration_days'') 0,
                      py_or (py_or (get metadata ''payment_id'') (get metadata ''transaction_id''))
                        (JStr [])) of
                  (Returns months, Returns key_id, Returns plan_id, Returns duration_days_meta,
                   JStr t) \<Rightarrow>
                    Got \<lparr>m_action = get metadata ''action'', m_user_id = uid, m_price = pr,
                         m_months = months, m_key_id = key_id,
                         m_host_name = (case metadata ''host_name'' of
                                          None \<Rightarrow> JStr [] | Some v \<Rightarrow> v),
                         m_plan_id = plan_id, m_duration_days_meta = duration_days_meta,
                         m_payment_method = get metadata ''payment_method'',
                         m_payment_id = strip t\<rparr>
                | _ \<Rightarrow> Uncaught)))"

subsection \<open>Partner commission of a franchise payment\<close>

text \<open>
  The franchise block that follows the claim: the bot id from the metadata, else the one
  resolved from the running bot; then \<open>accrue_partner_commission\<close> with the fixed 35
  percent, any exception of which is swallowed (a payment method that is not a string
  raises in it before anything is written).
\<close>

definition factory_bot_id :: "env \<Rightarrow> meta \<Rightarrow> int" where
  "factory_bot_id env metadata =
     (let b = (case caught (py_int (e_str_int env)
                              (py_or (get metadata ''factory_bot_id'') (JInt 0))) of
                 Some i \<Rightarrow> i | None \<Rightarrow> 0)
      in if b \<le> 0 then e_resolved_factory_bot_id env else b)"

definition accrue_for_franchise :: "env \<Rightarrow> meta \<Rightarrow> parsed \<Rightarrow> db \<Rightarrow> db" where
  "accrue_for_franchise env metadata p s =
     (if 0 < factory_bot_id env metadata
      then (if \<not> truthy (m_payment_method p)
            then snd (accrue_partner_commission (e_commission_store env)
                        (factory_bot_id env metadata) (m_payment_id p) (m_user_id p) (m_price p)
                        None (Some (Fin 35)) s)
            else (case m_payment_method p of
                    JStr pm \<Rightarrow>
                      snd (accrue_partner_commission (e_commission_store env)
                             (factory_bot_id env metadata) (m_payment_id p) (m_user_id p)
                             (m_price p) (Some pm) (Some (Fin 35)) s)
                  | _ \<Rightarrow> s))
      else s)"

subsection \<open>Referral reward\<close>

text \<open>
  \<open>(v or '')\<close> as the text that \<open>.strip()\<close> is then called on: \<open>None\<close> when the value is a
  truthy non-string, on which \<open>.strip()\<close> raises an \<open>AttributeError\<close>.
\<close>

definition text_or_empty :: "jval \<Rightarrow> string option" where
  "text_or_empty v = (if \<not> truthy v then Some [] else (case v of JStr t \<Rightarrow> Some t | _ \<Rightarrow> None))"

text \<open>
  \<open>float(reward)\<close>. The reward is a \<open>Decimal\<close>: zero, the configured bonus, or the
  configured percentage of \<open>Decimal(str(price))\<close>, quantized to hundredths. That decimal
  arithmetic is the parameter \<open>e_percent_reward\<close>, with \<open>None\<close> when it raises, which the
  block swallows.
\<close>

definition referral_reward :: "env \<Rightarrow> pyfloat \<Rightarrow> pyfloat option" where
  "referral_reward env price =
     (if e_referral_reward_type env = ''fixed_start_referrer'' then Some (Fin 0)
      else if e_referral_reward_type env = ''fixed_purchase'' then Some (e_fixed_referral_bonus env)
      else e_percent_reward env price)"

text \<open>
  The referral block, the same for a top-up and for a purchase: nothing for a payment from
  the stored balance, else the reward is credited to the referrer, who is told when the
  credit went through. Every exception in the block is swallowed.
\<close>

definition pay_referral :: "env \<Rightarrow> parsed \<Rightarrow> world \<Rightarrow> world" where
  "pay_referral env p w =
     (case text_or_empty (m_payment_method p) of
        None \<Rightarrow> w
      | Some pm \<Rightarrow>
          if lower (strip pm) = ''balance'' then w
          else (case e_referred_by env (m_user_id p) of
                  None \<Rightarrow> w
                | Some referrer \<Rightarrow>
                    if referrer = 0 then w
                    else (case referral_reward env (m_price p) of
                            None \<Rightarrow> w
                          | Some reward \<Rightarrow>
                              if flt (Fin 0) reward
                              then (let w1 = emit (Add_to_balance referrer reward) w;
                                        w2 = emit (Add_to_referral_balance_all referrer reward) w1
                                    in if e_add_to_balance_ok env referrer
                                       then emit (Send_message referrer
                                                    (Referral_reward_text (m_user_id p) reward)) w2
                                       else w2)
                              else w)))"

subsection \<open>Top-up\<close>

definition top_up :: "env \<Rightarrow> parsed \<Rightarrow> world \<Rightarrow> world" where
  "top_up env p w =
     (let w1 = emit (Add_to_balance (m_user_id p) (m_price p)) w;
          w2 = emit (Log_transaction (m_user_id p) (m_price p)
                       (py_or (m_payment_method p) (JStr ''Unknown''))) w1;
          w3 = pay_referral env p w2;
          w4 = emit (Send_message (m_user_id p)
                       (if e_add_to_balance_ok env (m_user_id p) then Top_up_done_text (m_price p)
                        else Top_up_failed_text)) w3
      in fold (\<lambda>a. emit (Send_message a (Admin_top_up_text (m_user_id p) (m_price p))))
           (e_admin_users env) w4)"

subsection \<open>Provisioning and its failure\<close>

text \<open>
  \<open>_handle_key_creation_failure\<close>: classify the exception, log code and detail, send the
  payer the code (with the refund line when \<open>refund\<close>), and send every operator the payer,
  the code, the description and the action label.
\<close>

definition handle_key_creation_failure ::
  "env \<Rightarrow> int \<Rightarrow> action_label \<Rightarrow> string \<Rightarrow> bool \<Rightarrow> world \<Rightarrow> world" where
  "handle_key_creation_failure env user_id label exc refund w =
     (let code = fst (classify_key_creation_error exc);
          descr = fst (snd (classify_key_creation_error exc));
          w1 = emit (Send_message user_id (Key_creation_error_text code refund)) w
      in fold (\<lambda>aid. emit (Send_message aid (Admin_key_creation_error_text user_id code descr label)))
           (e_admin_ids env) w1)"

text \<open>
  The two failure exits of the provisioning step. The action label is built first; on an
  action that is a truthy non-string that raises, and the catch-all of the block edits the
  processing notice instead.
\<close>

definition key_creation_failed :: "env \<Rightarrow> parsed \<Rightarrow> string \<Rightarrow> world \<Rightarrow> world" where
  "key_creation_failed env p exc w =
     (case text_or_empty (m_action p) of
        None \<Rightarrow> emit (Edit_processing Key_issue_error_text) w
      | Some a \<Rightarrow>
          emit (Edit_processing Key_create_failed_text)
            (handle_key_creation_failure env (m_user_id p)
               (format_key_action_label a (m_price p) (m_key_id p)) exc True w))"

text \<open>
  The identity the key is provisioned for: a generated one for \<open>new\<close>, none for \<open>gift\<close>,
  and for anything else the identity of the existing key (\<open>None\<close> when there is no such
  key, which ends the run).
\<close>

definition candidate_email :: "env \<Rightarrow> parsed \<Rightarrow> string option option" where
  "candidate_email env p =
     (if m_action p = JStr ''new'' then Some (Some (e_generated_email env))
      else if m_action p = JStr ''gift'' then Some None
      else (case e_key_by_id env (m_key_id p) of
              None \<Rightarrow> None
            | Some k \<Rightarrow> if ki_key_email k = [] then None else Some (Some (ki_key_email k))))"

text \<open>A renewal extends from the later of the current expiry and now.\<close>

definition expiry_timestamp_ms :: "env \<Rightarrow> parsed \<Rightarrow> int \<Rightarrow> int option" where
  "expiry_timestamp_ms env p days =
     (if m_action p = JStr ''extend'' \<and> m_key_id p \<noteq> 0
      then Some (max (case e_key_by_id env (m_key_id p) of
                        None \<Rightarrow> 0
                      | Some k \<Rightarrow> (case ki_expire_ms k of None \<Rightarrow> 0 | Some e \<Rightarrow> e))
                     (e_now_ms env) + days * 86400000)
      else None)"

subsection \<open>After a successful provisioning\<close>

definition promo :: "env \<Rightarrow> meta \<Rightarrow> parsed \<Rightarrow> world \<Rightarrow> world" where
  "promo env metadata p w =
     (let code = (case text_or_empty (get metadata ''promo_code'') of
                    None \<Rightarrow> [] | Some t \<Rightarrow> strip t)
      in if code = [] then w
         else let applied = (case caught (py_float (e_str_float env)
                                            (py_or (get metadata ''promo_discount'') (JInt 0))) of
                               Some a \<Rightarrow> a | None \<Rightarrow> Fin 0);
                  w1 = emit (Redeem_promo code (m_user_id p) applied) w;
                  should_disable =
                    (case e_promo_info env of
                       Some info \<Rightarrow>
                         usage_limit_total info \<noteq> 0 \<and> usage_limit_total info \<le> used_total info
                     | None \<Rightarrow>
                         e_promo_availability_error env = Some ''total_limit_reached'' \<or>
                         e_promo_availability_error env = Some ''expired'')
              in if should_disable then emit (Update_promo_status code) w1 else w1)"

text \<open>
  The tail shared by \<open>new\<close> and \<open>extend\<close>: referral reward, statistics, transaction log,
  promo code, and the notices.
\<close>

definition finish :: "env \<Rightarrow> meta \<Rightarrow> parsed \<Rightarrow> world \<Rightarrow> world" where
  "finish env metadata p w =
     (let w1 = pay_referral env p w
      in case text_or_empty (m_payment_method p) of
           None \<Rightarrow> emit (Edit_processing Key_issue_error_text) w1
         | Some pm \<Rightarrow>
             (let spent = (if lower (strip pm) = ''balance'' then Fin 0 else m_price p);
                  w2 = emit (Update_user_stats (m_user_id p) spent) w1;
                  w3 = emit (Log_transaction (m_user_id p) (m_price p)
                               (case metadata ''payment_method'' of
                                  None \<Rightarrow> JStr ''Unknown'' | Some v \<Rightarrow> v)) w2;
                  w4 = promo env metadata p w3;
                  w5 = emit Delete_processing w4;
                  w6 = emit (Send_message (m_user_id p) Purchase_success_text) w5
              in emit Notify_admin_of_purchase w6))"

text \<open>
  A paid gift is parked: a pending record under the payment id (or a fresh \<open>GIFT-\<close> id),
  in the ledger and in \<open>PENDING_GIFTS\<close>, until the payer names the recipient. The ledger
  call runs under \<open>except Exception\<close>, which also takes the \<open>OverflowError\<close> of a payer
  id beyond 64 bits.
\<close>

definition gift :: "env \<Rightarrow> meta \<Rightarrow> parsed \<Rightarrow> meta option \<Rightarrow> int \<Rightarrow> world \<Rightarrow> world" where
  "gift env metadata p plan days w =
     (let gift_id = (case get metadata ''payment_id'' of
                       JStr t \<Rightarrow> (if t = [] then ''GIFT-'' @ e_uuid env else t)
                     | _ \<Rightarrow> ''GIFT-'' @ e_uuid env);
          pending_meta =
            [''type'' \<mapsto> JStr ''gift'', ''user_id'' \<mapsto> JInt (m_user_id p),
             ''host_name'' \<mapsto> m_host_name p,
             ''months'' \<mapsto> JInt (plan_months (e_str_int env) plan (m_months p)),
             ''duration_days'' \<mapsto>
               JInt (plan_days (e_str_int env) plan (m_duration_days_meta p)),
             ''days_to_add'' \<mapsto> JInt days, ''price'' \<mapsto> JFloat (m_price p),
             ''payment_id'' \<mapsto> JStr gift_id];
          w1 = (if sqlite_integer (m_user_id p)
                then w\<lparr>w_db := snd (create_payload_pending (e_ledger_store env) (e_clock env)
                                        gift_id (m_user_id p) (Some (m_price p))
                                        (Some pending_meta) (w_db w))\<rparr>
                else w);
          w2 = emit (Set_pending_gift (m_user_id p)) w1
      in emit (Edit_processing Gift_paid_text) w2)"

text \<open>
  What follows a provisioning that returned a result, by action. The result is taken to
  carry the fields that the \<open>extend\<close> branch reads from it.
\<close>

definition after_provision :: "env \<Rightarrow> meta \<Rightarrow> parsed \<Rightarrow> meta option \<Rightarrow> int \<Rightarrow> world \<Rightarrow> world" where
  "after_provision env metadata p plan days w =
     (if m_action p = JStr ''new''
      then (let w1 = emit (Record_key (m_user_id p) (m_host_name p)) w
            in if e_recorded_key_id env = 0 then emit (Edit_processing Key_save_failed_text) w1
               else finish env metadata p w1)
      else if m_action p = JStr ''gift'' then gift env metadata p plan days w
      else if m_action p = JStr ''extend''
      then (let w1 = emit (Update_key (m_key_id p)) w
            in if \<not> e_update_key_ok env then emit (Edit_processing Key_update_failed_text) w1
               else finish env metadata p w1)
      else finish env metadata p w)"

subsection \<open>The purchase block and the whole run\<close>

definition purchase :: "env \<Rightarrow> meta \<Rightarrow> parsed \<Rightarrow> world \<Rightarrow> world" where
  "purchase env metadata p w =
     (case candidate_email env p of
        None \<Rightarrow> emit (Edit_processing Extend_key_not_found_text) w
      | Some email \<Rightarrow>
          (let plan = (if m_plan_id p \<noteq> 0 then e_plan_by_id env (m_plan_id p) else None);
               days = days_to_add (e_str_int env) plan (m_months p) (m_duration_days_meta p);
               w1 = emit (Provision_call (m_host_name p) email days
                            (expiry_timestamp_ms env p days)) w
           in case e_provision env of
                Provision_raises exc \<Rightarrow> key_creation_failed env p exc w1
              | Provision_returns result \<Rightarrow>
                  if m_action p \<noteq> JStr ''gift'' \<and> empty_response result
                  then key_creation_failed env p ''key creation returned empty response'' w1
                  else after_provision env metadata p plan days w1))"

text \<open>
  The payment notice is deleted when the metadata names it: a \<open>TelegramBadRequest\<close> is
  caught, any other exception leaves the run.
\<close>

definition delete_payment_message :: "env \<Rightarrow> meta \<Rightarrow> world \<Rightarrow> world option" where
  "delete_payment_message env metadata w =
     (if truthy (get metadata ''chat_id'') \<and> truthy (get metadata ''message_id'')
      then (case e_delete_message env of
              Tg_ok \<Rightarrow> Some (emit (Delete_message (get metadata ''chat_id'')
                                    (get metadata ''message_id'')) w)
            | Tg_bad_request \<Rightarrow> Some w
            | Tg_error \<Rightarrow> None)
      else Some w)"

text \<open>
  \<open>process_successful_payment(bot, metadata)\<close>. The handlers import the store's
  functions through the repository module, which hands them on unchanged.
\<close>

definition process_successful_payment :: "env \<Rightarrow> meta \<Rightarrow> world \<Rightarrow> ending \<times> world" where
  "process_successful_payment env metadata w =
     (case parse_metadata env metadata of
        Caught \<Rightarrow> (Returned, w)
      | Uncaught \<Rightarrow> (Escaped, w)
      | Got p \<Rightarrow>
          if m_payment_id p = [] then (Returned, w)
          else (case claim_processed_payment (e_claim_store env) (e_clock env) (m_payment_id p)
                       (w_db w) of
                  (claimed, s1) \<Rightarrow>
                    if \<not> claimed then (Returned, w\<lparr>w_db := s1\<rparr>)
                    else (let w1 = w\<lparr>w_db := accrue_for_franchise env metadata p s1\<rparr>
                          in case delete_payment_message env metadata w1 of
                               None \<Rightarrow> (Escaped, w1)
                             | Some w2 \<Rightarrow>
                                 if m_action p = JStr ''top_up''
                                 then (Returned, top_up env p w2)
                                 else if \<not> e_processing_sent env then (Escaped, w2)
                                 else (Returned,
                                       purchase env metadata p
                                         (emit (Send_message (m_user_id p)
                                                  (Processing_text (m_host_name p))) w2)))))"

text \<open>
  Two ways a step can relate the world before and after: it only adds effects, or it adds
  effects and may write the store.
\<close>

definition appends :: "world \<Rightarrow> world \<Rightarrow> bool" where
  "appends w w' = (\<exists>es. w' = w\<lparr>w_effects := w_effects w @ es\<rparr>)"

definition effects_since :: "world \<Rightarrow> world \<Rightarrow> effect list" where
  "effects_since w w' = drop (length (w_effects w)) (w_effects w')"

text \<open>The effects that fulfil an order: they write a key, a balance, the statistics, the
  transaction log, a promo code or a pending gift.\<close>

fun is_fulfillment_write :: "effect \<Rightarrow> bool" where
  "is_fulfillment_write (Add_to_balance u a) = True"
| "is_fulfillment_write (Add_to_referral_balance_all u a) = True"
| "is_fulfillment_write (Log_transaction u a pm) = True"
| "is_fulfillment_write (Record_key u h) = True"
| "is_fulfillment_write (Update_key k) = True"
| "is_fulfillment_write (Set_pending_gift u) = True"
| "is_fulfillment_write (Update_user_stats u a) = True"
| "is_fulfillment_write (Redeem_promo c u a) = True"
| "is_fulfillment_write (Update_promo_status c) = True"
| "is_fulfillment_write e = False"

subsection \<open>A sample run\<close>

text \<open>
  A card payment of 100 through managed bot 7 for a new key, with one operator, and a
  provisioning client that fails with an upstream error.
\<close>

definition sample_meta :: meta where
  "sample_meta = [''action'' \<mapsto> JStr ''new'', ''user_id'' \<mapsto> JInt 42,
     ''price'' \<mapsto> JFloat (Fin 100),
     ''payment_id'' \<mapsto> JStr ''p2'', ''payment_method'' \<mapsto> JStr ''yookassa'',
     ''factory_bot_id'' \<mapsto> JInt 7, ''months'' \<mapsto> JInt 1, ''host_name'' \<mapsto> JStr ''de-1'']"

definition sample_parsed :: parsed where
  "sample_parsed = \<lparr>m_action = JStr ''new'', m_user_id = 42, m_price = Fin 100, m_months = 1,
     m_key_id = 0, m_host_name = JStr ''de-1'', m_plan_id = 0, m_duration_days_meta = 0,
     m_payment_method = JStr ''yookassa'', m_payment_id = ''p2''\<rparr>"

definition sample_env :: env where
  "sample_env = \<lparr>e_str_int = (\<lambda>t. None), e_str_float = (\<lambda>t. None), e_clock = 10,
     e_now_ms = 10000, e_uuid = ''u1'', e_claim_store = [], e_commission_store = Works,
     e_ledger_store = [], e_resolved_factory_bot_id = 0, e_delete_message = Tg_ok,
     e_processing_sent = True, e_generated_email = ''42-1@bot.local'',
     e_key_by_id = (\<lambda>k. None), e_plan_by_id = (\<lambda>i. None),
     e_provision = Provision_raises ''request failed: 500 upstream timeout'',
     e_admin_ids = [1], e_recorded_key_id = 5, e_update_key_ok = True,
     e_add_to_balance_ok = (\<lambda>u. True), e_referred_by = (\<lambda>u. None),
     e_referral_reward_type = ''percent_purchase'', e_fixed_referral_bonus = Fin 50,
     e_percent_reward = (\<lambda>price. Some (Fin 0)), e_promo_info = None, e_promo_availability_error = None,
     e_admin_users = [1]\<rparr>"

definition sample_world :: world where
  "sample_world = \<lparr>w_db = empty_db, w_effects = []\<rparr>"

definition sample_commission :: commission_row where
  "sample_commission = \<lparr>c_bot_id = 7, c_payment_id = ''p2'', c_user_id = 42,
     c_amount_rub = Fin 100, c_commission_percent = Fin 35, c_commission_rub = Fin 35,
     c_payment_method = Some ''yookassa''\<rparr>"

text \<open>The world of a redelivery: the payment id of the sample run is already claimed.\<close>

definition duplicate_world :: world where
  "duplicate_world = \<lparr>w_db = empty_db\<lparr>processed_payments := [''p2'' \<mapsto> 3]\<rparr>, w_effects = []\<rparr>"




section \<open>Properties of the float arithmetic\<close>

text \<open>Rules that evaluate the rounding on numerals.\<close>

lemma bit_length_numeral:
  "bit_length (numeral k) =
     (if (numeral k :: nat) = 0 then 0 else Suc (bit_length (numeral k div 2)))"
  by (rule bit_length.simps)

lemma bit_length_small: "bit_length 0 = 0" "bit_length 1 = 1" "bit_length (Suc 0) = 1"
  by (simp_all add: bit_length.simps)

lemmas float_eval = round_double_def ilog2_def pow2_def bit_length_numeral bit_length_small
  round_half_even_def round2_def Let_def

lemma round_double_zero: "round_double 0 = Fin 0"
  by (simp add: round_double_def)

lemma flt_nan_right: "\<not> flt a NaN"
  by (cases a) simp_all

text \<open>
  \<open>ilog2\<close> is the binary exponent, and \<open>round_double\<close> of a number in range lies within
  half a step of it.
\<close>

lemma bit_length_pos: "0 < n \<Longrightarrow> 0 < bit_length n"
  by (subst bit_length.simps) simp

lemma bit_length_bounds:
  "0 < n \<Longrightarrow> 2 ^ (bit_length n - 1) \<le> n \<and> n < 2 ^ bit_length n"
proof (induction n rule: bit_length.induct)
  case (1 n)
  show ?case
  proof (cases "n div 2 = 0")
    case True
    with 1(2) have "n = 1"
      by (simp add: div_eq_0_iff)
    then show ?thesis
      by (simp add: bit_length_small)
  next
    case False
    from 1(2) have n0: "n \<noteq> 0"
      by simp
    from False have h: "0 < n div 2"
      by simp
    from 1(1) [OF n0 h] have ih: "2 ^ (bit_length (n div 2) - 1) \<le> n div 2"
      "n div 2 < 2 ^ bit_length (n div 2)"
      by simp_all
    have L: "bit_length n = Suc (bit_length (n div 2))"
      using n0 by (subst bit_length.simps) simp
    from bit_length_pos [OF h] obtain k where k: "bit_length (n div 2) = Suc k"
      by (cases "bit_length (n div 2)") auto
    from ih(1) have "2 ^ Suc k \<le> 2 * (n div 2)"
      by (simp add: k)
    also have "\<dots> \<le> n"
      by simp
    finally have lo: "2 ^ (bit_length n - 1) \<le> n"
      by (simp add: L k)
    from ih(2) have "n div 2 + 1 \<le> 2 ^ bit_length (n div 2)"
      by simp
    then have "2 * (n div 2) + 2 \<le> 2 ^ bit_length n"
      by (simp add: L)
    moreover have "n < 2 * (n div 2) + 2"
      by presburger
    ultimately have hi: "n < 2 ^ bit_length n"
      by simp
    from lo hi show ?thesis
      by simp
  qed
qed

lemma round_half_even_near: "\<bar>x - of_int (round_half_even x)\<bar> \<le> 1 / 2"
  unfolding round_half_even_def Let_def
  by (simp; linarith)

lemma ilog2_bounds:
  assumes "0 < x"
  shows "pow2 (ilog2 x) \<le> x \<and> x < pow2 (ilog2 x + 1)"
proof (cases "1 \<le> x")
  case True
  define n where "n = nat \<lfloor>x\<rfloor>"
  from True have n: "0 < n" "real n \<le> x" "x < real n + 1"
    by (simp_all add: n_def) (linarith+)?
  from bit_length_bounds [OF n(1)] have b: "2 ^ (bit_length n - 1) \<le> n" "n < 2 ^ bit_length n"
    by simp_all
  from bit_length_pos [OF n(1)] obtain k where k: "bit_length n = Suc k"
    by (cases "bit_length n") auto
  have e: "ilog2 x = int k"
    using True by (simp add: ilog2_def n_def [symmetric] k)
  from b(1) have "(2::real) ^ k \<le> real n"
    unfolding k by (metis diff_Suc_1 of_nat_le_iff of_nat_numeral of_nat_power)
  with n(2) have "(2::real) ^ k \<le> x"
    by linarith
  then have lo: "pow2 (ilog2 x) \<le> x"
    by (simp add: e pow2_def)
  from b(2) have "n + 1 \<le> 2 ^ Suc k"
    unfolding k by simp
  then have "real (n + 1) \<le> real (2 ^ Suc k)"
    by (rule of_nat_mono)
  then have "real n + 1 \<le> 2 ^ Suc k"
    by simp
  with n(3) have "x < 2 ^ Suc k"
    by linarith
  then have hi: "x < pow2 (ilog2 x + 1)"
    by (simp add: e pow2_def nat_add_distrib)
  from lo hi show ?thesis
    by simp
next
  case False
  with assms have x: "0 < x" "x < 1"
    by simp_all
  then have inv: "1 < 1 / x"
    by simp
  define n where "n = nat (\<lceil>1 / x\<rceil> - 1)"
  from inv have c: "2 \<le> \<lceil>1 / x\<rceil>"
    by linarith
  then have n: "0 < n" "real n < 1 / x" "1 / x \<le> real n + 1"
    by (simp_all add: n_def) (linarith+)?
  from bit_length_bounds [OF n(1)] have b: "2 ^ (bit_length n - 1) \<le> n" "n < 2 ^ bit_length n"
    by simp_all
  from bit_length_pos [OF n(1)] obtain k where k: "bit_length n = Suc k"
    by (cases "bit_length n") auto
  have e: "ilog2 x = - int (Suc k)"
    using False by (simp add: ilog2_def n_def [symmetric] k)
  from b(2) have "n + 1 \<le> 2 ^ Suc k"
    unfolding k by simp
  then have "real (n + 1) \<le> real (2 ^ Suc k)"
    by (rule of_nat_mono)
  then have "real n + 1 \<le> 2 ^ Suc k"
    by simp
  with n(3) have "1 / x \<le> 2 ^ Suc k"
    by linarith
  with x(1) have "1 \<le> 2 ^ Suc k * x"
    by (simp add: field_simps)
  moreover have "nat (1 + int k) = Suc k"
    by simp
  ultimately have lo: "pow2 (ilog2 x) \<le> x"
    by (simp add: e pow2_def field_simps)
  from b(1) have "(2::real) ^ k \<le> real n"
    unfolding k by (metis diff_Suc_1 of_nat_le_iff of_nat_numeral of_nat_power)
  with n(2) have "2 ^ k < 1 / x"
    by linarith
  with x(1) have "2 ^ k * x < 1"
    by (simp add: field_simps)
  moreover have "nat (1 + int j) = Suc j" for j
    by simp
  ultimately have hi: "x < pow2 (ilog2 x + 1)"
    by (cases k) (simp_all add: e pow2_def field_simps)
  from lo hi show ?thesis
    by simp
qed

lemma pow2_pos: "0 < pow2 e"
  by (simp add: pow2_def)

lemma round_double_nearest:
  assumes "\<bar>x\<bar> < 2 ^ 1024 - 2 ^ 970"
  shows "\<exists>r. round_double x = Fin r \<and>
    \<bar>x - r\<bar> \<le> pow2 (max (ilog2 \<bar>x\<bar>) (- 1022) - 52) / 2"
proof -
  define q where "q = pow2 (max (ilog2 \<bar>x\<bar>) (- 1022) - 52)"
  have q: "0 < q"
    by (simp add: q_def pow2_pos)
  define r where "r = of_int (round_half_even (x / q)) * q"
  have "x - r = (x / q - of_int (round_half_even (x / q))) * q"
    using q by (simp add: r_def left_diff_distrib)
  then have "\<bar>x - r\<bar> = \<bar>x / q - of_int (round_half_even (x / q))\<bar> * q"
    using q by (simp add: abs_mult)
  also have "\<dots> \<le> 1 / 2 * q"
    using q round_half_even_near [of "x / q"] by (intro mult_right_mono) simp_all
  finally have near: "\<bar>x - r\<bar> \<le> q / 2"
    by simp
  show ?thesis
  proof (cases "x = 0")
    case True
    with q show ?thesis
      by (simp add: round_double_def q_def)
  next
    case False
    with assms have "round_double x = Fin r"
      by (simp add: round_double_def Let_def r_def q_def)
    with near show ?thesis
      by (auto simp: q_def)
  qed
qed


section \<open>Properties of the store\<close>

lemma retry_sqlite_through:
  "goes_through n atts \<Longrightarrow> retry_sqlite n atts work s = (Inr (fst (work s)), snd (work s))"
  by (induction n atts rule: goes_through.induct) simp_all

lemma retry_sqlite_fails:
  "\<not> goes_through n atts \<Longrightarrow> \<exists>e. retry_sqlite n atts work s = (Inl e, s)"
  by (induction n atts rule: goes_through.induct) auto

lemma create_payload_pending_eq:
  "create_payload_pending atts now payment_id user_id amount_rub metadata s =
     (if strip payment_id = [] \<or> \<not> goes_through 5 atts then (False, s)
      else upsert_pending now (strip payment_id) user_id amount_rub metadata s)"
proof (cases "goes_through 5 atts")
  case True
  then show ?thesis
    by (simp add: create_payload_pending_def Let_def retry_sqlite_through)
next
  case False
  from retry_sqlite_fails [OF this] obtain e where
    "retry_sqlite 5 atts (upsert_pending now (strip payment_id) user_id amount_rub metadata) s
       = (Inl e, s)"
    by blast
  with False show ?thesis
    by (simp add: create_payload_pending_def Let_def)
qed


lemma claim_processed_payment_eq:
  "claim_processed_payment atts now payment_id s =
     (if strip payment_id = [] \<or> \<not> goes_through 5 atts then (False, s)
      else claim_work now (strip payment_id) s)"
proof (cases "goes_through 5 atts")
  case True
  then show ?thesis
    by (simp add: claim_processed_payment_def Let_def retry_sqlite_through)
next
  case False
  from retry_sqlite_fails [OF this] obtain e where
    "retry_sqlite 5 atts (claim_work now (strip payment_id)) s = (Inl e, s)"
    by blast
  with False show ?thesis
    by (simp add: claim_processed_payment_def Let_def)
qed

lemma strip_plain:
  "s \<noteq> [] \<Longrightarrow> \<not> is_space (hd s) \<Longrightarrow> \<not> is_space (last s) \<Longrightarrow> strip s = s"
proof -
  assume a: "s \<noteq> []" "\<not> is_space (hd s)" "\<not> is_space (last s)"
  from a(1,2) have "dropWhile is_space s = s"
    by (cases s) simp_all
  moreover from a(1,3) have "dropWhile is_space (rev s) = rev s"
    by (cases "rev s") (simp_all add: last_rev [symmetric] hd_rev)
  ultimately show ?thesis
    by (simp add: strip_def)
qed

lemma upsert_pending_paid_kept:
  "pending_transactions s q = Some r \<Longrightarrow> p_status r = Paid \<Longrightarrow>
   pending_transactions (snd (upsert_pending now pid u a m s)) q = Some r"
  by (auto simp: upsert_pending_def split: option.splits)

lemma create_paid_kept:
  "pending_transactions s q = Some r \<Longrightarrow> p_status r = Paid \<Longrightarrow>
   pending_transactions (snd (create_payload_pending atts now p u a m s)) q = Some r"
  by (simp add: create_payload_pending_eq upsert_pending_paid_kept)








lemma strip_p1: "strip ''p1'' = ''p1''"
  by (rule strip_plain) (simp_all add: is_space_def)

lemma strip_p0: "strip ''p0'' = ''p0''"
  by (rule strip_plain) (simp_all add: is_space_def)

lemma goes_through_5_nil: "goes_through 5 []"
  by (simp add: numeral_eq_Suc)

lemma strip_blank: "strip '' '' = []"
  by (simp add: strip_def is_space_def)

subsection \<open>Pending ledger and completion\<close>

text \<open>
  Claim C4 (no premature ledger revival). Whatever owner, amount and metadata
  \<open>create_payload_pending\<close> is called with, and whatever the store answers: when the row of
  the payment id is paid the call leaves the whole store as it was; every paid row of the
  ledger is the same row afterwards; a row that differs afterwards is the addressed row and
  was pending; and when the store works, a pending row gets the new owner, amount (NULL
  for a NaN), metadata and \<open>updated_at\<close> and keeps its status and \<open>created_at\<close>.
\<close>

theorem no_premature_ledger_revival:
  "(pending_transactions s (strip payment_id) = Some r \<and> p_status r = Paid \<longrightarrow>
      snd (create_payload_pending atts now payment_id user_id amount_rub metadata s) = s)
   \<and> (\<forall>q r'. pending_transactions s q = Some r' \<and> p_status r' = Paid \<longrightarrow>
        pending_transactions
          (snd (create_payload_pending atts now payment_id user_id amount_rub metadata s)) q
          = Some r')
   \<and> (\<forall>q r'. pending_transactions s q = Some r' \<and>
        pending_transactions
          (snd (create_payload_pending atts now payment_id user_id amount_rub metadata s)) q
          \<noteq> Some r' \<longrightarrow> q = strip payment_id \<and> p_status r' = Pending)
   \<and> (pending_transactions s (strip payment_id) = Some r \<and> p_status r = Pending \<and>
        strip payment_id \<noteq> [] \<and> goes_through 5 atts \<longrightarrow>
        pending_transactions
          (snd (create_payload_pending atts now payment_id user_id amount_rub metadata s))
          (strip payment_id)
          = Some (r\<lparr>p_user_id := user_id, p_amount_rub := sqlite_real amount_rub,
                    p_metadata := dumps_or_empty metadata, p_updated_at := now\<rparr>))"
proof (intro conjI allI impI)
  assume "pending_transactions s (strip payment_id) = Some r \<and> p_status r = Paid"
  then show "snd (create_payload_pending atts now payment_id user_id amount_rub metadata s) = s"
    by (simp add: create_payload_pending_eq upsert_pending_def)
next
  fix q r'
  assume "pending_transactions s q = Some r' \<and> p_status r' = Paid"
  then show "pending_transactions
      (snd (create_payload_pending atts now payment_id user_id amount_rub metadata s)) q = Some r'"
    by (simp add: create_paid_kept)
next
  fix q r'
  assume a: "pending_transactions s q = Some r' \<and>
    pending_transactions
      (snd (create_payload_pending atts now payment_id user_id amount_rub metadata s)) q
      \<noteq> Some r'"
  then show "q = strip payment_id"
    by (auto simp: create_payload_pending_eq upsert_pending_def split: if_splits option.splits)
  from a show "p_status r' = Pending"
    by (cases "p_status r'") (auto simp: create_paid_kept)
next
  assume "pending_transactions s (strip payment_id) = Some r \<and> p_status r = Pending \<and>
    strip payment_id \<noteq> [] \<and> goes_through 5 atts"
  then show "pending_transactions
      (snd (create_payload_pending atts now payment_id user_id amount_rub metadata s))
      (strip payment_id)
      = Some (r\<lparr>p_user_id := user_id, p_amount_rub := sqlite_real amount_rub,
                p_metadata := dumps_or_empty metadata, p_updated_at := now\<rparr>)"
    by (simp add: create_payload_pending_eq upsert_pending_def)
qed

theorem no_premature_ledger_revival_witness:
  "pending_transactions sample_ledger (strip ''p0'') = Some p0_paid \<and> p_status p0_paid = Paid
   \<and> snd (create_payload_pending [] 9 ''p0'' 7 (Some (Fin 1)) (Some [''action'' \<mapsto> JStr ''extend''])
          sample_ledger) = sample_ledger
   \<and> pending_transactions sample_ledger (strip ''p1'') = Some p1_pending
   \<and> p_status p1_pending = Pending \<and> strip ''p1'' \<noteq> [] \<and> goes_through 5 []
   \<and> pending_transactions
        (snd (create_payload_pending [] 9 ''p1'' 7 (Some (Fin 1)) None sample_ledger)) (strip ''p1'')
       = Some (p1_pending\<lparr>p_user_id := 7, p_amount_rub := Some (Fin 1),
                 p_metadata := dumps_or_empty None, p_updated_at := 9\<rparr>)"
proof -
  have h0: "pending_transactions sample_ledger (strip ''p0'') = Some p0_paid \<and> p_status p0_paid = Paid"
    by (simp add: strip_p0 sample_ledger_def p0_paid_def)
  have h1: "pending_transactions sample_ledger (strip ''p1'') = Some p1_pending \<and>
      p_status p1_pending = Pending \<and> strip ''p1'' \<noteq> [] \<and> goes_through 5 []"
    by (simp add: strip_p1 goes_through_5_nil sample_ledger_def p1_pending_def)
  from h0 no_premature_ledger_revival [where s = sample_ledger and payment_id = "''p0''"
      and r = p0_paid and atts = "[]" and now = 9 and user_id = 7 and amount_rub = "Some (Fin 1)"
      and metadata = "Some [''action'' \<mapsto> JStr ''extend'']", THEN conjunct1]
  have c0: "snd (create_payload_pending [] 9 ''p0'' 7 (Some (Fin 1)) (Some [''action'' \<mapsto> JStr ''extend''])
          sample_ledger) = sample_ledger"
    by blast
  from h1 no_premature_ledger_revival [where s = sample_ledger and payment_id = "''p1''"
      and r = p1_pending and atts = "[]" and now = 9 and user_id = 7 and amount_rub = "Some (Fin 1)"
      and metadata = None, THEN conjunct2, THEN conjunct2, THEN conjunct2]
  have c1: "pending_transactions
        (snd (create_payload_pending [] 9 ''p1'' 7 (Some (Fin 1)) None sample_ledger)) (strip ''p1'')
       = Some (p1_pending\<lparr>p_user_id := 7, p_amount_rub := Some (Fin 1),
                 p_metadata := dumps_or_empty None, p_updated_at := 9\<rparr>)"
    by (simp add: sqlite_real_def)
  from h0 h1 c0 c1 show ?thesis by blast
qed



subsection \<open>Fulfillment guard\<close>

text \<open>
  Claim C3, as the code has it. Ids are compared after \<open>strip()\<close>. For a payment id that is
  not empty after stripping and not yet in \<open>processed_payments\<close>, a call that the store lets
  through returns \<open>True\<close> and adds exactly that id (stamped with the time of the call), and
  from then on every call with an id that strips to the same text returns \<open>False\<close> and
  leaves the store as it is, whatever the store answers. A call for an id already in the set
  returns \<open>False\<close> and changes nothing, and so does every call for an id that is empty or
  only whitespace.
\<close>

theorem claim_exactly_once:
  "(strip payment_id \<noteq> [] \<and> processed_payments s (strip payment_id) = None \<and>
      goes_through 5 atts \<longrightarrow>
      claim_processed_payment atts now payment_id s =
        (True, s\<lparr>processed_payments := (processed_payments s)(strip payment_id \<mapsto> now)\<rparr>)
      \<and> (\<forall>atts' now' q. strip q = strip payment_id \<longrightarrow>
            claim_processed_payment atts' now' q
              (snd (claim_processed_payment atts now payment_id s))
            = (False, snd (claim_processed_payment atts now payment_id s))))
   \<and> (processed_payments s (strip payment_id) \<noteq> None \<longrightarrow>
        claim_processed_payment atts now payment_id s = (False, s))
   \<and> (strip payment_id = [] \<longrightarrow> claim_processed_payment atts now payment_id s = (False, s))"
  by (auto simp: claim_processed_payment_eq claim_work_def)

theorem claim_exactly_once_witness:
  "strip ''p1'' \<noteq> [] \<and> processed_payments empty_db (strip ''p1'') = None \<and> goes_through 5 []
   \<and> claim_processed_payment [] 7 ''p1'' empty_db =
       (True, empty_db\<lparr>processed_payments := [''p1'' \<mapsto> 7]\<rparr>)
   \<and> claim_processed_payment [] 8 '' p1 '' (empty_db\<lparr>processed_payments := [''p1'' \<mapsto> 7]\<rparr>) =
       (False, empty_db\<lparr>processed_payments := [''p1'' \<mapsto> 7]\<rparr>)"
proof -
  have h: "strip ''p1'' \<noteq> [] \<and> processed_payments empty_db (strip ''p1'') = None \<and>
      goes_through 5 []"
    by (simp add: strip_p1 goes_through_5_nil empty_db_def)
  have e: "empty_db\<lparr>processed_payments := (processed_payments empty_db)(strip ''p1'' \<mapsto> 7)\<rparr>
      = empty_db\<lparr>processed_payments := [''p1'' \<mapsto> 7]\<rparr>"
    by (simp add: strip_p1 empty_db_def)
  have q: "strip '' p1 '' = strip ''p1''"
    by (simp add: strip_def is_space_def)
  note t = claim_exactly_once [where payment_id = "''p1''" and s = empty_db and atts = "[]"
      and now = 7, THEN conjunct1, rule_format, OF h]
  from t [THEN conjunct1] e have c1: "claim_processed_payment [] 7 ''p1'' empty_db =
      (True, empty_db\<lparr>processed_payments := [''p1'' \<mapsto> 7]\<rparr>)"
    by simp
  from t [THEN conjunct2, rule_format, OF q, of "[]" 8] c1
  have c2: "claim_processed_payment [] 8 '' p1 '' (empty_db\<lparr>processed_payments := [''p1'' \<mapsto> 7]\<rparr>) =
      (False, empty_db\<lparr>processed_payments := [''p1'' \<mapsto> 7]\<rparr>)"
    by simp
  from h c1 c2 show ?thesis
    by blast
qed

text \<open>
  The claim as written speaks of every non-empty id: a single space is a non-empty id whose
  first claim returns \<open>False\<close> and inserts nothing.
\<close>

theorem claim_blank_id_counterexample:
  "'' '' \<noteq> [] \<and> processed_payments empty_db '' '' = None
   \<and> claim_processed_payment [] 7 '' '' empty_db = (False, empty_db)"
  by (simp add: claim_processed_payment_eq strip_blank empty_db_def)

subsection \<open>Partner commission\<close>

lemma insert_commission_eq:
  "insert_commission row s =
     (if \<exists>c \<in> set (partner_commissions s).
           c_bot_id c = c_bot_id row \<and> c_payment_id c = c_payment_id row
      then (False, s)
      else (True, s\<lparr>partner_commissions := partner_commissions s @ [row]\<rparr>))"
  by (simp only: insert_commission_def)

lemma insert_commission_same_key:
  assumes "fst (insert_commission row s)" "c_bot_id row' = c_bot_id row"
    "c_payment_id row' = c_payment_id row"
  shows "insert_commission row' (snd (insert_commission row s))
    = (False, snd (insert_commission row s))"
proof -
  from assms(1) have e: "insert_commission row s
      = (True, s\<lparr>partner_commissions := partner_commissions s @ [row]\<rparr>)"
    by (simp add: insert_commission_eq split: if_splits)
  have "\<exists>c \<in> set (partner_commissions (s\<lparr>partner_commissions := partner_commissions s @ [row]\<rparr>)).
      c_bot_id c = c_bot_id row' \<and> c_payment_id c = c_payment_id row'"
    using assms(2,3) by simp
  then have "insert_commission row' (s\<lparr>partner_commissions := partner_commissions s @ [row]\<rparr>)
      = (False, s\<lparr>partner_commissions := partner_commissions s @ [row]\<rparr>)"
    by (simp only: insert_commission_eq if_True)
  with e show ?thesis
    by simp
qed

lemma insert_commission_again:
  "insert_commission row (snd (insert_commission row s)) = (False, snd (insert_commission row s))"
proof (cases "fst (insert_commission row s)")
  case True
  then show ?thesis
    by (rule insert_commission_same_key) simp_all
next
  case False
  then have "insert_commission row s = (False, s)"
    by (simp add: insert_commission_eq split: if_splits)
  then show ?thesis
    by simp
qed

lemma accrue_eq:
  "accrue_partner_commission att bot_id payment_id user_id amount_rub payment_method percent s =
     (if bot_id \<le> 0 \<or> \<not> is_card_payment_method payment_method \<or> strip payment_id = [] \<or>
         fle amount_rub (Fin 0) \<or>
         fle (case percent of None \<Rightarrow> FRANCHISE_PERCENT_DEFAULT | Some x \<Rightarrow> x) (Fin 0) \<or>
         fle (py_round2 (fdiv100 (fmul amount_rub
                (case percent of None \<Rightarrow> FRANCHISE_PERCENT_DEFAULT | Some x \<Rightarrow> x)))) (Fin 0) \<or>
         att \<noteq> Works \<or> \<not> sqlite_integer bot_id \<or> \<not> sqlite_integer user_id \<or>
         amount_rub = NaN \<or>
         (case percent of None \<Rightarrow> FRANCHISE_PERCENT_DEFAULT | Some x \<Rightarrow> x) = NaN \<or>
         py_round2 (fdiv100 (fmul amount_rub
           (case percent of None \<Rightarrow> FRANCHISE_PERCENT_DEFAULT | Some x \<Rightarrow> x))) = NaN
      then (False, s)
      else insert_commission
        \<lparr>c_bot_id = bot_id, c_payment_id = strip payment_id, c_user_id = user_id,
         c_amount_rub = amount_rub,
         c_commission_percent = (case percent of None \<Rightarrow> FRANCHISE_PERCENT_DEFAULT | Some x \<Rightarrow> x),
         c_commission_rub = py_round2 (fdiv100 (fmul amount_rub
           (case percent of None \<Rightarrow> FRANCHISE_PERCENT_DEFAULT | Some x \<Rightarrow> x))),
         c_payment_method = (if payment_method = Some [] then None else payment_method)\<rparr> s)"
  by (cases att) (simp_all add: accrue_partner_commission_def Let_def)

lemma accrue_fails:
  "att \<noteq> Works \<Longrightarrow>
   accrue_partner_commission att bot_id payment_id user_id amount_rub payment_method percent s
     = (False, s)"
  by (simp add: accrue_eq)

lemma accrue_cases:
  "accrue_partner_commission att bot_id payment_id user_id amount_rub payment_method percent s
     = (False, s)
   \<or> (att = Works \<and>
       (\<exists>row. c_bot_id row = bot_id \<and> c_payment_id row = strip payment_id \<and>
          accrue_partner_commission att bot_id payment_id user_id amount_rub payment_method
            percent s = insert_commission row s))"
proof -
  define row where "row = \<lparr>c_bot_id = bot_id, c_payment_id = strip payment_id, c_user_id = user_id,
         c_amount_rub = amount_rub,
         c_commission_percent = (case percent of None \<Rightarrow> FRANCHISE_PERCENT_DEFAULT | Some x \<Rightarrow> x),
         c_commission_rub = py_round2 (fdiv100 (fmul amount_rub
           (case percent of None \<Rightarrow> FRANCHISE_PERCENT_DEFAULT | Some x \<Rightarrow> x))),
         c_payment_method = (if payment_method = Some [] then None else payment_method)\<rparr>"
  have k: "c_bot_id row = bot_id" "c_payment_id row = strip payment_id"
    by (simp_all add: row_def)
  have "accrue_partner_commission att bot_id payment_id user_id amount_rub payment_method percent s
      = (False, s) \<or>
    (att = Works \<and> accrue_partner_commission att bot_id payment_id user_id amount_rub
       payment_method percent s = insert_commission row s)"
    unfolding accrue_eq row_def [symmetric]
    by (simp only: split: if_split) blast
  with k show ?thesis
    by blast
qed

lemma accrue_after_works:
  "accrue_partner_commission att' bot_id payment_id user_id amount_rub payment_method percent
     (snd (accrue_partner_commission Works bot_id payment_id user_id amount_rub payment_method
        percent s))
   = (False, snd (accrue_partner_commission Works bot_id payment_id user_id amount_rub
        payment_method percent s))"
proof -
  let ?first = "accrue_partner_commission Works bot_id payment_id user_id amount_rub
    payment_method percent s"
  let ?second = "accrue_partner_commission att' bot_id payment_id user_id amount_rub
    payment_method percent (snd ?first)"
  from accrue_cases [of att' bot_id payment_id user_id amount_rub payment_method percent "snd ?first"]
  consider "?second = (False, snd ?first)"
    | row2 where "att' = Works" "c_bot_id row2 = bot_id" "c_payment_id row2 = strip payment_id"
        "?second = insert_commission row2 (snd ?first)"
    by blast
  then show "?second = (False, snd ?first)"
  proof cases
    case 1
    then show ?thesis .
  next
    case 2
    from accrue_cases [of Works bot_id payment_id user_id amount_rub payment_method percent s]
    consider "?first = (False, s)"
      | row where "c_bot_id row = bot_id" "c_payment_id row = strip payment_id"
          "?first = insert_commission row s"
      by blast
    then show ?thesis
    proof cases
      case 1
      then show ?thesis
        using 2(1) by simp
    next
      case b: 2
      show ?thesis
      proof (cases "fst (insert_commission row s)")
        case True
        from insert_commission_same_key [OF True, of row2] 2 b show ?thesis
          by simp
      next
        case False
        then have "snd (insert_commission row s) = s"
          by (auto simp: insert_commission_def split: if_splits)
        with b(3) False have "?first = (False, s)"
          by (cases "insert_commission row s") auto
        then show ?thesis
          using 2(1) by simp
      qed
    qed
  qed
qed

lemma accrue_after_true:
  assumes "fst (accrue_partner_commission att bot_id payment_id user_id amount_rub payment_method
      percent s)"
    and "strip payment_id' = strip payment_id"
  shows "accrue_partner_commission att' bot_id payment_id' user_id' amount_rub' payment_method'
      percent' (snd (accrue_partner_commission att bot_id payment_id user_id amount_rub
         payment_method percent s))
    = (False, snd (accrue_partner_commission att bot_id payment_id user_id amount_rub
         payment_method percent s))"
proof -
  let ?first = "accrue_partner_commission att bot_id payment_id user_id amount_rub
    payment_method percent s"
  let ?second = "accrue_partner_commission att' bot_id payment_id' user_id' amount_rub'
    payment_method' percent' (snd ?first)"
  from assms(1) accrue_cases [of att bot_id payment_id user_id amount_rub payment_method percent s]
  obtain row where row: "c_bot_id row = bot_id" "c_payment_id row = strip payment_id"
      "?first = insert_commission row s"
    by auto
  from accrue_cases [of att' bot_id payment_id' user_id' amount_rub' payment_method' percent'
      "snd ?first"]
  consider "?second = (False, snd ?first)"
    | row2 where "c_bot_id row2 = bot_id" "c_payment_id row2 = strip payment_id'"
        "?second = insert_commission row2 (snd ?first)"
    by blast
  then show "?second = (False, snd ?first)"
  proof cases
    case 1
    then show ?thesis .
  next
    case 2
    from assms(1) row(3) have "fst (insert_commission row s)"
      by simp
    from insert_commission_same_key [OF this, of row2] 2 row assms(2) show ?thesis
      by simp
  qed
qed

lemma accrue_known_pair:
  assumes "\<exists>c \<in> set (partner_commissions s).
      c_bot_id c = bot_id \<and> c_payment_id c = strip payment_id"
  shows "accrue_partner_commission att bot_id payment_id user_id amount_rub payment_method
      percent s = (False, s)"
proof -
  from accrue_cases [of att bot_id payment_id user_id amount_rub payment_method percent s]
  consider "accrue_partner_commission att bot_id payment_id user_id amount_rub payment_method
      percent s = (False, s)"
    | row where "c_bot_id row = bot_id" "c_payment_id row = strip payment_id"
        "accrue_partner_commission att bot_id payment_id user_id amount_rub payment_method
           percent s = insert_commission row s"
    by blast
  then show ?thesis
  proof cases
    case 1
    then show ?thesis .
  next
    case 2
    from assms 2(1,2) have "\<exists>c \<in> set (partner_commissions s).
        c_bot_id c = c_bot_id row \<and> c_payment_id c = c_payment_id row"
      by simp
    then have "insert_commission row s = (False, s)"
      by (simp only: insert_commission_eq if_True)
    with 2(3) show ?thesis
      by simp
  qed
qed

lemma accrue_true_holds_pair:
  assumes "fst (accrue_partner_commission att bot_id payment_id user_id amount_rub
      payment_method percent s)"
  shows "\<exists>c \<in> set (partner_commissions
      (snd (accrue_partner_commission att bot_id payment_id user_id amount_rub payment_method
         percent s))). c_bot_id c = bot_id \<and> c_payment_id c = strip payment_id"
proof -
  from assms accrue_cases [of att bot_id payment_id user_id amount_rub payment_method percent s]
  obtain row where row: "c_bot_id row = bot_id" "c_payment_id row = strip payment_id"
      "accrue_partner_commission att bot_id payment_id user_id amount_rub payment_method
         percent s = insert_commission row s"
    by auto
  from assms row(3) have "insert_commission row s
      = (True, s\<lparr>partner_commissions := partner_commissions s @ [row]\<rparr>)"
    by (simp add: insert_commission_eq split: if_splits)
  with row show ?thesis
    by simp
qed

lemma accrue_keeps_rows:
  "set (partner_commissions s) \<subseteq> set (partner_commissions
     (snd (accrue_partner_commission att bot_id payment_id user_id amount_rub payment_method
        percent s)))"
proof -
  from accrue_cases [of att bot_id payment_id user_id amount_rub payment_method percent s]
  consider "accrue_partner_commission att bot_id payment_id user_id amount_rub payment_method
      percent s = (False, s)"
    | row where "accrue_partner_commission att bot_id payment_id user_id amount_rub
        payment_method percent s = insert_commission row s"
    by blast
  then show ?thesis
  proof cases
    case 1
    then show ?thesis
      by simp
  next
    case 2
    then show ?thesis
      by (auto simp: insert_commission_eq split: if_splits)
  qed
qed

text \<open>
  Claim C7, as the code has it. A call of \<open>accrue_partner_commission\<close> made against a working
  store is idempotent: a second call with the same arguments returns \<open>False\<close> and leaves the
  store as the first call left it, whatever the store answers then. Once a call has
  returned \<open>True\<close>, the next call for the same bot and an id that strips to the same text
  returns \<open>False\<close> and changes nothing, whatever its other arguments. A second call does
  something only after a first call whose insert failed: that call returned \<open>False\<close> and
  wrote nothing, and the second call is then the one that inserts. In every case the store
  after two calls is the store before them or the store after one call that went through.

  More generally, a call that returns \<open>True\<close> leaves a commission for the pair of its bot
  and stripped id; no call removes a commission; and while the store holds a commission
  for the pair, every call for it returns \<open>False\<close> and changes nothing.
\<close>

theorem accrue_commission_idempotent:
  "accrue_partner_commission att' bot_id payment_id user_id amount_rub payment_method percent
     (snd (accrue_partner_commission Works bot_id payment_id user_id amount_rub payment_method
        percent s))
   = (False, snd (accrue_partner_commission Works bot_id payment_id user_id amount_rub
        payment_method percent s))
   \<and> (fst (accrue_partner_commission att bot_id payment_id user_id amount_rub payment_method
          percent s) \<and> strip payment_id' = strip payment_id \<longrightarrow>
        accrue_partner_commission att' bot_id payment_id' user_id' amount_rub' payment_method'
          percent' (snd (accrue_partner_commission att bot_id payment_id user_id amount_rub
             payment_method percent s))
        = (False, snd (accrue_partner_commission att bot_id payment_id user_id amount_rub
             payment_method percent s)))
   \<and> (accrue_partner_commission att' bot_id payment_id user_id amount_rub payment_method percent
          (snd (accrue_partner_commission att bot_id payment_id user_id amount_rub payment_method
             percent s))
        \<noteq> (False, snd (accrue_partner_commission att bot_id payment_id user_id amount_rub
             payment_method percent s)) \<longrightarrow>
        att \<noteq> Works \<and> att' = Works \<and>
        accrue_partner_commission att bot_id payment_id user_id amount_rub payment_method percent s
          = (False, s) \<and>
        accrue_partner_commission att' bot_id payment_id user_id amount_rub payment_method percent
          (snd (accrue_partner_commission att bot_id payment_id user_id amount_rub payment_method
             percent s))
          = accrue_partner_commission Works bot_id payment_id user_id amount_rub payment_method
              percent s)
   \<and> (snd (accrue_partner_commission att' bot_id payment_id user_id amount_rub payment_method
          percent (snd (accrue_partner_commission att bot_id payment_id user_id amount_rub
             payment_method percent s))) = s
        \<or> snd (accrue_partner_commission att' bot_id payment_id user_id amount_rub payment_method
             percent (snd (accrue_partner_commission att bot_id payment_id user_id amount_rub
                payment_method percent s)))
          = snd (accrue_partner_commission Works bot_id payment_id user_id amount_rub
               payment_method percent s))
   \<and> (fst (accrue_partner_commission att bot_id payment_id user_id amount_rub payment_method
          percent s) \<longrightarrow>
        (\<exists>c \<in> set (partner_commissions
            (snd (accrue_partner_commission att bot_id payment_id user_id amount_rub
               payment_method percent s))).
           c_bot_id c = bot_id \<and> c_payment_id c = strip payment_id))
   \<and> set (partner_commissions s) \<subseteq> set (partner_commissions
        (snd (accrue_partner_commission att bot_id payment_id user_id amount_rub payment_method
           percent s)))
   \<and> ((\<exists>c \<in> set (partner_commissions s).
           c_bot_id c = bot_id \<and> c_payment_id c = strip payment_id) \<longrightarrow>
        accrue_partner_commission att bot_id payment_id user_id amount_rub payment_method
          percent s = (False, s))"
proof -
  let ?acc = "\<lambda>a. accrue_partner_commission a bot_id payment_id user_id amount_rub payment_method
    percent"
  have c1: "?acc att' (snd (?acc Works s)) = (False, snd (?acc Works s))"
    by (rule accrue_after_works)
  have c2: "fst (?acc att s) \<and> strip payment_id' = strip payment_id \<longrightarrow>
      accrue_partner_commission att' bot_id payment_id' user_id' amount_rub' payment_method'
        percent' (snd (?acc att s)) = (False, snd (?acc att s))"
    by (auto intro: accrue_after_true)
  have c3: "att \<noteq> Works \<and> att' = Works \<and> ?acc att s = (False, s) \<and>
      ?acc att' (snd (?acc att s)) = ?acc Works s"
    if ne: "?acc att' (snd (?acc att s)) \<noteq> (False, snd (?acc att s))"
  proof -
    from ne accrue_after_works [of att' bot_id payment_id user_id amount_rub payment_method
        percent s]
    have a: "att \<noteq> Works"
      by auto
    then have f: "?acc att s = (False, s)"
      by (rule accrue_fails)
    with ne accrue_fails [of att' bot_id payment_id user_id amount_rub payment_method percent s]
    have a': "att' = Works"
      by auto
    from a a' f show ?thesis
      by simp
  qed
  have c4: "snd (?acc att' (snd (?acc att s))) = s \<or>
      snd (?acc att' (snd (?acc att s))) = snd (?acc Works s)"
  proof (cases "att = Works")
    case True
    with c1 show ?thesis
      by simp
  next
    case False
    then have f: "?acc att s = (False, s)"
      by (rule accrue_fails)
    show ?thesis
    proof (cases "att' = Works")
      case True
      with f show ?thesis
        by simp
    next
      case False
      then have "?acc att' s = (False, s)"
        by (rule accrue_fails)
      with f show ?thesis
        by simp
    qed
  qed
  have c5: "fst (?acc att s) \<longrightarrow>
      (\<exists>c \<in> set (partner_commissions (snd (?acc att s))).
         c_bot_id c = bot_id \<and> c_payment_id c = strip payment_id)"
    by (auto intro: accrue_true_holds_pair)
  have c6: "set (partner_commissions s) \<subseteq> set (partner_commissions (snd (?acc att s)))"
    by (rule accrue_keeps_rows)
  have c7: "(\<exists>c \<in> set (partner_commissions s).
      c_bot_id c = bot_id \<and> c_payment_id c = strip payment_id) \<longrightarrow> ?acc att s = (False, s)"
    by (auto intro: accrue_known_pair)
  from c1 c2 c3 c4 c5 c6 c7 show ?thesis
    by blast
qed

lemma card_yookassa: "is_card_payment_method (Some ''yookassa'')"
  by code_simp

lemma round_double_10500: "round_double 10500 = Fin 10500"
  by (simp add: float_eval)

lemma round_double_105: "round_double 105 = Fin 105"
  by (simp add: float_eval)

lemma round2_105: "round2 105 = 105"
  by (simp add: float_eval)

lemma commission_105: "py_round2 (fdiv100 (fmul (Fin 300) (Fin 35))) = Fin 105"
  by (simp add: round_double_10500 round_double_105 round2_105)

text \<open>
  The commission on 100.5 at 35 percent. The product 3517.5 is a double; its hundredth is
  the double just below 35.175, so the commission is 35.17 (the double nearest to it),
  where the exact quotient is the tie 35.175, which rounds to 35.18.
\<close>

lemma commission_of_100_5:
  "py_round2 (fdiv100 (fmul (Fin (201 / 2)) (Fin 35))) = Fin (2474868732728443 / 2 ^ 46)"
  "round_double (3517 / 100) = Fin (2474868732728443 / 2 ^ 46)"
  "round2 (201 / 2 * 35 / 100) = 3518 / 100"
proof -
  have "fmul (Fin (201 / 2)) (Fin 35) = Fin (7035 / 2)"
    by (simp add: float_eval)
  moreover have "fdiv100 (Fin (7035 / 2)) = Fin (2475220576449331 / 2 ^ 46)"
    by (simp add: float_eval)
  moreover have "py_round2 (Fin (2475220576449331 / 2 ^ 46)) = Fin (2474868732728443 / 2 ^ 46)"
    by (simp add: float_eval)
  ultimately show "py_round2 (fdiv100 (fmul (Fin (201 / 2)) (Fin 35)))
      = Fin (2474868732728443 / 2 ^ 46)"
    by (simp only:)
  show "round_double (3517 / 100) = Fin (2474868732728443 / 2 ^ 46)"
    by (simp add: float_eval)
  show "round2 (201 / 2 * 35 / 100) = 3518 / 100"
    by (simp add: float_eval)
qed

lemma strip_p1_padded: "strip '' p1 '' = ''p1''"
  by (simp add: strip_def is_space_def)

lemma accrue_first:
  "accrue_partner_commission Works 7 ''p1'' 42 (Fin 300) (Some ''yookassa'') (Some (Fin 35))
     empty_db =
     (True, empty_db\<lparr>partner_commissions :=
        [\<lparr>c_bot_id = 7, c_payment_id = ''p1'', c_user_id = 42, c_amount_rub = Fin 300,
          c_commission_percent = Fin 35, c_commission_rub = Fin 105,
          c_payment_method = Some ''yookassa''\<rparr>]\<rparr>)"
  by (simp add: accrue_eq card_yookassa strip_p1 round_double_10500 round_double_105 round2_105
      insert_commission_eq empty_db_def fle_def sqlite_integer_def)

text \<open>
  The claim as written has the second of two calls with the same pair insert nothing and
  return \<open>False\<close>. When the insert of the first call fails on a locked store, that call
  returns \<open>False\<close> with nothing written, and the same call made again inserts the
  commission and returns \<open>True\<close>.
\<close>

theorem accrue_retry_counterexample:
  "accrue_partner_commission Locked 7 ''p1'' 42 (Fin 300) (Some ''yookassa'') (Some (Fin 35))
     empty_db = (False, empty_db)
   \<and> accrue_partner_commission Works 7 ''p1'' 42 (Fin 300) (Some ''yookassa'') (Some (Fin 35))
       (snd (accrue_partner_commission Locked 7 ''p1'' 42 (Fin 300) (Some ''yookassa'')
          (Some (Fin 35)) empty_db))
     = (True, empty_db\<lparr>partner_commissions :=
          [\<lparr>c_bot_id = 7, c_payment_id = ''p1'', c_user_id = 42, c_amount_rub = Fin 300,
            c_commission_percent = Fin 35, c_commission_rub = Fin 105,
            c_payment_method = Some ''yookassa''\<rparr>]\<rparr>)"
proof -
  have l: "accrue_partner_commission Locked 7 ''p1'' 42 (Fin 300) (Some ''yookassa'')
      (Some (Fin 35)) empty_db = (False, empty_db)"
    by (rule accrue_fails) simp
  show ?thesis
    unfolding l by (simp add: accrue_first)
qed

theorem accrue_commission_idempotent_witness:
  "fst (accrue_partner_commission Works 7 ''p1'' 42 (Fin 300) (Some ''yookassa'') (Some (Fin 35))
          empty_db)
   \<and> strip '' p1 '' = strip ''p1''
   \<and> partner_commissions
        (snd (accrue_partner_commission Works 7 ''p1'' 42 (Fin 300) (Some ''yookassa'')
           (Some (Fin 35)) empty_db))
      = [\<lparr>c_bot_id = 7, c_payment_id = ''p1'', c_user_id = 42, c_amount_rub = Fin 300,
          c_commission_percent = Fin 35, c_commission_rub = Fin 105,
          c_payment_method = Some ''yookassa''\<rparr>]
   \<and> accrue_partner_commission Works 7 '' p1 '' 43 (Fin 500) (Some ''platega'') None
        (snd (accrue_partner_commission Works 7 ''p1'' 42 (Fin 300) (Some ''yookassa'')
           (Some (Fin 35)) empty_db))
      = (False, snd (accrue_partner_commission Works 7 ''p1'' 42 (Fin 300) (Some ''yookassa'')
           (Some (Fin 35)) empty_db))"
proof -
  have h: "fst (accrue_partner_commission Works 7 ''p1'' 42 (Fin 300) (Some ''yookassa'')
      (Some (Fin 35)) empty_db) \<and> strip '' p1 '' = strip ''p1''"
    by (simp add: accrue_first strip_p1 strip_p1_padded)
  have r: "partner_commissions
        (snd (accrue_partner_commission Works 7 ''p1'' 42 (Fin 300) (Some ''yookassa'')
           (Some (Fin 35)) empty_db))
      = [\<lparr>c_bot_id = 7, c_payment_id = ''p1'', c_user_id = 42, c_amount_rub = Fin 300,
          c_commission_percent = Fin 35, c_commission_rub = Fin 105,
          c_payment_method = Some ''yookassa''\<rparr>]"
    by (simp add: accrue_first)
  from h accrue_commission_idempotent [where att = Works and att' = Works and bot_id = 7
      and payment_id = "''p1''" and user_id = 42 and amount_rub = "Fin 300"
      and payment_method = "Some ''yookassa''" and percent = "Some (Fin 35)" and s = empty_db
      and payment_id' = "'' p1 ''" and user_id' = 43 and amount_rub' = "Fin 500"
      and payment_method' = "Some ''platega''" and percent' = None, THEN conjunct2, THEN conjunct1]
  have "accrue_partner_commission Works 7 '' p1 '' 43 (Fin 500) (Some ''platega'') None
        (snd (accrue_partner_commission Works 7 ''p1'' 42 (Fin 300) (Some ''yookassa'')
           (Some (Fin 35)) empty_db))
      = (False, snd (accrue_partner_commission Works 7 ''p1'' 42 (Fin 300) (Some ''yookassa'')
           (Some (Fin 35)) empty_db))"
    by blast
  with h r show ?thesis
    by blast
qed

subsection \<open>Stored balance\<close>

lemma deduct_nonpositive:
  "amount \<le> 0 \<Longrightarrow> deduct_from_balance att user_id amount s = (True, s)"
  by (simp add: deduct_from_balance_def)

lemma deduct_works:
  "0 < amount \<Longrightarrow> users s user_id = Some (Some b) \<Longrightarrow> amount \<le> b \<Longrightarrow>
   deduct_from_balance Works user_id amount s =
     (True, s\<lparr>users := (users s)(user_id \<mapsto> Some (b - amount))\<rparr>)"
  by (simp add: deduct_from_balance_def)

lemma deduct_short:
  "0 < amount \<Longrightarrow> (case users s user_id of Some (Some b) \<Rightarrow> b < amount | _ \<Rightarrow> True) \<Longrightarrow>
   deduct_from_balance att user_id amount s = (False, s)"
  by (cases att) (auto simp: deduct_from_balance_def split: option.splits)

lemma deduct_cases:
  assumes "0 < amount"
  shows "(\<exists>b. users s user_id = Some (Some b) \<and> amount \<le> b \<and>
            deduct_from_balance att user_id amount s =
              (True, s\<lparr>users := (users s)(user_id \<mapsto> Some (b - amount))\<rparr>))
         \<or> deduct_from_balance att user_id amount s = (False, s)"
proof (cases "att = Works \<and> (\<exists>b. users s user_id = Some (Some b) \<and> amount \<le> b)")
  case True
  then obtain b where "users s user_id = Some (Some b)" "amount \<le> b" "att = Works"
    by blast
  with assms deduct_works [of amount s user_id b] show ?thesis
    by simp
next
  case False
  show ?thesis
  proof (cases att)
    case Works
    with False have "case users s user_id of Some (Some b) \<Rightarrow> b < amount | _ \<Rightarrow> True"
      by (auto split: option.splits)
    with assms show ?thesis
      by (simp add: deduct_short)
  next
    case Locked
    with assms show ?thesis
      by (simp add: deduct_from_balance_def)
  next
    case Broken
    with assms show ?thesis
      by (simp add: deduct_from_balance_def)
  qed
qed

lemma deduct_keeps_nonnegative:
  assumes "\<forall>u b. users s u = Some (Some b) \<longrightarrow> 0 \<le> b"
  shows "\<forall>u b. users (snd (deduct_from_balance att user_id amount s)) u = Some (Some b) \<longrightarrow> 0 \<le> b"
proof (cases "0 < amount")
  case False
  with assms show ?thesis
    by (simp add: deduct_nonpositive)
next
  case True
  from deduct_cases [OF True, of s user_id att] show ?thesis
  proof
    assume "\<exists>b. users s user_id = Some (Some b) \<and> amount \<le> b \<and>
      deduct_from_balance att user_id amount s =
        (True, s\<lparr>users := (users s)(user_id \<mapsto> Some (b - amount))\<rparr>)"
    then obtain b where b: "users s user_id = Some (Some b)" "amount \<le> b"
      "deduct_from_balance att user_id amount s =
        (True, s\<lparr>users := (users s)(user_id \<mapsto> Some (b - amount))\<rparr>)"
      by blast
    show ?thesis
      unfolding b(3) using assms b(2) by simp
  next
    assume "deduct_from_balance att user_id amount s = (False, s)"
    with assms show ?thesis
      by simp
  qed
qed

text \<open>
  Claim C9 (balance deduction safety). For an amount of at most 0 \<open>deduct_from_balance\<close>
  returns \<open>True\<close> and changes nothing. For a positive amount it either returns \<open>True\<close>
  with exactly the amount taken from the user's balance, which was at least the amount, or
  returns \<open>False\<close> with the store unchanged; with a working store and enough balance it is
  the former, and with a missing user, a NULL balance or too small a balance it is the
  latter. So balances that were not negative are not negative afterwards.
\<close>

theorem deduct_from_balance_safe:
  "(amount \<le> 0 \<longrightarrow> deduct_from_balance att user_id amount s = (True, s))
   \<and> (0 < amount \<longrightarrow>
        (\<exists>b. users s user_id = Some (Some b) \<and> amount \<le> b \<and>
           deduct_from_balance att user_id amount s =
             (True, s\<lparr>users := (users s)(user_id \<mapsto> Some (b - amount))\<rparr>))
        \<or> deduct_from_balance att user_id amount s = (False, s))
   \<and> (0 < amount \<and> users s user_id = Some (Some bal) \<and> amount \<le> bal \<longrightarrow>
        deduct_from_balance Works user_id amount s =
          (True, s\<lparr>users := (users s)(user_id \<mapsto> Some (bal - amount))\<rparr>))
   \<and> (0 < amount \<and> (case users s user_id of Some (Some b) \<Rightarrow> b < amount | _ \<Rightarrow> True) \<longrightarrow>
        deduct_from_balance att user_id amount s = (False, s))
   \<and> ((\<forall>u b. users s u = Some (Some b) \<longrightarrow> 0 \<le> b) \<longrightarrow>
        (\<forall>u b. users (snd (deduct_from_balance att user_id amount s)) u = Some (Some b)
           \<longrightarrow> 0 \<le> b))"
proof (intro conjI impI)
  assume "amount \<le> 0"
  then show "deduct_from_balance att user_id amount s = (True, s)"
    by (rule deduct_nonpositive)
next
  assume "0 < amount"
  then show "(\<exists>b. users s user_id = Some (Some b) \<and> amount \<le> b \<and>
           deduct_from_balance att user_id amount s =
             (True, s\<lparr>users := (users s)(user_id \<mapsto> Some (b - amount))\<rparr>))
        \<or> deduct_from_balance att user_id amount s = (False, s)"
    by (rule deduct_cases)
next
  assume "0 < amount \<and> users s user_id = Some (Some bal) \<and> amount \<le> bal"
  then show "deduct_from_balance Works user_id amount s =
      (True, s\<lparr>users := (users s)(user_id \<mapsto> Some (bal - amount))\<rparr>)"
    by (simp add: deduct_works)
next
  assume "0 < amount \<and> (case users s user_id of Some (Some b) \<Rightarrow> b < amount | _ \<Rightarrow> True)"
  then show "deduct_from_balance att user_id amount s = (False, s)"
    by (simp add: deduct_short)
next
  assume "\<forall>u b. users s u = Some (Some b) \<longrightarrow> 0 \<le> b"
  then show "\<forall>u b. users (snd (deduct_from_balance att user_id amount s)) u = Some (Some b)
      \<longrightarrow> 0 \<le> b"
    by (rule deduct_keeps_nonnegative)
qed

theorem deduct_from_balance_safe_witness:
  "deduct_from_balance Works 42 0 sample_store = (True, sample_store)
   \<and> (0::real) < 200 \<and> users sample_store 42 = Some (Some 500) \<and> (200::real) \<le> 500
   \<and> deduct_from_balance Works 42 200 sample_store =
       (True, sample_store\<lparr>users := (users sample_store)(42 \<mapsto> Some (500 - 200))\<rparr>)
   \<and> (0::real) < 501
   \<and> (case users sample_store 42 of Some (Some b) \<Rightarrow> b < 501 | _ \<Rightarrow> True)
   \<and> deduct_from_balance Works 42 501 sample_store = (False, sample_store)
   \<and> deduct_from_balance Works 43 1 sample_store = (False, sample_store)"
proof -
  note t = deduct_from_balance_safe
  have c1: "deduct_from_balance Works 42 0 sample_store = (True, sample_store)"
    using t [where amount = 0 and att = Works and user_id = 42 and s = sample_store,
        THEN conjunct1]
    by simp
  have h3: "(0::real) < 200 \<and> users sample_store 42 = Some (Some 500) \<and> (200::real) \<le> 500"
    by (simp add: sample_store_def)
  with t [where amount = 200 and user_id = 42 and s = sample_store and bal = 500,
      THEN conjunct2, THEN conjunct2, THEN conjunct1]
  have c3: "deduct_from_balance Works 42 200 sample_store =
       (True, sample_store\<lparr>users := (users sample_store)(42 \<mapsto> Some (500 - 200))\<rparr>)"
    by blast
  have h4: "(0::real) < 501 \<and>
      (case users sample_store 42 of Some (Some b) \<Rightarrow> b < 501 | _ \<Rightarrow> True)"
    by (simp add: sample_store_def)
  with t [where amount = 501 and att = Works and user_id = 42 and s = sample_store,
      THEN conjunct2, THEN conjunct2, THEN conjunct2, THEN conjunct1]
  have c4: "deduct_from_balance Works 42 501 sample_store = (False, sample_store)"
    by blast
  have "(0::real) < 1 \<and> (case users sample_store 43 of Some (Some b) \<Rightarrow> b < 1 | _ \<Rightarrow> True)"
    by (simp add: sample_store_def)
  with t [where amount = 1 and att = Works and user_id = 43 and s = sample_store,
      THEN conjunct2, THEN conjunct2, THEN conjunct2, THEN conjunct1]
  have c5: "deduct_from_balance Works 43 1 sample_store = (False, sample_store)"
    by blast
  from c1 h3 c3 h4 c4 c5 show ?thesis
    by blast
qed

subsection \<open>TON transactions\<close>

lemma ton_mark_paid_float:
  "ton_mark_paid pid row m (Some a) amount_ton s =
     (Returns (Some (setdefault ''payment_id'' (JStr pid) m)),
      s\<lparr>transactions := (transactions s)(pid \<mapsto>
         row\<lparr>t_status := Paid, t_amount_currency := (if a = NaN then JNull else JFloat a),
             t_currency_name := Some ''TON'', t_payment_method := Some ''TON''\<rparr>)\<rparr>)"
  by (simp add: ton_mark_paid_def)

lemma ton_mark_paid_bound:
  "sqlite_bind (case amt_val of Some a \<Rightarrow> JFloat a | None \<Rightarrow> amount_ton) = Bound v \<Longrightarrow>
   ton_mark_paid pid row m amt_val amount_ton s =
     (Returns (Some (setdefault ''payment_id'' (JStr pid) m)),
      s\<lparr>transactions := (transactions s)(pid \<mapsto>
         row\<lparr>t_status := Paid, t_amount_currency := v,
             t_currency_name := Some ''TON'', t_payment_method := Some ''TON''\<rparr>)\<rparr>)"
  by (simp add: ton_mark_paid_def)

lemma ton_mark_paid_unchanged:
  "\<forall>m'. fst (ton_mark_paid pid row m amt_val amount_ton s) \<noteq> Returns (Some m') \<Longrightarrow>
   snd (ton_mark_paid pid row m amt_val amount_ton s) = s"
  by (cases "sqlite_bind (case amt_val of Some a \<Rightarrow> JFloat a | None \<Rightarrow> amount_ton)")
    (simp_all add: ton_mark_paid_def)

lemma ton_pending_eq:
  assumes "transactions s (strip payment_id) = Some row" "t_status row = Pending"
  shows "find_and_complete_ton_transaction str_float att payment_id amount_ton s =
    (if strip payment_id = [] \<or> att \<noteq> Works then (Returns None, s)
     else (case (if expected_ton (loads_or_empty (t_metadata row)) \<noteq> JNull
                 then caught (py_float str_float (expected_ton (loads_or_empty (t_metadata row))))
                 else None) of
             Some e \<Rightarrow>
               (case caught (py_float str_float amount_ton) of
                  None \<Rightarrow> (Returns None, s)
                | Some a \<Rightarrow>
                    if ton_mismatch a e then (Returns None, s)
                    else ton_mark_paid (strip payment_id) row (loads_or_empty (t_metadata row))
                           (Some a) amount_ton s)
           | None \<Rightarrow>
               ton_mark_paid (strip payment_id) row (loads_or_empty (t_metadata row))
                 (caught (py_float str_float amount_ton)) amount_ton s))"
  using assms
  by (cases att)
    (simp_all add: find_and_complete_ton_transaction_def Let_def split: option.splits)

lemma round_double_thousandth: "round_double (1 / 1000) = Fin (1152921504606847 / 2 ^ 60)"
  by (simp add: float_eval)

lemma round_double_hundredth: "round_double (1 / 100) = Fin (5764607523034235 / 2 ^ 59)"
  by (simp add: float_eval)

lemma ton_mismatch_nan_amount: "\<not> ton_mismatch NaN e"
  by (simp add: ton_mismatch_def flt_nan_right)

lemma ton_mismatch_nan_expected: "\<not> ton_mismatch a NaN"
  by (cases a) (simp_all add: ton_mismatch_def flt_nan_right)

lemma ton_tolerance_positive: "\<not> flt (ton_tolerance e) (Fin 0)"
proof -
  obtain t where t: "fmul e (round_double (1 / 100)) = t"
    by simp
  show ?thesis
    unfolding ton_tolerance_def t round_double_thousandth py_max_def
    by (cases t) (simp_all split: if_splits)
qed

lemma ton_mismatch_equal: "\<not> ton_mismatch (Fin x) (Fin x)"
  by (simp add: ton_mismatch_def round_double_zero ton_tolerance_positive)

text \<open>
  Claim C10, as the code has it. Take a pending TON transaction whose metadata records an
  expected amount: the first of the three keys that is not \<open>null\<close>.

  \<^item> When \<open>float\<close> converts the recorded value to \<open>e\<close>: a reported amount that does not
    convert, or that converts to an \<open>a\<close> with \<open>abs(a - e) > max(0.001, e * 0.01)\<close>, gives
    \<open>None\<close> and leaves the store as it was; with a working store any other amount marks the
    row paid, with the amount as SQLite stores it, and returns the decoded metadata with
    \<open>payment_id\<close> defaulted; and metadata is returned in no other case.
  \<^item> The test is made in float arithmetic. It is false when the amount or the expected
    value is NaN, so such an amount is accepted; and it is false when the two are equal.
  \<^item> When \<open>float\<close> does not convert the recorded value (a text that is no number, an
    integer beyond the doubles), there is no test: with a working store every amount
    that sqlite3 can bind marks the row paid.
  \<^item> Whenever the call does not return metadata, the store is unchanged.
\<close>

theorem ton_amount_tolerance:
  assumes "transactions s (strip payment_id) = Some row" and "t_status row = Pending"
    and "expected_ton (loads_or_empty (t_metadata row)) = expected" and "expected \<noteq> JNull"
  shows "(caught (py_float str_float expected) = Some e \<longrightarrow>
            (caught (py_float str_float amount_ton) = None \<or>
             (\<exists>a. caught (py_float str_float amount_ton) = Some a \<and> ton_mismatch a e) \<longrightarrow>
             find_and_complete_ton_transaction str_float att payment_id amount_ton s
               = (Returns None, s))
          \<and> (strip payment_id \<noteq> [] \<and> caught (py_float str_float amount_ton) = Some a \<and>
               \<not> ton_mismatch a e \<longrightarrow>
               find_and_complete_ton_transaction str_float Works payment_id amount_ton s =
                 (Returns (Some (setdefault ''payment_id'' (JStr (strip payment_id))
                                   (loads_or_empty (t_metadata row)))),
                  s\<lparr>transactions := (transactions s)(strip payment_id \<mapsto>
                     row\<lparr>t_status := Paid,
                         t_amount_currency := (if a = NaN then JNull else JFloat a),
                         t_currency_name := Some ''TON'', t_payment_method := Some ''TON''\<rparr>)\<rparr>))
          \<and> (\<forall>m. fst (find_and_complete_ton_transaction str_float att payment_id amount_ton s)
                    = Returns (Some m) \<longrightarrow>
                 att = Works \<and>
                 (\<exists>a. caught (py_float str_float amount_ton) = Some a \<and> \<not> ton_mismatch a e)))
     \<and> ton_mismatch a' e' =
          flt (py_max (round_double (1 / 1000)) (fmul e' (round_double (1 / 100))))
            (fabs (fsub a' e'))
     \<and> \<not> ton_mismatch NaN e' \<and> \<not> ton_mismatch a' NaN \<and> \<not> ton_mismatch (Fin x) (Fin x)
     \<and> (caught (py_float str_float expected) = None \<and> strip payment_id \<noteq> [] \<and>
          sqlite_bind (case caught (py_float str_float amount_ton) of
                         Some a \<Rightarrow> JFloat a | None \<Rightarrow> amount_ton) = Bound v \<longrightarrow>
          find_and_complete_ton_transaction str_float Works payment_id amount_ton s =
            (Returns (Some (setdefault ''payment_id'' (JStr (strip payment_id))
                              (loads_or_empty (t_metadata row)))),
             s\<lparr>transactions := (transactions s)(strip payment_id \<mapsto>
                row\<lparr>t_status := Paid, t_amount_currency := v,
                    t_currency_name := Some ''TON'', t_payment_method := Some ''TON''\<rparr>)\<rparr>))
     \<and> ((\<forall>m. fst (find_and_complete_ton_transaction str_float att payment_id amount_ton s)
                 \<noteq> Returns (Some m)) \<longrightarrow>
          snd (find_and_complete_ton_transaction str_float att payment_id amount_ton s) = s)"
proof -
  let ?call = "\<lambda>att. find_and_complete_ton_transaction str_float att payment_id amount_ton s"
  let ?m = "loads_or_empty (t_metadata row)"
  let ?A = "caught (py_float str_float amount_ton)"
  let ?E = "caught (py_float str_float expected)"
  have eq: "?call att' =
      (if strip payment_id = [] \<or> att' \<noteq> Works then (Returns None, s)
       else (case ?E of
               Some e \<Rightarrow>
                 (case ?A of
                    None \<Rightarrow> (Returns None, s)
                  | Some a \<Rightarrow>
                      if ton_mismatch a e then (Returns None, s)
                      else ton_mark_paid (strip payment_id) row ?m (Some a) amount_ton s)
             | None \<Rightarrow> ton_mark_paid (strip payment_id) row ?m ?A amount_ton s))" for att'
    using ton_pending_eq [OF assms(1,2), of str_float att' amount_ton] assms(3,4) by simp
  have c1: "?call att = (Returns None, s)"
    if "?E = Some e" "?A = None \<or> (\<exists>a. ?A = Some a \<and> ton_mismatch a e)"
    using that unfolding eq by auto
  have c2: "?call Works =
      (Returns (Some (setdefault ''payment_id'' (JStr (strip payment_id)) ?m)),
       s\<lparr>transactions := (transactions s)(strip payment_id \<mapsto>
          row\<lparr>t_status := Paid, t_amount_currency := (if a = NaN then JNull else JFloat a),
              t_currency_name := Some ''TON'', t_payment_method := Some ''TON''\<rparr>)\<rparr>)"
    if "?E = Some e" "strip payment_id \<noteq> [] \<and> ?A = Some a \<and> \<not> ton_mismatch a e"
    using that unfolding eq by (simp add: ton_mark_paid_float)
  have c3: "att = Works \<and> (\<exists>a. ?A = Some a \<and> \<not> ton_mismatch a e)"
    if "?E = Some e" "fst (?call att) = Returns (Some m)" for m
    using that unfolding eq by (cases ?A) (auto split: if_splits)
  have c4: "ton_mismatch a' e' =
      flt (py_max (round_double (1 / 1000)) (fmul e' (round_double (1 / 100)))) (fabs (fsub a' e'))"
    by (simp add: ton_mismatch_def ton_tolerance_def)
  have c5: "?call Works =
      (Returns (Some (setdefault ''payment_id'' (JStr (strip payment_id)) ?m)),
       s\<lparr>transactions := (transactions s)(strip payment_id \<mapsto>
          row\<lparr>t_status := Paid, t_amount_currency := v,
              t_currency_name := Some ''TON'', t_payment_method := Some ''TON''\<rparr>)\<rparr>)"
    if "?E = None \<and> strip payment_id \<noteq> [] \<and>
      sqlite_bind (case ?A of Some a \<Rightarrow> JFloat a | None \<Rightarrow> amount_ton) = Bound v"
    using that unfolding eq by (simp add: ton_mark_paid_bound)
  have c6: "snd (?call att) = s" if n: "\<forall>m. fst (?call att) \<noteq> Returns (Some m)"
  proof (cases "strip payment_id = [] \<or> att \<noteq> Works")
    case True
    then show ?thesis
      unfolding eq by simp
  next
    case False
    show ?thesis
    proof (cases ?E)
      case None
      with False n show ?thesis
        unfolding eq by (simp add: ton_mark_paid_unchanged)
    next
      case (Some e0)
      show ?thesis
      proof (cases ?A)
        case None
        with False Some show ?thesis
          unfolding eq by simp
      next
        case a: (Some a0)
        show ?thesis
        proof (cases "ton_mismatch a0 e0")
          case True
          with False Some a show ?thesis
            unfolding eq by simp
        next
          case m: False
          with False Some a n show ?thesis
            unfolding eq by (simp add: ton_mark_paid_unchanged)
        qed
      qed
    qed
  qed
  from c1 c2 c3 c4 c5 c6 ton_mismatch_nan_amount [of e'] ton_mismatch_nan_expected [of a']
    ton_mismatch_equal [of x]
  show ?thesis
    by blast
qed

lemma strip_t1: "strip ''t1'' = ''t1''"
  by (rule strip_plain) (simp_all add: is_space_def)

lemma ton_store_row:
  "transactions (ton_store v) (strip ''t1'')
     = Some (ton_row\<lparr>t_metadata := MObject [''expected_amount_ton'' \<mapsto> v]\<rparr>)"
  by (simp add: ton_store_def strip_t1)

lemma ton_store_expected:
  "expected_ton (loads_or_empty
     (t_metadata (ton_row\<lparr>t_metadata := MObject [''expected_amount_ton'' \<mapsto> v]\<rparr>))) = v"
  by (auto simp: expected_ton_def get_def Let_def)

lemma ton_store_pending:
  "t_status (ton_row\<lparr>t_metadata := MObject [''expected_amount_ton'' \<mapsto> v]\<rparr>) = Pending"
  by (simp add: ton_row_def)

text \<open>
  The test on samples. With 2.5 expected, 2.75 is refused and 2.515625 is accepted. With 1
  expected, the double nearest to 1.01 (the webhook's \<open>1010000000 / 1_000_000_000\<close>) is
  refused: the difference is \<open>45035996273705 / 2 ^ 52\<close>, above the double nearest to 0.01.
\<close>

lemma tolerance_of_5_2: "ton_tolerance (Fin (5 / 2)) = Fin (3602879701896397 / 2 ^ 57)"
  by (simp add: ton_tolerance_def round_double_thousandth round_double_hundredth py_max_def)
    (simp add: float_eval)

lemma mismatch_2_75: "ton_mismatch (Fin (11 / 4)) (Fin (5 / 2))"
  unfolding ton_mismatch_def tolerance_of_5_2 by (simp add: float_eval)

lemma match_2_515625: "\<not> ton_mismatch (Fin (161 / 64)) (Fin (5 / 2))"
  unfolding ton_mismatch_def tolerance_of_5_2 by (simp add: float_eval)

lemma round_double_1_01: "round_double (101 / 100) = Fin (4548635623644201 / 2 ^ 52)"
  by (simp add: float_eval)

lemma tolerance_of_1: "ton_tolerance (Fin 1) = Fin (5764607523034235 / 2 ^ 59)"
  by (simp add: ton_tolerance_def round_double_thousandth round_double_hundredth py_max_def)
    (simp add: float_eval)

lemma mismatch_1_01: "ton_mismatch (Fin (4548635623644201 / 2 ^ 52)) (Fin 1)"
  unfolding ton_mismatch_def tolerance_of_1 by (simp add: float_eval)

theorem ton_amount_tolerance_witness:
  "transactions sample_store (strip ''t1'') = Some ton_row \<and> t_status ton_row = Pending
   \<and> expected_ton (loads_or_empty (t_metadata ton_row)) = JFloat (Fin (5 / 2))
   \<and> JFloat (Fin (5 / 2)) \<noteq> JNull
   \<and> caught (py_float sample_str_float (JFloat (Fin (5 / 2)))) = Some (Fin (5 / 2))
   \<and> find_and_complete_ton_transaction sample_str_float Works ''t1'' JNull sample_store
       = (Returns None, sample_store)
   \<and> find_and_complete_ton_transaction sample_str_float Works ''t1'' (JFloat (Fin (11 / 4)))
        sample_store = (Returns None, sample_store)
   \<and> find_and_complete_ton_transaction sample_str_float Works ''t1'' (JFloat (Fin (161 / 64)))
        sample_store
       = (Returns (Some (setdefault ''payment_id'' (JStr (strip ''t1''))
                          (loads_or_empty (t_metadata ton_row)))),
          sample_store\<lparr>transactions := (transactions sample_store)(strip ''t1'' \<mapsto>
             ton_row\<lparr>t_status := Paid, t_amount_currency := JFloat (Fin (161 / 64)),
                 t_currency_name := Some ''TON'', t_payment_method := Some ''TON''\<rparr>)\<rparr>)
   \<and> round_double (101 / 100) = Fin (4548635623644201 / 2 ^ 52)
   \<and> find_and_complete_ton_transaction sample_str_float Works ''t1''
        (JFloat (Fin (4548635623644201 / 2 ^ 52))) (ton_store (JFloat (Fin 1)))
       = (Returns None, ton_store (JFloat (Fin 1)))"
proof -
  have h1: "transactions sample_store (strip ''t1'') = Some ton_row"
    by (simp add: strip_t1 sample_store_def)
  have h2: "t_status ton_row = Pending"
    by (simp add: ton_row_def)
  have h3: "expected_ton (loads_or_empty (t_metadata ton_row)) = JFloat (Fin (5 / 2))"
    by (simp add: ton_row_def expected_ton_def get_def)
  have h4: "JFloat (Fin (5 / 2)) \<noteq> JNull"
    by simp
  have e: "caught (py_float sample_str_float (JFloat (Fin (5 / 2)))) = Some (Fin (5 / 2))"
    by simp
  note t = ton_amount_tolerance [OF h1 h2 h3 h4, where str_float = sample_str_float
      and e = "Fin (5 / 2)", THEN conjunct1, rule_format, OF e]
  have "caught (py_float sample_str_float JNull) = None"
    by simp
  with t [where amount_ton = JNull and att = Works, THEN conjunct1]
  have c1: "find_and_complete_ton_transaction sample_str_float Works ''t1'' JNull sample_store
      = (Returns None, sample_store)"
    by blast
  have "\<exists>a. caught (py_float sample_str_float (JFloat (Fin (11 / 4)))) = Some a \<and>
      ton_mismatch a (Fin (5 / 2))"
    using mismatch_2_75 by simp
  with t [where amount_ton = "JFloat (Fin (11 / 4))" and att = Works, THEN conjunct1]
  have c2: "find_and_complete_ton_transaction sample_str_float Works ''t1''
      (JFloat (Fin (11 / 4))) sample_store = (Returns None, sample_store)"
    by blast
  have "strip ''t1'' \<noteq> [] \<and>
      caught (py_float sample_str_float (JFloat (Fin (161 / 64)))) = Some (Fin (161 / 64)) \<and>
      \<not> ton_mismatch (Fin (161 / 64)) (Fin (5 / 2))"
    using match_2_515625 by (simp add: strip_t1)
  with t [where amount_ton = "JFloat (Fin (161 / 64))" and a = "Fin (161 / 64)",
      THEN conjunct2, THEN conjunct1]
  have c3: "find_and_complete_ton_transaction sample_str_float Works ''t1''
      (JFloat (Fin (161 / 64))) sample_store
       = (Returns (Some (setdefault ''payment_id'' (JStr (strip ''t1''))
                          (loads_or_empty (t_metadata ton_row)))),
          sample_store\<lparr>transactions := (transactions sample_store)(strip ''t1'' \<mapsto>
             ton_row\<lparr>t_status := Paid, t_amount_currency := JFloat (Fin (161 / 64)),
                 t_currency_name := Some ''TON'', t_payment_method := Some ''TON''\<rparr>)\<rparr>)"
    by simp
  have g4: "JFloat (Fin 1) \<noteq> JNull"
    by simp
  have e1: "caught (py_float sample_str_float (JFloat (Fin 1))) = Some (Fin 1)"
    by simp
  have "\<exists>a. caught (py_float sample_str_float (JFloat (Fin (4548635623644201 / 2 ^ 52))))
        = Some a \<and> ton_mismatch a (Fin 1)"
    using mismatch_1_01 by simp
  with ton_amount_tolerance [OF ton_store_row ton_store_pending ton_store_expected g4,
      where str_float = sample_str_float and e = "Fin 1" and att = Works
        and amount_ton = "JFloat (Fin (4548635623644201 / 2 ^ 52))",
      THEN conjunct1, rule_format, OF e1, THEN conjunct1]
  have c4: "find_and_complete_ton_transaction sample_str_float Works ''t1''
        (JFloat (Fin (4548635623644201 / 2 ^ 52))) (ton_store (JFloat (Fin 1)))
       = (Returns None, ton_store (JFloat (Fin 1)))"
    by blast
  from h1 h2 h3 h4 e c1 c2 c3 round_double_1_01 c4 show ?thesis
    by blast
qed

text \<open>
  The claim as written has metadata returned only when the reported amount is within the
  tolerance of the recorded expected amount. A transaction whose metadata records the
  expected amount as the text \<open>2,5\<close>, or as the integer \<open>10 ^ 400\<close>, is marked paid by a
  reported amount of 100; and the transaction that expects 2.5 is marked paid by a reported
  amount that is NaN, which SQLite stores as NULL.
\<close>

theorem ton_unchecked_counterexample:
  "find_and_complete_ton_transaction sample_str_float Works ''t1'' (JFloat (Fin 100))
     (ton_store (JStr ''2,5''))
   = (Returns (Some [''expected_amount_ton'' \<mapsto> JStr ''2,5'', ''payment_id'' \<mapsto> JStr ''t1'']),
      (ton_store (JStr ''2,5''))\<lparr>transactions := [''t1'' \<mapsto>
         ton_row\<lparr>t_metadata := MObject [''expected_amount_ton'' \<mapsto> JStr ''2,5''],
                 t_status := Paid, t_amount_currency := JFloat (Fin 100),
                 t_currency_name := Some ''TON'', t_payment_method := Some ''TON''\<rparr>]\<rparr>)
   \<and> find_and_complete_ton_transaction sample_str_float Works ''t1'' (JFloat (Fin 100))
       (ton_store (JInt (10 ^ 400)))
     = (Returns (Some [''expected_amount_ton'' \<mapsto> JInt (10 ^ 400),
                       ''payment_id'' \<mapsto> JStr ''t1'']),
        (ton_store (JInt (10 ^ 400)))\<lparr>transactions := [''t1'' \<mapsto>
           ton_row\<lparr>t_metadata := MObject [''expected_amount_ton'' \<mapsto> JInt (10 ^ 400)],
                   t_status := Paid, t_amount_currency := JFloat (Fin 100),
                   t_currency_name := Some ''TON'', t_payment_method := Some ''TON''\<rparr>]\<rparr>)
   \<and> find_and_complete_ton_transaction sample_str_float Works ''t1'' (JFloat NaN) sample_store
     = (Returns (Some [''expected_amount_ton'' \<mapsto> JFloat (Fin (5 / 2)),
                       ''payment_id'' \<mapsto> JStr ''t1'']),
        sample_store\<lparr>transactions := [''t1'' \<mapsto>
           ton_row\<lparr>t_status := Paid, t_amount_currency := JNull,
                   t_currency_name := Some ''TON'', t_payment_method := Some ''TON''\<rparr>]\<rparr>)"
proof -
  have unread: "caught (py_float sample_str_float (JStr ''2,5'')) = None"
    by (simp add: sample_str_float_def)
  have big: "caught (py_float sample_str_float (JInt (10 ^ 400))) = None"
    by (simp add: round_double_def)
  have a: "caught (py_float sample_str_float (JFloat (Fin 100))) = Some (Fin 100)"
    by simp
  have store: "(ton_store v)\<lparr>transactions := (transactions (ton_store v))(''t1'' \<mapsto> r)\<rparr>
      = (ton_store v)\<lparr>transactions := [''t1'' \<mapsto> r]\<rparr>" for v r
    by (simp add: ton_store_def)
  have meta: "setdefault ''payment_id'' (JStr ''t1'') [''expected_amount_ton'' \<mapsto> v]
      = [''expected_amount_ton'' \<mapsto> v, ''payment_id'' \<mapsto> JStr ''t1'']" for v
    by (simp add: setdefault_def)
  have no_test: "find_and_complete_ton_transaction sample_str_float Works ''t1''
      (JFloat (Fin 100)) (ton_store v)
    = (Returns (Some [''expected_amount_ton'' \<mapsto> v, ''payment_id'' \<mapsto> JStr ''t1'']),
       (ton_store v)\<lparr>transactions := [''t1'' \<mapsto>
          ton_row\<lparr>t_metadata := MObject [''expected_amount_ton'' \<mapsto> v],
                  t_status := Paid, t_amount_currency := JFloat (Fin 100),
                  t_currency_name := Some ''TON'', t_payment_method := Some ''TON''\<rparr>]\<rparr>)"
    if "caught (py_float sample_str_float v) = None" for v
    unfolding ton_pending_eq [OF ton_store_row ton_store_pending] ton_store_expected
    using that by (simp add: strip_t1 a ton_mark_paid_float store meta)
  have h1: "transactions sample_store (strip ''t1'') = Some ton_row"
    by (simp add: strip_t1 sample_store_def)
  have h2: "t_status ton_row = Pending"
    by (simp add: ton_row_def)
  have h3: "expected_ton (loads_or_empty (t_metadata ton_row)) = JFloat (Fin (5 / 2))"
    by (simp add: ton_row_def expected_ton_def get_def)
  have m3: "loads_or_empty (t_metadata ton_row) = [''expected_amount_ton'' \<mapsto> JFloat (Fin (5 / 2))]"
    by (simp add: ton_row_def)
  have store3: "sample_store\<lparr>transactions := (transactions sample_store)(''t1'' \<mapsto> r)\<rparr>
      = sample_store\<lparr>transactions := [''t1'' \<mapsto> r]\<rparr>" for r
    by (simp add: sample_store_def)
  have nan: "find_and_complete_ton_transaction sample_str_float Works ''t1'' (JFloat NaN)
      sample_store
    = (Returns (Some [''expected_amount_ton'' \<mapsto> JFloat (Fin (5 / 2)),
                      ''payment_id'' \<mapsto> JStr ''t1'']),
       sample_store\<lparr>transactions := [''t1'' \<mapsto>
          ton_row\<lparr>t_status := Paid, t_amount_currency := JNull,
                  t_currency_name := Some ''TON'', t_payment_method := Some ''TON''\<rparr>]\<rparr>)"
    unfolding ton_pending_eq [OF h1 h2] h3
    by (simp add: strip_t1 ton_mismatch_nan_amount ton_mark_paid_float store3 m3 meta)
  from no_test [OF unread] no_test [OF big] nan show ?thesis
    by blast
qed

section \<open>Properties of the reconciliation loop\<close>

lemma map_of_update_row:
  "map_of (map (\<lambda>kr. if fst kr = k then (fst kr, g (snd kr)) else kr) xs) k' =
     (if k' = k then map_option g (map_of xs k) else map_of xs k')"
  by (induction xs) auto

lemma map_of_delete_row:
  "map_of (filter (\<lambda>kr. fst kr \<noteq> k) xs) k' = (if k' = k then None else map_of xs k')"
  by (induction xs) auto

lemma key_row_of_update:
  "key_row_of (snd (update_key_fields att k v s)) k' =
     (if att = Works \<and> k' = k
      then map_option (\<lambda>r. r\<lparr>k_missing_from_server_at := v\<rparr>) (key_row_of s k)
      else key_row_of s k')"
  by (cases att) (simp_all add: update_key_fields_def key_row_of_def map_of_update_row)

lemma key_row_of_delete:
  "key_row_of (snd (delete_key_by_id att k s)) k' =
     (if att = Works \<and> k' = k then None else key_row_of s k')"
  by (cases att) (simp_all add: delete_key_by_id_def key_row_of_def map_of_delete_row)

lemma reconcile_item_other:
  "fst kr \<noteq> k \<Longrightarrow>
   key_row_of (snd (reconcile_item now store kr ex acc)) k = key_row_of (snd acc) k"
  by (cases kr; cases acc; cases ex)
    (simp_all add: key_row_of_update key_row_of_delete split: option.splits)

lemma reconcile_item_absent:
  "key_row_of (snd acc) k = None \<Longrightarrow>
   key_row_of (snd (reconcile_item now store kr ex acc)) k = None"
  by (cases kr; cases acc; cases ex)
    (auto simp: key_row_of_update key_row_of_delete split: option.splits)

lemma reconcile_item_same_row:
  "key_row_of s1 k = key_row_of s2 k \<Longrightarrow>
   key_row_of (snd (reconcile_item now store (k, r) ex (n1, s1))) k =
   key_row_of (snd (reconcile_item now store (k, r) ex (n2, s2))) k"
  by (cases ex) (auto simp: key_row_of_update key_row_of_delete split: option.splits)

lemma fold_reconcile_other:
  "k \<notin> fst ` set ks \<Longrightarrow>
   key_row_of (snd (fold (\<lambda>kr acc. reconcile_item now store kr (check kr) acc) ks acc)) k =
   key_row_of (snd acc) k"
  by (induction ks arbitrary: acc) (simp_all add: reconcile_item_other)

lemma fold_reconcile_absent:
  "key_row_of (snd acc) k = None \<Longrightarrow>
   key_row_of (snd (fold (\<lambda>kr acc. reconcile_item now store kr (check kr) acc) ks acc)) k = None"
  by (induction ks arbitrary: acc) (simp_all add: reconcile_item_absent)

lemma sync_absent:
  "key_row_of s k = None \<Longrightarrow>
   key_row_of (snd (sync_user_keys_with_remnawave now check store user_id s)) k = None"
  by (simp add: sync_user_keys_with_remnawave_def Let_def fold_reconcile_absent)

lemma sync_one_key:
  assumes d: "distinct (map fst (vpn_keys s))"
    and r: "key_row_of s k = Some r" and u: "k_user_id r = user_id"
  shows "key_row_of (snd (sync_user_keys_with_remnawave now check store user_id s)) k =
    key_row_of (snd (reconcile_item now store (k, r) (check (k, r)) (0, s))) k"
proof -
  let ?step = "\<lambda>kr acc. reconcile_item now store kr (check kr) acc"
  from r have m: "(k, r) \<in> set (vpn_keys s)"
    by (simp add: key_row_of_def map_of_SomeD)
  with u have mem: "(k, r) \<in> set (get_user_keys user_id s)"
    by (simp add: get_user_keys_def)
  from d have dk: "distinct (map fst (get_user_keys user_id s))"
    by (simp add: get_user_keys_def distinct_map_filter)
  from mem obtain xs ys where split: "get_user_keys user_id s = xs @ (k, r) # ys"
    by (auto dest: split_list)
  from dk have nx: "k \<notin> fst ` set xs" and ny: "k \<notin> fst ` set ys"
    unfolding split by auto
  obtain n1 s1 where acc1: "fold ?step xs (0, s) = (n1, s1)"
    by (cases "fold ?step xs (0, s)") auto
  from fold_reconcile_other [OF nx, of now store check "(0, s)"] acc1
  have same: "key_row_of s1 k = key_row_of s k"
    by simp
  have "key_row_of (snd (sync_user_keys_with_remnawave now check store user_id s)) k =
      key_row_of (snd (fold ?step ys (?step (k, r) (n1, s1)))) k"
    by (simp add: sync_user_keys_with_remnawave_def Let_def split acc1)
  also have "\<dots> = key_row_of (snd (?step (k, r) (n1, s1))) k"
    by (rule fold_reconcile_other [OF ny])
  also have "\<dots> = key_row_of (snd (reconcile_item now store (k, r) (check (k, r)) (0, s))) k"
    by (rule reconcile_item_same_row [OF same])
  finally show ?thesis .
qed

lemma reconcile_item_distinct:
  "distinct (map fst (vpn_keys (snd acc))) \<Longrightarrow>
   distinct (map fst (vpn_keys (snd (reconcile_item now store kr ex acc))))"
proof -
  assume d: "distinct (map fst (vpn_keys (snd acc)))"
  have up: "distinct (map fst (vpn_keys (snd (update_key_fields att k v (snd acc)))))" for att k v
  proof -
    have "map fst (map (\<lambda>kr. if fst kr = k then (fst kr, (snd kr)\<lparr>k_missing_from_server_at := v\<rparr>)
        else kr) (vpn_keys (snd acc))) = map fst (vpn_keys (snd acc))"
      by (induction "vpn_keys (snd acc)") auto
    with d show ?thesis
      by (cases att) (simp_all add: update_key_fields_def del: map_map)
  qed
  have del: "distinct (map fst (vpn_keys (snd (delete_key_by_id att k (snd acc)))))" for att k
    using d by (cases att) (simp_all add: delete_key_by_id_def distinct_map_filter)
  show ?thesis
    using d up del
    by (cases kr; cases acc; cases ex) (simp_all split: option.splits)
qed

lemma sync_distinct:
  assumes "distinct (map fst (vpn_keys s))"
  shows "distinct (map fst (vpn_keys (snd (sync_user_keys_with_remnawave now check store user_id s))))"
proof -
  have "distinct (map fst (vpn_keys (snd acc))) \<Longrightarrow>
      distinct (map fst (vpn_keys (snd (fold (\<lambda>kr acc. reconcile_item now store kr (check kr) acc)
        ks acc))))" for ks acc
    by (induction ks arbitrary: acc) (simp_all add: reconcile_item_distinct)
  from this [of "(0, s)"] assms show ?thesis
    by (simp add: sync_user_keys_with_remnawave_def Let_def)
qed

lemma fold_reconcile_unknown:
  "\<forall>kr. check kr = Unknown \<or> check kr = Raised \<Longrightarrow>
   fold (\<lambda>kr acc. reconcile_item now store kr (check kr) acc) ks acc = acc"
proof (induction ks arbitrary: acc)
  case Nil
  then show ?case by simp
next
  case (Cons kr ks)
  from Cons.prems have "check kr = Unknown \<or> check kr = Raised"
    by blast
  then have "reconcile_item now store kr (check kr) acc = acc"
    by (cases kr; cases acc) auto
  with Cons show ?case
    by simp
qed

lemma reconcile_item_found:
  "k \<noteq> 0 \<Longrightarrow> key_row_of s k = Some r \<Longrightarrow>
   key_row_of (snd (reconcile_item now store (k, r) Found (n, s))) k =
     Some (if store k = Works then r\<lparr>k_missing_from_server_at := Unset\<rparr> else r)"
  by (cases "k_missing_from_server_at r = Unset") (simp_all add: key_row_of_update)

lemma reconcile_item_gone_fresh:
  "k \<noteq> 0 \<Longrightarrow> key_row_of s k = Some r \<Longrightarrow>
   \<forall>t. k_missing_from_server_at r = MissingAt t \<longrightarrow> now - t \<le> grace \<Longrightarrow>
   key_row_of (snd (reconcile_item now store (k, r) Gone (n, s))) k =
     Some (if store k = Works
           then r\<lparr>k_missing_from_server_at := MissingAt (strftime_seconds now)\<rparr> else r)"
  by (cases "k_missing_from_server_at r") (simp_all add: key_row_of_update)

lemma reconcile_item_gone_stale:
  "k \<noteq> 0 \<Longrightarrow> k_missing_from_server_at r = MissingAt t \<Longrightarrow> grace < now - t \<Longrightarrow>
   store k = Works \<Longrightarrow>
   key_row_of (snd (reconcile_item now store (k, r) Gone (n, s))) k = None"
  by (simp add: key_row_of_delete)

lemma show_key_deletes:
  "key_row_of s k = Some r \<Longrightarrow> k_user_id r = user_id \<Longrightarrow>
   key_row_of (show_key_handler Works No_details Gone user_id k s) k = None"
  by (simp add: show_key_handler_def key_row_of_delete)

lemma show_key_reads:
  "details \<noteq> No_details \<or> exist \<noteq> Gone \<or> att \<noteq> Works \<Longrightarrow>
   show_key_handler att details exist user_id k s = s"
  by (cases att; cases details)
    (auto simp: show_key_handler_def delete_key_by_id_def split: option.splits)

text \<open>
  Claim C6, as the code has it. Take a key with a non-zero id that the table holds (key ids
  are unique). The first five points are about one run of
  \<open>sync_user_keys_with_remnawave\<close> for its owner at time \<open>now\<close>, the last about
  \<open>show_key_handler\<close>.

  \<^item> A check that finds the key never deletes the row, and clears the mark when the write
    goes through.
  \<^item> A check that failed (\<open>None\<close>, or an exception) leaves the row as it is; when every
    check failed, the run changes nothing and deletes nothing.
  \<^item> A check that reports the key gone while the mark is unset, unreadable, or at most 24
    hours old keeps the row and rewrites the mark to the time of this check.
  \<^item> A check that reports the key gone while the stored mark is more than 24 hours old
    deletes the row when the write goes through, and no later run brings it back.
  \<^item> So an unmarked key that is reported gone once and found by the next check is there
    afterwards, unmarked, however long after.
  \<^item> When the owner opens the key, the service returns no details for it, and the
    existence check reports it gone, the row is deleted at once when the write goes through,
    whatever its mark; on every other path the handler leaves the store as it is.
\<close>

theorem reconciliation_hysteresis:
  assumes "distinct (map fst (vpn_keys s))" and "key_row_of s k = Some r" and "k \<noteq> 0"
    and "k_user_id r = user_id"
  shows "(check (k, r) = Found \<longrightarrow>
            key_row_of (snd (sync_user_keys_with_remnawave now check store user_id s)) k =
              Some (if store k = Works then r\<lparr>k_missing_from_server_at := Unset\<rparr> else r))
     \<and> (check (k, r) = Unknown \<or> check (k, r) = Raised \<longrightarrow>
          key_row_of (snd (sync_user_keys_with_remnawave now check store user_id s)) k = Some r)
     \<and> ((\<forall>kr. check kr = Unknown \<or> check kr = Raised) \<longrightarrow>
          sync_user_keys_with_remnawave now check store user_id s = (0, s))
     \<and> (check (k, r) = Gone \<and>
          (\<forall>t. k_missing_from_server_at r = MissingAt t \<longrightarrow> now - t \<le> grace) \<longrightarrow>
          key_row_of (snd (sync_user_keys_with_remnawave now check store user_id s)) k =
            Some (if store k = Works
                  then r\<lparr>k_missing_from_server_at := MissingAt (strftime_seconds now)\<rparr> else r))
     \<and> (check (k, r) = Gone \<and> k_missing_from_server_at r = MissingAt t \<and> grace < now - t \<and>
          store k = Works \<longrightarrow>
          key_row_of (snd (sync_user_keys_with_remnawave now check store user_id s)) k = None \<and>
          (\<forall>now' check' store'.
             key_row_of (snd (sync_user_keys_with_remnawave now' check' store' user_id
               (snd (sync_user_keys_with_remnawave now check store user_id s)))) k = None))
     \<and> (k_missing_from_server_at r = Unset \<and> check (k, r) = Gone \<and> store k = Works \<and>
          check' (k, r\<lparr>k_missing_from_server_at := MissingAt (strftime_seconds now)\<rparr>) = Found \<and>
          store' k = Works \<longrightarrow>
          key_row_of (snd (sync_user_keys_with_remnawave now' check' store' user_id
            (snd (sync_user_keys_with_remnawave now check store user_id s)))) k = Some r)
     \<and> key_row_of (show_key_handler Works No_details Gone user_id k s) k = None
     \<and> (details \<noteq> No_details \<or> exist \<noteq> Gone \<or> att \<noteq> Works \<longrightarrow>
          show_key_handler att details exist user_id k s = s)"
proof -
  let ?s1 = "snd (sync_user_keys_with_remnawave now check store user_id s)"
  note one = sync_one_key [OF assms(1,2,4), of now check store]
  show ?thesis
  proof (intro conjI impI)
    show "key_row_of (show_key_handler Works No_details Gone user_id k s) k = None"
      by (rule show_key_deletes [OF assms(2,4)])
  next
    assume "details \<noteq> No_details \<or> exist \<noteq> Gone \<or> att \<noteq> Works"
    then show "show_key_handler att details exist user_id k s = s"
      by (rule show_key_reads)
  next
    assume "check (k, r) = Found"
    then show "key_row_of ?s1 k =
        Some (if store k = Works then r\<lparr>k_missing_from_server_at := Unset\<rparr> else r)"
      unfolding one using reconcile_item_found [OF assms(3,2), of now store 0] by simp
  next
    assume "check (k, r) = Unknown \<or> check (k, r) = Raised"
    then show "key_row_of ?s1 k = Some r"
      unfolding one using assms(2) by auto
  next
    assume "\<forall>kr. check kr = Unknown \<or> check kr = Raised"
    then show "sync_user_keys_with_remnawave now check store user_id s = (0, s)"
      by (simp add: sync_user_keys_with_remnawave_def Let_def fold_reconcile_unknown)
  next
    assume "check (k, r) = Gone \<and>
      (\<forall>t. k_missing_from_server_at r = MissingAt t \<longrightarrow> now - t \<le> grace)"
    then show "key_row_of ?s1 k =
        Some (if store k = Works
              then r\<lparr>k_missing_from_server_at := MissingAt (strftime_seconds now)\<rparr> else r)"
      unfolding one using reconcile_item_gone_fresh [OF assms(3,2), of now store 0] by simp
  next
    assume a: "check (k, r) = Gone \<and> k_missing_from_server_at r = MissingAt t \<and>
      grace < now - t \<and> store k = Works"
    then have gone: "key_row_of ?s1 k = None"
      unfolding one using reconcile_item_gone_stale [OF assms(3), of r t now store 0 s] by simp
    then show "key_row_of ?s1 k = None" .
    from gone show "\<forall>now' check' store'.
        key_row_of (snd (sync_user_keys_with_remnawave now' check' store' user_id ?s1)) k = None"
      by (simp add: sync_absent)
  next
    let ?r1 = "r\<lparr>k_missing_from_server_at := MissingAt (strftime_seconds now)\<rparr>"
    assume a: "k_missing_from_server_at r = Unset \<and> check (k, r) = Gone \<and> store k = Works \<and>
      check' (k, ?r1) = Found \<and> store' k = Works"
    then have r1: "key_row_of ?s1 k = Some ?r1"
      unfolding one using reconcile_item_gone_fresh [OF assms(3,2), of now store 0] by simp
    have d1: "distinct (map fst (vpn_keys ?s1))"
      by (rule sync_distinct [OF assms(1)])
    have u1: "k_user_id ?r1 = user_id"
      using assms(4) by simp
    have "key_row_of (snd (sync_user_keys_with_remnawave now' check' store' user_id ?s1)) k =
        key_row_of (snd (reconcile_item now' store' (k, ?r1) (check' (k, ?r1)) (0, ?s1))) k"
      by (rule sync_one_key [OF d1 r1 u1])
    also have "\<dots> = Some (?r1\<lparr>k_missing_from_server_at := Unset\<rparr>)"
      using a reconcile_item_found [OF assms(3) r1, of now' store' 0] by simp
    also have "?r1\<lparr>k_missing_from_server_at := Unset\<rparr> = r"
      using a by simp
    finally show "key_row_of (snd (sync_user_keys_with_remnawave now' check' store' user_id ?s1)) k
        = Some r" .
  qed
qed

lemma strftime_exact:
  "t' mod 1000000 = 0 \<Longrightarrow> strftime_seconds t' = t'"
  unfolding strftime_seconds_def by (simp add: mod_eq_0_iff_dvd)

lemma user_keys_marked:
  "get_user_keys 42 (marked_store t) = [(5, c1_key\<lparr>k_missing_from_server_at := MissingAt t\<rparr>)]"
  by (simp add: get_user_keys_def marked_store_def c1_key_def)

lemma user_keys_key_store: "get_user_keys 42 key_store = [(5, c1_key)]"
  by (simp add: get_user_keys_def key_store_def c1_key_def)

lemma update_marked:
  "update_key_fields Works 5 (MissingAt t') (marked_store t) = (True, marked_store t')"
  by (simp add: update_key_fields_def marked_store_def)

lemma update_key_store:
  "update_key_fields Works 5 (MissingAt t') key_store = (True, marked_store t')"
  by (simp add: update_key_fields_def marked_store_def key_store_def)

lemma sync_marks:
  assumes "t' - t \<le> grace" and "t' mod 1000000 = 0"
  shows "sync_user_keys_with_remnawave t' all_gone store_works 42 (marked_store t)
    = (0, marked_store t')"
  using assms
  by (simp add: sync_user_keys_with_remnawave_def user_keys_marked all_gone_def store_works_def
      update_marked strftime_exact)

lemma sync_first_mark:
  "sync_user_keys_with_remnawave 0 all_gone store_works 42 key_store = (0, marked_store 0)"
  by (simp add: sync_user_keys_with_remnawave_def user_keys_key_store all_gone_def
      store_works_def update_key_store strftime_exact c1_key_def)

text \<open>
  The claim as written has the row deleted once every check from \<open>T\<close> to past \<open>T\<close> plus 24
  hours reports the key gone. With checks at \<open>T = 0\<close>, 12 hours and 25 hours, all reporting it
  gone and all writes going through, no run deletes anything and the row is still there
  after the last one: each check inside the window moves the mark to its own time.

  The claim as written also keeps every key that was reported gone only once. When the
  owner of the unmarked key opens it and the one existence check of \<open>show_key_handler\<close>
  reports it gone, the row is deleted there and then.
\<close>

theorem reconciliation_refresh_counterexample:
  "key_row_of key_store 5 = Some c1_key \<and> k_missing_from_server_at c1_key = Unset
   \<and> key_row_of (show_key_handler Works No_details Gone 42 5 key_store) 5 = None
   \<and> sync_user_keys_with_remnawave 0 all_gone store_works 42 key_store = (0, marked_store 0)
   \<and> sync_user_keys_with_remnawave (12 * hour) all_gone store_works 42 (marked_store 0)
       = (0, marked_store (12 * hour))
   \<and> sync_user_keys_with_remnawave (25 * hour) all_gone store_works 42 (marked_store (12 * hour))
       = (0, marked_store (25 * hour))
   \<and> grace < 25 * hour - 0
   \<and> key_row_of (marked_store (25 * hour)) 5
       = Some (c1_key\<lparr>k_missing_from_server_at := MissingAt (25 * hour)\<rparr>)"
proof -
  have b: "sync_user_keys_with_remnawave (12 * hour) all_gone store_works 42 (marked_store 0)
      = (0, marked_store (12 * hour))"
    by (rule sync_marks) (simp_all add: hour_def grace_def)
  have c: "sync_user_keys_with_remnawave (25 * hour) all_gone store_works 42
      (marked_store (12 * hour)) = (0, marked_store (25 * hour))"
    by (rule sync_marks) (simp_all add: hour_def grace_def)
  have d: "grace < 25 * hour - 0"
    by (simp add: grace_def hour_def)
  have e: "key_row_of (marked_store (25 * hour)) 5
      = Some (c1_key\<lparr>k_missing_from_server_at := MissingAt (25 * hour)\<rparr>)"
    by (simp add: key_row_of_def marked_store_def)
  have k: "key_row_of key_store 5 = Some c1_key"
    by (simp add: key_row_of_def key_store_def)
  have u: "k_missing_from_server_at c1_key = Unset" "k_user_id c1_key = 42"
    by (simp_all add: c1_key_def)
  have v: "key_row_of (show_key_handler Works No_details Gone 42 5 key_store) 5 = None"
    by (rule show_key_deletes [OF k u(2)])
  from k u(1) v sync_first_mark b c d e show ?thesis
    by blast
qed

theorem reconciliation_hysteresis_witness:
  "distinct (map fst (vpn_keys key_store)) \<and> key_row_of key_store 5 = Some c1_key
   \<and> (5::int) \<noteq> 0 \<and> k_user_id c1_key = 42 \<and> k_missing_from_server_at c1_key = Unset
   \<and> key_row_of (snd (sync_user_keys_with_remnawave 0 all_gone store_works 42 key_store)) 5
       = Some (c1_key\<lparr>k_missing_from_server_at := MissingAt (strftime_seconds 0)\<rparr>)
   \<and> key_row_of (snd (sync_user_keys_with_remnawave hour all_found store_works 42
         (snd (sync_user_keys_with_remnawave 0 all_gone store_works 42 key_store)))) 5
       = Some c1_key
   \<and> distinct (map fst (vpn_keys (marked_store 0)))
   \<and> key_row_of (marked_store 0) 5 = Some (c1_key\<lparr>k_missing_from_server_at := MissingAt 0\<rparr>)
   \<and> grace < 25 * hour - 0
   \<and> key_row_of (snd (sync_user_keys_with_remnawave (25 * hour) all_gone store_works 42
         (marked_store 0))) 5 = None"
proof -
  have h: "distinct (map fst (vpn_keys key_store))" "key_row_of key_store 5 = Some c1_key"
    "(5::int) \<noteq> 0" "k_user_id c1_key = 42"
    by (simp_all add: key_store_def key_row_of_def c1_key_def)
  have u: "k_missing_from_server_at c1_key = Unset"
    by (simp add: c1_key_def)
  note t = reconciliation_hysteresis [OF h, where now = 0 and check = all_gone
      and store = store_works]
  have "all_gone (5, c1_key) = Gone \<and>
      (\<forall>t. k_missing_from_server_at c1_key = MissingAt t \<longrightarrow> 0 - t \<le> grace)"
    by (simp add: all_gone_def u)
  with t [THEN conjunct2, THEN conjunct2, THEN conjunct2, THEN conjunct1]
  have c1: "key_row_of (snd (sync_user_keys_with_remnawave 0 all_gone store_works 42 key_store)) 5
      = Some (c1_key\<lparr>k_missing_from_server_at := MissingAt (strftime_seconds 0)\<rparr>)"
    by (simp add: store_works_def)
  have "k_missing_from_server_at c1_key = Unset \<and> all_gone (5, c1_key) = Gone \<and>
      store_works 5 = Works \<and>
      all_found (5, c1_key\<lparr>k_missing_from_server_at := MissingAt (strftime_seconds 0)\<rparr>) = Found \<and>
      store_works 5 = Works"
    by (simp add: u all_gone_def all_found_def store_works_def)
  with t [where check' = all_found and store' = store_works and now' = hour,
      THEN conjunct2, THEN conjunct2, THEN conjunct2, THEN conjunct2, THEN conjunct2]
  have c2: "key_row_of (snd (sync_user_keys_with_remnawave hour all_found store_works 42
         (snd (sync_user_keys_with_remnawave 0 all_gone store_works 42 key_store)))) 5
       = Some c1_key"
    by blast
  have g: "distinct (map fst (vpn_keys (marked_store 0)))"
    "key_row_of (marked_store 0) 5 = Some (c1_key\<lparr>k_missing_from_server_at := MissingAt 0\<rparr>)"
    "(5::int) \<noteq> 0" "k_user_id (c1_key\<lparr>k_missing_from_server_at := MissingAt 0\<rparr>) = 42"
    by (simp_all add: marked_store_def key_row_of_def c1_key_def)
  have st: "grace < 25 * hour - 0"
    by (simp add: grace_def hour_def)
  then have "all_gone (5, c1_key\<lparr>k_missing_from_server_at := MissingAt 0\<rparr>) = Gone \<and>
      k_missing_from_server_at (c1_key\<lparr>k_missing_from_server_at := MissingAt 0\<rparr>) = MissingAt 0 \<and>
      grace < 25 * hour - 0 \<and> store_works 5 = Works"
    by (simp add: all_gone_def store_works_def)
  with reconciliation_hysteresis [OF g, where now = "25 * hour" and check = all_gone
      and store = store_works and t = 0,
      THEN conjunct2, THEN conjunct2, THEN conjunct2, THEN conjunct2, THEN conjunct1]
  have c3: "key_row_of (snd (sync_user_keys_with_remnawave (25 * hour) all_gone store_works 42
         (marked_store 0))) 5 = None"
    by blast
  from h u c1 c2 g(1,2) st c3 show ?thesis
    by blast
qed

section \<open>Properties of the fulfillment run\<close>

lemma strip_ends:
  assumes "strip s \<noteq> []"
  shows "\<not> is_space (hd (strip s))" and "\<not> is_space (last (strip s))"
proof -
  let ?a = "dropWhile is_space s"
  let ?b = "dropWhile is_space (rev ?a)"
  from assms have b: "?b \<noteq> []"
    by (simp add: strip_def)
  then have hb: "\<not> is_space (hd ?b)"
    by (rule hd_dropWhile)
  from b have a: "?a \<noteq> []"
    by (metis dropWhile.simps(1) rev.simps(1))
  then have ha: "\<not> is_space (hd ?a)"
    by (rule hd_dropWhile)
  have "last ?b = last (rev ?a)"
    using b by (metis dropWhile_eq_Nil_conv last_appendR takeWhile_dropWhile_id)
  with a have lb: "last ?b = hd ?a"
    by (simp add: last_rev)
  from b hb show "\<not> is_space (last (strip s))"
    by (simp add: strip_def last_rev)
  from b lb ha show "\<not> is_space (hd (strip s))"
    by (simp add: strip_def hd_rev)
qed

lemma strip_strip: "strip (strip s) = strip s"
proof (cases "strip s = []")
  case True
  have "strip [] = []"
    by (simp add: strip_def)
  with True show ?thesis
    by simp
next
  case False
  then show ?thesis
    by (intro strip_plain strip_ends)
qed

lemma appends_refl: "appends w w"
  unfolding appends_def by (intro exI [of _ "[]"]) simp

lemma appends_trans: "appends w w' \<Longrightarrow> appends w' w'' \<Longrightarrow> appends w w''"
  unfolding appends_def by (elim exE, rule_tac x = "es @ esa" in exI) simp

lemma appends_emit: "appends w (emit e w)"
  unfolding appends_def emit_def by blast

lemma appends_emit_after: "appends w w' \<Longrightarrow> appends w (emit e w')"
  by (rule appends_trans [OF _ appends_emit])

lemma appends_fold_emit: "appends w (fold (\<lambda>a. emit (f a)) xs w)"
proof (induction xs arbitrary: w)
  case Nil
  show ?case by (simp add: appends_refl)
next
  case (Cons a xs)
  from appends_trans [OF appends_emit Cons.IH] show ?case
    by simp
qed

lemma appends_db: "appends w w' \<Longrightarrow> w_db w' = w_db w"
  unfolding appends_def by auto


lemma appends_pay_referral: "appends w (pay_referral env p w)"
  unfolding pay_referral_def Let_def
  by (auto split: option.splits intro!: appends_refl appends_emit_after appends_emit)

lemma appends_top_up: "appends w (top_up env p w)"
  unfolding top_up_def Let_def
  by (intro appends_trans [OF _ appends_fold_emit] appends_emit_after
      appends_trans [OF _ appends_pay_referral] appends_emit)

lemma appends_handle_failure: "appends w (handle_key_creation_failure env u label exc refund w)"
  unfolding handle_key_creation_failure_def Let_def
  by (intro appends_trans [OF _ appends_fold_emit] appends_emit)

lemma appends_key_creation_failed: "appends w (key_creation_failed env p exc w)"
  unfolding key_creation_failed_def
  by (auto split: option.splits intro!: appends_emit appends_emit_after appends_handle_failure)

lemma appends_promo: "appends w (promo env metadata p w)"
  unfolding promo_def Let_def
  by (auto intro!: appends_refl appends_emit appends_emit_after)

lemma appends_finish: "appends w (finish env metadata p w)"
  unfolding finish_def Let_def
  by (auto split: option.splits
      intro!: appends_emit_after appends_pay_referral
        appends_trans [OF _ appends_promo])

lemma fold_emit_eq:
  "fold (\<lambda>a. emit (f a)) xs w = w\<lparr>w_effects := w_effects w @ map f xs\<rparr>"
  by (induction xs arbitrary: w) (simp_all add: emit_def)

lemma create_payload_pending_processed:
  "processed_payments (snd (create_payload_pending atts now pid u a m s)) = processed_payments s"
  by (simp add: create_payload_pending_eq upsert_pending_def split: option.splits)

lemma accrue_only_commissions:
  "\<exists>cs. snd (accrue_partner_commission att b pid u a m pc s) = s\<lparr>partner_commissions := cs\<rparr>"
proof -
  have same: "\<exists>cs. s = s\<lparr>partner_commissions := cs\<rparr>"
    by (intro exI [of _ "partner_commissions s"]) simp
  have ins: "\<exists>cs. snd (insert_commission row s) = s\<lparr>partner_commissions := cs\<rparr>" for row
  proof (cases "\<exists>c \<in> set (partner_commissions s).
      c_bot_id c = c_bot_id row \<and> c_payment_id c = c_payment_id row")
    case True
    then have "insert_commission row s = (False, s)"
      by (simp only: insert_commission_eq if_True)
    with same show ?thesis
      by simp
  next
    case False
    then have "insert_commission row s
        = (True, s\<lparr>partner_commissions := partner_commissions s @ [row]\<rparr>)"
      by (simp only: insert_commission_eq if_False)
    then show ?thesis
      by (intro exI [of _ "partner_commissions s @ [row]"]) simp
  qed
  from accrue_cases [of att b pid u a m pc s] show ?thesis
  proof
    assume "accrue_partner_commission att b pid u a m pc s = (False, s)"
    with same show ?thesis
      by simp
  next
    assume "att = Works \<and> (\<exists>row. c_bot_id row = b \<and> c_payment_id row = strip pid \<and>
      accrue_partner_commission att b pid u a m pc s = insert_commission row s)"
    then obtain row where "accrue_partner_commission att b pid u a m pc s = insert_commission row s"
      by blast
    with ins [of row] show ?thesis
      by simp
  qed
qed

lemma accrue_for_franchise_only_commissions:
  "\<exists>cs. accrue_for_franchise env metadata p s = s\<lparr>partner_commissions := cs\<rparr>"
proof -
  have same: "\<exists>cs. s = s\<lparr>partner_commissions := cs\<rparr>"
    by (intro exI [of _ "partner_commissions s"]) simp
  show ?thesis
    unfolding accrue_for_franchise_def
    using same accrue_only_commissions
    by (simp split: jval.splits)
qed

lemma appends_delete_message:
  "delete_payment_message env metadata w = Some w' \<Longrightarrow> appends w w'"
  unfolding delete_payment_message_def
  by (auto split: if_splits telegram_result.splits intro: appends_refl appends_emit)

lemma gift_processed:
  "processed_payments (w_db (gift env metadata p plan days w)) = processed_payments (w_db w)"
  unfolding gift_def Let_def emit_def
  by (simp add: create_payload_pending_processed)

lemma after_provision_processed:
  "processed_payments (w_db (after_provision env metadata p plan days w))
     = processed_payments (w_db w)"
proof -
  have f: "w_db (finish env metadata p w') = w_db w'" for w'
    by (rule appends_db [OF appends_finish])
  have e: "w_db (emit x w') = w_db w'" for x w'
    by (simp add: emit_def)
  show ?thesis
    unfolding after_provision_def Let_def
    by (simp add: f e gift_processed)
qed

lemma purchase_processed:
  "processed_payments (w_db (purchase env metadata p w)) = processed_payments (w_db w)"
proof -
  have k: "w_db (key_creation_failed env p exc w') = w_db w'" for exc w'
    by (rule appends_db [OF appends_key_creation_failed])
  have e: "w_db (emit x w') = w_db w'" for x w'
    by (simp add: emit_def)
  show ?thesis
    unfolding purchase_def Let_def
    by (simp add: k e after_provision_processed split: option.splits provision_outcome.splits)
qed

lemma parse_payment_id:
  "parse_metadata env metadata = Got p \<Longrightarrow>
   \<exists>t. py_or (py_or (get metadata ''payment_id'') (get metadata ''transaction_id'')) (JStr [])
         = JStr t \<and> m_payment_id p = strip t"
  unfolding parse_metadata_def
  by (auto split: conversion.splits outcome.splits jval.splits)

lemma payment_id_stripped:
  "parse_metadata env metadata = Got p \<Longrightarrow> strip (m_payment_id p) = m_payment_id p"
  by (auto dest!: parse_payment_id simp: strip_strip)

lemma payment_id_same:
  "parse_metadata env metadata = Got p \<Longrightarrow> parse_metadata env' metadata = Got p' \<Longrightarrow>
   m_payment_id p' = m_payment_id p"
  by (auto dest!: parse_payment_id)

lemma claim_false_unchanged:
  "\<not> fst (claim_processed_payment atts now pid s) \<Longrightarrow>
   claim_processed_payment atts now pid s = (False, s)"
  by (auto simp: claim_processed_payment_eq claim_work_def split: if_splits option.splits)

lemma process_not_claimed:
  assumes "parse_metadata env metadata = Got p"
    and "\<not> fst (claim_processed_payment (e_claim_store env) (e_clock env) (m_payment_id p) (w_db w))"
  shows "process_successful_payment env metadata w = (Returned, w)"
  using assms(1) claim_false_unchanged [OF assms(2)]
  by (simp add: process_successful_payment_def)

lemma process_duplicate:
  assumes "parse_metadata env metadata = Got p"
    and "processed_payments (w_db w) (m_payment_id p) \<noteq> None"
  shows "process_successful_payment env metadata w = (Returned, w)"
proof (rule process_not_claimed [OF assms(1)])
  from assms(2) payment_id_stripped [OF assms(1)]
  show "\<not> fst (claim_processed_payment (e_claim_store env) (e_clock env) (m_payment_id p) (w_db w))"
    by (auto simp: claim_processed_payment_eq claim_work_def)
qed

lemma process_unparsed:
  "parse_metadata env metadata = Caught \<or> parse_metadata env metadata = Uncaught \<Longrightarrow>
   snd (process_successful_payment env metadata w) = w"
  by (auto simp: process_successful_payment_def)

lemma process_claims:
  assumes parse: "parse_metadata env metadata = Got p"
    and pid: "m_payment_id p \<noteq> []" and store: "goes_through 5 (e_claim_store env)"
  shows "processed_payments (w_db (snd (process_successful_payment env metadata w)))
    (m_payment_id p) \<noteq> None"
proof (cases "processed_payments (w_db w) (m_payment_id p)")
  case (Some t)
  then have "processed_payments (w_db w) (m_payment_id p) \<noteq> None"
    by simp
  from process_duplicate [OF parse this] Some show ?thesis
    by simp
next
  case None
  let ?s1 = "(w_db w)\<lparr>processed_payments :=
    (processed_payments (w_db w))(m_payment_id p \<mapsto> e_clock env)\<rparr>"
  let ?w1 = "w\<lparr>w_db := accrue_for_franchise env metadata p ?s1\<rparr>"
  from None pid store payment_id_stripped [OF parse]
  have claim: "claim_processed_payment (e_claim_store env) (e_clock env) (m_payment_id p) (w_db w)
      = (True, ?s1)"
    by (simp add: claim_processed_payment_eq claim_work_def)
  from accrue_for_franchise_only_commissions [of env metadata p ?s1]
  have in1: "processed_payments (w_db ?w1) (m_payment_id p) \<noteq> None"
    by auto
  show ?thesis
  proof (cases "delete_payment_message env metadata ?w1")
    case None
    with parse pid claim in1 show ?thesis
      by (simp add: process_successful_payment_def)
  next
    case (Some w2)
    from appends_db [OF appends_delete_message [OF Some]] in1
    have in2: "processed_payments (w_db w2) (m_payment_id p) \<noteq> None"
      by simp
    have top: "w_db (top_up env p w2) = w_db w2"
      by (rule appends_db [OF appends_top_up])
    have pur: "processed_payments (w_db (purchase env metadata p (emit e w2))) =
        processed_payments (w_db w2)" for e
      by (simp add: purchase_processed emit_def)
    from parse pid claim Some in2 top pur show ?thesis
      by (simp add: process_successful_payment_def)
  qed
qed

text \<open>
  Claim C2 (duplicate fulfillment is a no-op). When the metadata reads and the claim of its
  payment id returns \<open>False\<close>, \<open>process_successful_payment\<close> returns with the world as it
  was: the store unchanged and no effect added (no balance credit, provisioning call, key
  write, commission, promo redemption or message). That is the case whenever the id is
  already in \<open>processed_payments\<close>. So after a run that claimed the id, whatever else that
  run did, every further run on the same metadata leaves the world as it is.
\<close>

theorem duplicate_fulfillment_noop:
  "(parse_metadata env metadata = Got p \<and>
      \<not> fst (claim_processed_payment (e_claim_store env) (e_clock env) (m_payment_id p) (w_db w))
      \<longrightarrow> process_successful_payment env metadata w = (Returned, w))
   \<and> (parse_metadata env metadata = Got p \<and>
        processed_payments (w_db w) (m_payment_id p) \<noteq> None \<longrightarrow>
        process_successful_payment env metadata w = (Returned, w))
   \<and> (parse_metadata env metadata = Got p \<and> m_payment_id p \<noteq> [] \<and>
        goes_through 5 (e_claim_store env) \<longrightarrow>
        (\<forall>env'. snd (process_successful_payment env' metadata
                      (snd (process_successful_payment env metadata w)))
                = snd (process_successful_payment env metadata w)))"
proof (intro conjI impI allI)
  assume "parse_metadata env metadata = Got p \<and>
    \<not> fst (claim_processed_payment (e_claim_store env) (e_clock env) (m_payment_id p) (w_db w))"
  then show "process_successful_payment env metadata w = (Returned, w)"
    by (simp add: process_not_claimed)
next
  assume "parse_metadata env metadata = Got p \<and>
    processed_payments (w_db w) (m_payment_id p) \<noteq> None"
  then show "process_successful_payment env metadata w = (Returned, w)"
    by (simp add: process_duplicate)
next
  fix env'
  let ?w1 = "snd (process_successful_payment env metadata w)"
  assume a: "parse_metadata env metadata = Got p \<and> m_payment_id p \<noteq> [] \<and>
    goes_through 5 (e_claim_store env)"
  then have in1: "processed_payments (w_db ?w1) (m_payment_id p) \<noteq> None"
    by (simp add: process_claims)
  show "snd (process_successful_payment env' metadata ?w1) = ?w1"
  proof (cases "parse_metadata env' metadata")
    case Caught
    then show ?thesis
      by (simp add: process_unparsed)
  next
    case Uncaught
    then show ?thesis
      by (simp add: process_unparsed)
  next
    case (Got p')
    from a payment_id_same [OF _ Got] have "m_payment_id p' = m_payment_id p"
      by blast
    with in1 process_duplicate [OF Got, of ?w1] show ?thesis
      by simp
  qed
qed

lemma claimed_nonempty:
  "claim_processed_payment atts now pid s = (True, s1) \<Longrightarrow> pid \<noteq> []"
  by (auto simp: claim_processed_payment_eq strip_def)

lemma key_creation_failed_eq:
  assumes "m_action p = JStr a" and "a \<noteq> []"
  shows "key_creation_failed env p exc w =
    w\<lparr>w_effects := w_effects w @
       [Send_message (m_user_id p)
          (Key_creation_error_text (fst (classify_key_creation_error exc)) True)] @
       map (\<lambda>aid. Send_message aid
              (Admin_key_creation_error_text (m_user_id p)
                 (fst (classify_key_creation_error exc))
                 (fst (snd (classify_key_creation_error exc)))
                 (format_key_action_label a (m_price p) (m_key_id p))))
         (e_admin_ids env) @
       [Edit_processing Key_create_failed_text]\<rparr>"
  using assms
  by (simp add: key_creation_failed_def text_or_empty_def handle_key_creation_failure_def
      Let_def fold_emit_eq emit_def)

lemma purchase_failure_eq:
  assumes act: "m_action p = JStr a" "a = ''new'' \<or> a = ''extend''"
    and email: "candidate_email env p = Some email"
    and fail: "e_provision env = Provision_raises exc \<or>
      (e_provision env = Provision_returns result \<and> empty_response result \<and>
       exc = ''key creation returned empty response'')"
  shows "purchase env metadata p w =
    key_creation_failed env p exc
      (emit (Provision_call (m_host_name p) email
               (days_to_add (e_str_int env)
                  (if m_plan_id p \<noteq> 0 then e_plan_by_id env (m_plan_id p) else None)
                  (m_months p) (m_duration_days_meta p))
               (expiry_timestamp_ms env p
                  (days_to_add (e_str_int env)
                     (if m_plan_id p \<noteq> 0 then e_plan_by_id env (m_plan_id p) else None)
                     (m_months p) (m_duration_days_meta p)))) w)"
proof -
  from act have ng: "m_action p \<noteq> JStr ''gift''"
    by auto
  from fail show ?thesis
  proof
    assume "e_provision env = Provision_raises exc"
    with email show ?thesis
      by (simp add: purchase_def Let_def)
  next
    assume "e_provision env = Provision_returns result \<and> empty_response result \<and>
      exc = ''key creation returned empty response''"
    with email ng show ?thesis
      by (simp add: purchase_def Let_def)
  qed
qed

lemma provision_failure_run:
  assumes parse: "parse_metadata env metadata = Got p"
    and act: "m_action p = JStr a" "a = ''new'' \<or> a = ''extend''"
    and claimed: "claim_processed_payment (e_claim_store env) (e_clock env) (m_payment_id p)
      (w_db w) = (True, s1)"
    and del: "delete_payment_message env metadata
      (w\<lparr>w_db := accrue_for_franchise env metadata p s1\<rparr>) = Some w2"
    and sent: "e_processing_sent env"
    and email: "candidate_email env p = Some email"
    and fail: "e_provision env = Provision_raises exc \<or>
      (e_provision env = Provision_returns result \<and> empty_response result \<and>
       exc = ''key creation returned empty response'')"
  shows "process_successful_payment env metadata w =
    (Returned, w2\<lparr>w_effects := w_effects w2 @
       [Send_message (m_user_id p) (Processing_text (m_host_name p)),
        Provision_call (m_host_name p) email
          (days_to_add (e_str_int env)
             (if m_plan_id p \<noteq> 0 then e_plan_by_id env (m_plan_id p) else None)
             (m_months p) (m_duration_days_meta p))
          (expiry_timestamp_ms env p
             (days_to_add (e_str_int env)
                (if m_plan_id p \<noteq> 0 then e_plan_by_id env (m_plan_id p) else None)
                (m_months p) (m_duration_days_meta p))),
        Send_message (m_user_id p)
          (Key_creation_error_text (fst (classify_key_creation_error exc)) True)] @
       map (\<lambda>aid. Send_message aid
              (Admin_key_creation_error_text (m_user_id p)
                 (fst (classify_key_creation_error exc))
                 (fst (snd (classify_key_creation_error exc)))
                 (format_key_action_label a (m_price p) (m_key_id p))))
         (e_admin_ids env) @
       [Edit_processing Key_create_failed_text]\<rparr>)"
proof -
  from act have a: "a \<noteq> []" and nt: "m_action p \<noteq> JStr ''top_up''"
    by auto
  have pid: "m_payment_id p \<noteq> []"
    by (rule claimed_nonempty [OF claimed])
  have "process_successful_payment env metadata w =
      (Returned, purchase env metadata p
         (emit (Send_message (m_user_id p) (Processing_text (m_host_name p))) w2))"
    using parse pid claimed del sent nt
    by (simp add: process_successful_payment_def)
  then show ?thesis
    unfolding purchase_failure_eq [OF act email fail] key_creation_failed_eq [OF act(1) a]
    by (simp add: emit_def)
qed

subsection \<open>The sample run\<close>

lemma strip_p2: "strip ''p2'' = ''p2''"
  by (rule strip_plain) (simp_all add: is_space_def)

lemma sample_parse: "parse_metadata sample_env sample_meta = Got sample_parsed"
  by (simp add: parse_metadata_def sample_env_def sample_meta_def sample_parsed_def get_def
      py_or_def to_int_def strip_p2)

lemma sample_claim:
  "claim_processed_payment (e_claim_store sample_env) (e_clock sample_env)
     (m_payment_id sample_parsed) (w_db sample_world)
   = (True, empty_db\<lparr>processed_payments := [''p2'' \<mapsto> 10]\<rparr>)"
  by (simp add: claim_processed_payment_eq claim_work_def sample_env_def sample_parsed_def
      sample_world_def strip_p2 goes_through_5_nil empty_db_def)

lemma round_double_3500: "round_double 3500 = Fin 3500"
  by (simp add: float_eval)

lemma round_double_35: "round_double 35 = Fin 35"
  by (simp add: float_eval)

lemma round2_35: "round2 35 = 35"
  by (simp add: float_eval)

lemma sample_accrue:
  "accrue_for_franchise sample_env sample_meta sample_parsed
     (empty_db\<lparr>processed_payments := [''p2'' \<mapsto> 10]\<rparr>)
   = empty_db\<lparr>processed_payments := [''p2'' \<mapsto> 10], partner_commissions := [sample_commission]\<rparr>"
proof -
  have f: "factory_bot_id sample_env sample_meta = 7"
    by (simp add: factory_bot_id_def sample_env_def sample_meta_def get_def py_or_def)
  have m: "m_payment_method sample_parsed = JStr ''yookassa''" "m_payment_id sample_parsed = ''p2''"
    "m_user_id sample_parsed = 42" "m_price sample_parsed = Fin 100"
    "e_commission_store sample_env = Works"
    by (simp_all add: sample_parsed_def sample_env_def)
  show ?thesis
    by (simp add: accrue_for_franchise_def f m accrue_eq card_yookassa strip_p2 round_double_3500
        round_double_35 round2_35 fle_def sqlite_integer_def insert_commission_eq empty_db_def
        sample_commission_def)
qed

lemma sample_no_delete:
  "delete_payment_message sample_env sample_meta w = Some w"
  by (simp add: delete_payment_message_def sample_meta_def get_def)

lemma sample_email: "candidate_email sample_env sample_parsed = Some (Some ''42-1@bot.local'')"
  by (simp add: candidate_email_def sample_parsed_def sample_env_def)

lemma sample_days:
  "days_to_add (e_str_int sample_env)
     (if m_plan_id sample_parsed \<noteq> 0 then e_plan_by_id sample_env (m_plan_id sample_parsed)
      else None)
     (m_months sample_parsed) (m_duration_days_meta sample_parsed) = 30"
  by (simp add: days_to_add_def compute_days_to_add_def plan_months_def plan_days_def Let_def
      sample_parsed_def)

lemma sample_classify:
  "classify_key_creation_error ''request failed: 500 upstream timeout''
   = (''500'', Unknown_error, ''upstream timeout'')"
  by code_simp

lemma sample_label: "format_key_action_label ''new'' (Fin 100) 0 = Label_purchase (Fin 100)"
  by (simp add: format_key_action_label_def Let_def)
    (simp add: strip_def lower_def lower_char_def is_space_def)

lemma sample_run:
  "process_successful_payment sample_env sample_meta sample_world =
     (Returned,
      \<lparr>w_db = empty_db\<lparr>processed_payments := [''p2'' \<mapsto> 10],
                 partner_commissions := [sample_commission]\<rparr>,
       w_effects =
         [Send_message 42 (Processing_text (JStr ''de-1'')),
          Provision_call (JStr ''de-1'') (Some ''42-1@bot.local'') 30 None,
          Send_message 42 (Key_creation_error_text ''500'' True),
          Send_message 1 (Admin_key_creation_error_text 42 ''500'' Unknown_error
                            (Label_purchase (Fin 100))),
          Edit_processing Key_create_failed_text]\<rparr>)"
proof -
  have act: "m_action sample_parsed = JStr ''new''" "''new'' = ''new'' \<or> ''new'' = ''extend''"
    by (simp_all add: sample_parsed_def)
  have del: "delete_payment_message sample_env sample_meta
      (sample_world\<lparr>w_db := accrue_for_franchise sample_env sample_meta sample_parsed
         (empty_db\<lparr>processed_payments := [''p2'' \<mapsto> 10]\<rparr>)\<rparr>)
    = Some (sample_world\<lparr>w_db := accrue_for_franchise sample_env sample_meta sample_parsed
         (empty_db\<lparr>processed_payments := [''p2'' \<mapsto> 10]\<rparr>)\<rparr>)"
    by (rule sample_no_delete)
  have sent: "e_processing_sent sample_env"
    by (simp add: sample_env_def)
  have fail: "e_provision sample_env = Provision_raises ''request failed: 500 upstream timeout'' \<or>
      (e_provision sample_env = Provision_returns None \<and> empty_response None \<and>
       ''request failed: 500 upstream timeout'' = ''key creation returned empty response'')"
    by (simp add: sample_env_def)
  have fields: "m_user_id sample_parsed = 42" "m_host_name sample_parsed = JStr ''de-1''"
    "m_price sample_parsed = Fin 100" "m_key_id sample_parsed = 0" "e_admin_ids sample_env = [1]"
    by (simp_all add: sample_parsed_def sample_env_def)
  have exp: "expiry_timestamp_ms sample_env sample_parsed 30 = None"
    by (simp add: expiry_timestamp_ms_def sample_parsed_def)
  show ?thesis
    unfolding provision_failure_run [OF sample_parse act sample_claim del sent sample_email fail]
    by (simp add: sample_days sample_classify sample_label sample_accrue fields exp
        sample_world_def)
qed

lemma delete_message_effects:
  "delete_payment_message env metadata w = Some w' \<Longrightarrow>
   w' = w \<or> w' = emit (Delete_message (get metadata ''chat_id'') (get metadata ''message_id'')) w"
  unfolding delete_payment_message_def
  by (auto split: if_splits telegram_result.splits)

lemma claimed_store:
  "claim_processed_payment atts now pid s = (True, s1) \<Longrightarrow>
   s1 = s\<lparr>processed_payments := (processed_payments s)(strip pid \<mapsto> now)\<rparr>"
  by (auto simp: claim_processed_payment_eq claim_work_def split: if_splits option.splits)

text \<open>
  Claim C5, as the code has it. Take a run for a \<open>new\<close> or \<open>extend\<close> order that claimed
  its payment id and reached the provisioning call, and let that call raise or return an
  empty result. Then the run returns, and after the processing notice and the call itself
  it does exactly this: it sends the payer the error code with the refund line, sends every
  operator the payer, the code, its description and the action label (the upstream detail
  only goes to the log), and edits the processing notice. No effect of the run writes a
  key, a balance, the statistics, the transaction log or a promo code. The store differs
  from the one before the run by the claimed payment id and by the partner commission,
  which is accrued right after the claim and before provisioning and is not taken back.
\<close>

theorem provisioning_failure_stops:
  assumes "parse_metadata env metadata = Got p"
    and "m_action p = JStr a" and "a = ''new'' \<or> a = ''extend''"
    and "claim_processed_payment (e_claim_store env) (e_clock env) (m_payment_id p) (w_db w)
      = (True, s1)"
    and "delete_payment_message env metadata
      (w\<lparr>w_db := accrue_for_franchise env metadata p s1\<rparr>) = Some w2"
    and "e_processing_sent env"
    and "candidate_email env p = Some email"
    and "e_provision env = Provision_raises exc \<or>
      (e_provision env = Provision_returns result \<and> empty_response result \<and>
       exc = ''key creation returned empty response'')"
  shows "fst (process_successful_payment env metadata w) = Returned
     \<and> effects_since w2 (snd (process_successful_payment env metadata w)) =
         [Send_message (m_user_id p) (Processing_text (m_host_name p)),
          Provision_call (m_host_name p) email
            (days_to_add (e_str_int env)
               (if m_plan_id p \<noteq> 0 then e_plan_by_id env (m_plan_id p) else None)
               (m_months p) (m_duration_days_meta p))
            (expiry_timestamp_ms env p
               (days_to_add (e_str_int env)
                  (if m_plan_id p \<noteq> 0 then e_plan_by_id env (m_plan_id p) else None)
                  (m_months p) (m_duration_days_meta p))),
          Send_message (m_user_id p)
            (Key_creation_error_text (fst (classify_key_creation_error exc)) True)] @
         map (\<lambda>aid. Send_message aid
                (Admin_key_creation_error_text (m_user_id p)
                   (fst (classify_key_creation_error exc))
                   (fst (snd (classify_key_creation_error exc)))
                   (format_key_action_label a (m_price p) (m_key_id p))))
           (e_admin_ids env) @
         [Edit_processing Key_create_failed_text]
     \<and> \<not> (\<exists>e \<in> set (effects_since w (snd (process_successful_payment env metadata w))).
            is_fulfillment_write e)
     \<and> w_db (snd (process_successful_payment env metadata w))
         = accrue_for_franchise env metadata p s1
     \<and> (\<exists>cs. w_db (snd (process_successful_payment env metadata w))
           = (w_db w)\<lparr>processed_payments :=
                        (processed_payments (w_db w))(m_payment_id p \<mapsto> e_clock env),
                      partner_commissions := cs\<rparr>)"
proof -
  let ?w1 = "w\<lparr>w_db := accrue_for_franchise env metadata p s1\<rparr>"
  let ?tail = "[Send_message (m_user_id p) (Processing_text (m_host_name p)),
          Provision_call (m_host_name p) email
            (days_to_add (e_str_int env)
               (if m_plan_id p \<noteq> 0 then e_plan_by_id env (m_plan_id p) else None)
               (m_months p) (m_duration_days_meta p))
            (expiry_timestamp_ms env p
               (days_to_add (e_str_int env)
                  (if m_plan_id p \<noteq> 0 then e_plan_by_id env (m_plan_id p) else None)
                  (m_months p) (m_duration_days_meta p))),
          Send_message (m_user_id p)
            (Key_creation_error_text (fst (classify_key_creation_error exc)) True)] @
         map (\<lambda>aid. Send_message aid
                (Admin_key_creation_error_text (m_user_id p)
                   (fst (classify_key_creation_error exc))
                   (fst (snd (classify_key_creation_error exc)))
                   (format_key_action_label a (m_price p) (m_key_id p))))
           (e_admin_ids env) @
         [Edit_processing Key_create_failed_text]"
  have run: "process_successful_payment env metadata w
      = (Returned, w2\<lparr>w_effects := w_effects w2 @ ?tail\<rparr>)"
    by (rule provision_failure_run [OF assms])
  have quiet: "\<not> is_fulfillment_write e" if "e \<in> set ?tail" for e
    using that by auto
  from delete_message_effects [OF assms(5)]
  have w2: "w_db w2 = accrue_for_franchise env metadata p s1 \<and>
      (w_effects w2 = w_effects w \<or>
       w_effects w2 = w_effects w @
         [Delete_message (get metadata ''chat_id'') (get metadata ''message_id'')])"
    by (auto simp: emit_def)
  have c1: "fst (process_successful_payment env metadata w) = Returned"
    by (simp add: run)
  have c2: "effects_since w2 (snd (process_successful_payment env metadata w)) = ?tail"
    by (simp add: run effects_since_def)
  have c3: "\<not> (\<exists>e \<in> set (effects_since w (snd (process_successful_payment env metadata w))).
      is_fulfillment_write e)"
  proof -
    from w2 have "effects_since w (snd (process_successful_payment env metadata w)) = ?tail \<or>
        effects_since w (snd (process_successful_payment env metadata w)) =
          Delete_message (get metadata ''chat_id'') (get metadata ''message_id'') # ?tail"
      by (auto simp: run effects_since_def)
    with quiet show ?thesis
      by auto
  qed
  have c4: "w_db (snd (process_successful_payment env metadata w))
      = accrue_for_franchise env metadata p s1"
    using w2 by (simp add: run)
  from claimed_store [OF assms(4)] payment_id_stripped [OF assms(1)]
  have s1: "s1 = (w_db w)\<lparr>processed_payments :=
      (processed_payments (w_db w))(m_payment_id p \<mapsto> e_clock env)\<rparr>"
    by simp
  from accrue_for_franchise_only_commissions [of env metadata p s1]
  obtain cs where "accrue_for_franchise env metadata p s1 = s1\<lparr>partner_commissions := cs\<rparr>"
    by blast
  with c4 s1 have c5: "\<exists>cs. w_db (snd (process_successful_payment env metadata w))
      = (w_db w)\<lparr>processed_payments :=
                   (processed_payments (w_db w))(m_payment_id p \<mapsto> e_clock env),
                 partner_commissions := cs\<rparr>"
    by auto
  from c1 c2 c3 c4 c5 show ?thesis
    by blast
qed

text \<open>
  The claim as written has no money-moving side effect in such a run. In the sample run a
  card payment of 100 that came through managed bot 7 fails at provisioning, the payer is
  promised a refund, and the store has gained the partner's commission of 35.
\<close>

theorem provisioning_failure_commission_counterexample:
  "m_action sample_parsed = JStr ''new''
   \<and> e_provision sample_env = Provision_raises ''request failed: 500 upstream timeout''
   \<and> partner_commissions (w_db sample_world) = []
   \<and> process_successful_payment sample_env sample_meta sample_world =
       (Returned,
        \<lparr>w_db = empty_db\<lparr>processed_payments := [''p2'' \<mapsto> 10],
                   partner_commissions := [sample_commission]\<rparr>,
         w_effects =
           [Send_message 42 (Processing_text (JStr ''de-1'')),
            Provision_call (JStr ''de-1'') (Some ''42-1@bot.local'') 30 None,
            Send_message 42 (Key_creation_error_text ''500'' True),
            Send_message 1 (Admin_key_creation_error_text 42 ''500'' Unknown_error
                              (Label_purchase (Fin 100))),
            Edit_processing Key_create_failed_text]\<rparr>)
   \<and> c_commission_rub sample_commission = Fin 35"
proof -
  have "m_action sample_parsed = JStr ''new''"
    by (simp add: sample_parsed_def)
  moreover have "e_provision sample_env
      = Provision_raises ''request failed: 500 upstream timeout''"
    by (simp add: sample_env_def)
  moreover have "partner_commissions (w_db sample_world) = []"
    by (simp add: sample_world_def empty_db_def)
  moreover have "c_commission_rub sample_commission = Fin 35"
    by (simp add: sample_commission_def)
  ultimately show ?thesis
    using sample_run by blast
qed

theorem provisioning_failure_stops_witness:
  "parse_metadata sample_env sample_meta = Got sample_parsed
   \<and> m_action sample_parsed = JStr ''new''
   \<and> claim_processed_payment (e_claim_store sample_env) (e_clock sample_env)
        (m_payment_id sample_parsed) (w_db sample_world)
       = (True, empty_db\<lparr>processed_payments := [''p2'' \<mapsto> 10]\<rparr>)
   \<and> e_processing_sent sample_env
   \<and> candidate_email sample_env sample_parsed = Some (Some ''42-1@bot.local'')
   \<and> e_provision sample_env = Provision_raises ''request failed: 500 upstream timeout''
   \<and> fst (process_successful_payment sample_env sample_meta sample_world) = Returned
   \<and> \<not> (\<exists>e \<in> set (effects_since sample_world
                      (snd (process_successful_payment sample_env sample_meta sample_world))).
          is_fulfillment_write e)
   \<and> w_db (snd (process_successful_payment sample_env sample_meta sample_world))
       = accrue_for_franchise sample_env sample_meta sample_parsed
           (empty_db\<lparr>processed_payments := [''p2'' \<mapsto> 10]\<rparr>)"
proof -
  have act: "m_action sample_parsed = JStr ''new''" "''new'' = ''new'' \<or> ''new'' = ''extend''"
    by (simp_all add: sample_parsed_def)
  have del: "delete_payment_message sample_env sample_meta
      (sample_world\<lparr>w_db := accrue_for_franchise sample_env sample_meta sample_parsed
         (empty_db\<lparr>processed_payments := [''p2'' \<mapsto> 10]\<rparr>)\<rparr>)
    = Some (sample_world\<lparr>w_db := accrue_for_franchise sample_env sample_meta sample_parsed
         (empty_db\<lparr>processed_payments := [''p2'' \<mapsto> 10]\<rparr>)\<rparr>)"
    by (rule sample_no_delete)
  have sent: "e_processing_sent sample_env"
    by (simp add: sample_env_def)
  have raises: "e_provision sample_env = Provision_raises ''request failed: 500 upstream timeout''"
    by (simp add: sample_env_def)
  then have fail: "e_provision sample_env
        = Provision_raises ''request failed: 500 upstream timeout'' \<or>
      (e_provision sample_env = Provision_returns None \<and> empty_response None \<and>
       ''request failed: 500 upstream timeout'' = ''key creation returned empty response'')"
    by simp
  note t = provisioning_failure_stops [OF sample_parse act sample_claim del sent sample_email fail]
  from t sample_parse act(1) sample_claim sent sample_email raises show ?thesis
    by blast
qed

theorem duplicate_fulfillment_noop_witness:
  "parse_metadata sample_env sample_meta = Got sample_parsed
   \<and> processed_payments (w_db duplicate_world) (m_payment_id sample_parsed) \<noteq> None
   \<and> process_successful_payment sample_env sample_meta duplicate_world = (Returned, duplicate_world)
   \<and> m_payment_id sample_parsed \<noteq> [] \<and> goes_through 5 (e_claim_store sample_env)
   \<and> snd (process_successful_payment sample_env sample_meta
            (snd (process_successful_payment sample_env sample_meta sample_world)))
       = snd (process_successful_payment sample_env sample_meta sample_world)"
proof -
  have h2: "processed_payments (w_db duplicate_world) (m_payment_id sample_parsed) \<noteq> None"
    by (simp add: duplicate_world_def sample_parsed_def)
  have h3: "m_payment_id sample_parsed \<noteq> [] \<and> goes_through 5 (e_claim_store sample_env)"
    by (simp add: sample_parsed_def sample_env_def goes_through_5_nil)
  note t = duplicate_fulfillment_noop [where env = sample_env and metadata = sample_meta
      and p = sample_parsed]
  from t [where w = duplicate_world, THEN conjunct2, THEN conjunct1] sample_parse h2
  have c2: "process_successful_payment sample_env sample_meta duplicate_world
      = (Returned, duplicate_world)"
    by blast
  from t [where w = sample_world, THEN conjunct2, THEN conjunct2] sample_parse h3
  have c3: "snd (process_successful_payment sample_env sample_meta
            (snd (process_successful_payment sample_env sample_meta sample_world)))
       = snd (process_successful_payment sample_env sample_meta sample_world)"
    by blast
  from sample_parse h2 c2 h3 c3 show ?thesis
    by blast
qed

subsection \<open>Duration\<close>









end
